theory Spec2Isabelle
  imports Complex_Main
begin

section \<open>JavaScript numbers and values\<close>

text \<open>
  The server code (\<^verbatim>\<open>src/server/routes.ts\<close>, \<^verbatim>\<open>src/server/storage.ts\<close>) computes with
  JavaScript numbers. A number is a rational (every finite double is one) or one of the
  three non-finite values. Comparison, \<^verbatim>\<open>Math.ceil\<close> and \<^verbatim>\<open>Number.isInteger\<close> are exact on
  doubles and are defined here. The operations \<^verbatim>\<open>+ - * /\<close> round their result to a
  double: the handlers take them from the run time (record \<open>js_runtime\<close> below), so that
  nothing is assumed about the rounding. The exact operations \<open>js_add\<close>, \<open>js_sub\<close>,
  \<open>js_mul\<close> and \<open>js_div\<close> defined here serve two purposes: the comparator of the slab
  sort reads only the sign of a difference, which rounding does not change, and the
  run time of the examples computes with them on integers and halves, where the
  double operations are exact as well. Zero has no sign.
\<close>

datatype jsnum = Fin rat | PInf | NInf | NaN

fun js_isFinite :: "jsnum \<Rightarrow> bool" where
  "js_isFinite (Fin _) = True"
| "js_isFinite _ = False"

text \<open>\<^verbatim>\<open>a < b\<close>: false as soon as one side is \<^verbatim>\<open>NaN\<close>.\<close>

fun js_lt :: "jsnum \<Rightarrow> jsnum \<Rightarrow> bool" where
  "js_lt NaN _ = False"
| "js_lt _ NaN = False"
| "js_lt (Fin a) (Fin b) = (a < b)"
| "js_lt (Fin _) PInf = True"
| "js_lt (Fin _) NInf = False"
| "js_lt NInf NInf = False"
| "js_lt NInf _ = True"
| "js_lt PInf _ = False"

text \<open>\<^verbatim>\<open>a <= b\<close>, \<^verbatim>\<open>a > b\<close>, \<^verbatim>\<open>a >= b\<close>, and \<^verbatim>\<open>a === b\<close> on numbers.\<close>

definition js_le :: "jsnum \<Rightarrow> jsnum \<Rightarrow> bool" where
  "js_le a b = (a \<noteq> NaN \<and> b \<noteq> NaN \<and> \<not> js_lt b a)"

definition js_gt :: "jsnum \<Rightarrow> jsnum \<Rightarrow> bool" where
  "js_gt a b = js_lt b a"

definition js_ge :: "jsnum \<Rightarrow> jsnum \<Rightarrow> bool" where
  "js_ge a b = js_le b a"

definition js_eq :: "jsnum \<Rightarrow> jsnum \<Rightarrow> bool" where
  "js_eq a b = (a \<noteq> NaN \<and> a = b)"

fun js_neg :: "jsnum \<Rightarrow> jsnum" where
  "js_neg (Fin a) = Fin (- a)"
| "js_neg PInf = NInf"
| "js_neg NInf = PInf"
| "js_neg NaN = NaN"

fun js_add :: "jsnum \<Rightarrow> jsnum \<Rightarrow> jsnum" where
  "js_add NaN _ = NaN"
| "js_add _ NaN = NaN"
| "js_add (Fin a) (Fin b) = Fin (a + b)"
| "js_add (Fin _) PInf = PInf"
| "js_add (Fin _) NInf = NInf"
| "js_add PInf NInf = NaN"
| "js_add PInf _ = PInf"
| "js_add NInf PInf = NaN"
| "js_add NInf _ = NInf"

definition js_sub :: "jsnum \<Rightarrow> jsnum \<Rightarrow> jsnum" where
  "js_sub a b = js_add a (js_neg b)"

text \<open>The sign of a non-\<^verbatim>\<open>NaN\<close> number: \<open>-1\<close>, \<open>0\<close> or \<open>1\<close>.\<close>

fun js_sign :: "jsnum \<Rightarrow> int" where
  "js_sign (Fin a) = (if a < 0 then - 1 else if a = 0 then 0 else 1)"
| "js_sign PInf = 1"
| "js_sign NInf = - 1"
| "js_sign NaN = 0"

definition inf_of_sign :: "int \<Rightarrow> jsnum" where
  "inf_of_sign s = (if s < 0 then NInf else if s = 0 then NaN else PInf)"

fun js_mul :: "jsnum \<Rightarrow> jsnum \<Rightarrow> jsnum" where
  "js_mul NaN _ = NaN"
| "js_mul _ NaN = NaN"
| "js_mul (Fin a) (Fin b) = Fin (a * b)"
| "js_mul a b = inf_of_sign (js_sign a * js_sign b)"

fun js_div :: "jsnum \<Rightarrow> jsnum \<Rightarrow> jsnum" where
  "js_div NaN _ = NaN"
| "js_div _ NaN = NaN"
| "js_div (Fin a) (Fin b) = (if b = 0 then inf_of_sign (js_sign (Fin a)) else Fin (a / b))"
| "js_div (Fin _) _ = Fin 0"
| "js_div a (Fin b) = (if b < 0 then js_neg a else a)"
| "js_div _ _ = NaN"

text \<open>\<^verbatim>\<open>Math.ceil\<close>.\<close>

fun js_ceil :: "jsnum \<Rightarrow> jsnum" where
  "js_ceil (Fin a) = Fin (of_int \<lceil>a\<rceil>)"
| "js_ceil a = a"

text \<open>Truthiness of a number, as \<^verbatim>\<open>||\<close> and \<^verbatim>\<open>if\<close> see it.\<close>

definition js_truthy :: "jsnum \<Rightarrow> bool" where
  "js_truthy a = (a \<noteq> NaN \<and> a \<noteq> Fin 0)"

text \<open>\<^verbatim>\<open>Number.isInteger\<close>.\<close>

fun js_isInteger :: "jsnum \<Rightarrow> bool" where
  "js_isInteger (Fin a) = (of_int \<lfloor>a\<rfloor> = a)"
| "js_isInteger _ = False"

text \<open>The rational value of a finite number (\<open>0\<close> for the others).\<close>

fun ratOf :: "jsnum \<Rightarrow> rat" where
  "ratOf (Fin r) = r"
| "ratOf _ = 0"

text \<open>
  An integer column of the database read into JavaScript is an integer-valued number.
\<close>

definition num :: "int \<Rightarrow> jsnum" where
  "num i = Fin (of_int i)"

text \<open>
  The untyped values that reach the slab normaliser from a JSON request body. Objects
  and arrays in a slab field are not modelled.
\<close>

datatype jsval = JUndefined | JNull | JBool bool | JNum jsnum | JStr string

text \<open>
  The built-in conversions between strings and numbers are part of the language run
  time, not of this repository. They are parameters of the model, so every theorem
  below holds for whatever these functions compute: \<^verbatim>\<open>Number(s)\<close> and
  \<^verbatim>\<open>parseFloat(s)\<close> on a string, \<^verbatim>\<open>String(n)\<close> and \<^verbatim>\<open>n.toFixed(2)\<close> on a number,
  and \<^verbatim>\<open>s.trim()\<close>. The same holds for the arithmetic of doubles: \<open>dbl_add\<close>,
  \<open>dbl_sub\<close>, \<open>dbl_mul\<close> and \<open>dbl_div\<close> are \<^verbatim>\<open>a + b\<close>, \<^verbatim>\<open>a - b\<close>, \<^verbatim>\<open>a * b\<close> and
  \<^verbatim>\<open>a / b\<close> on numbers, with the rounding of IEEE 754 that the run time performs.
\<close>

record js_runtime =
  Number_str :: "string \<Rightarrow> jsnum"
  parseFloat_str :: "string \<Rightarrow> jsnum"
  String_num :: "jsnum \<Rightarrow> string"
  toFixed2 :: "jsnum \<Rightarrow> string"
  trim :: "string \<Rightarrow> string"
  dbl_add :: "jsnum \<Rightarrow> jsnum \<Rightarrow> jsnum"
  dbl_sub :: "jsnum \<Rightarrow> jsnum \<Rightarrow> jsnum"
  dbl_mul :: "jsnum \<Rightarrow> jsnum \<Rightarrow> jsnum"
  dbl_div :: "jsnum \<Rightarrow> jsnum \<Rightarrow> jsnum"

text \<open>\<^verbatim>\<open>Number(v)\<close> and \<^verbatim>\<open>String(v)\<close> on an untyped value.\<close>

fun js_Number :: "js_runtime \<Rightarrow> jsval \<Rightarrow> jsnum" where
  "js_Number rt JUndefined = NaN"
| "js_Number rt JNull = Fin 0"
| "js_Number rt (JBool b) = (if b then Fin 1 else Fin 0)"
| "js_Number rt (JNum n) = n"
| "js_Number rt (JStr s) = Number_str rt s"

fun js_String :: "js_runtime \<Rightarrow> jsval \<Rightarrow> string" where
  "js_String rt JUndefined = ''undefined''"
| "js_String rt JNull = ''null''"
| "js_String rt (JBool b) = (if b then ''true'' else ''false'')"
| "js_String rt (JNum n) = String_num rt n"
| "js_String rt (JStr s) = s"

text \<open>\<^verbatim>\<open>v ?? d\<close>.\<close>

fun nullish_or :: "jsval \<Rightarrow> jsval \<Rightarrow> jsval" where
  "nullish_or JUndefined d = d"
| "nullish_or JNull d = d"
| "nullish_or v d = v"

section \<open>Slab Normalizer (\<^verbatim>\<open>normalizePriceSlabs\<close>, routes.ts 55--115)\<close>

record PriceSlabRange =
  minQty :: jsnum
  maxQty :: "jsnum option"
  price :: string

text \<open>
  One element \<^verbatim>\<open>s\<close> of the input array, seen through the three reads \<^verbatim>\<open>s?.minQty\<close>,
  \<^verbatim>\<open>s?.maxQty\<close>, \<^verbatim>\<open>s?.price\<close> (all \<^verbatim>\<open>undefined\<close> when \<^verbatim>\<open>s\<close> is \<^verbatim>\<open>null\<close> or not an object).
\<close>

record raw_slab =
  raw_minQty :: jsval
  raw_maxQty :: jsval
  raw_price :: jsval

text \<open>The body of the \<^verbatim>\<open>.map\<close> callback.\<close>

definition coerceSlab :: "js_runtime \<Rightarrow> raw_slab \<Rightarrow> PriceSlabRange" where
  "coerceSlab rt s =
     (let rawMax = raw_maxQty s in
      \<lparr> minQty = js_Number rt (raw_minQty s),
        maxQty = (if rawMax = JStr '''' \<or> rawMax = JUndefined \<or> rawMax = JNull then None
                  else Some (js_Number rt rawMax)),
        price = trim rt (js_String rt (nullish_or (raw_price s) (JStr ''''))) \<rparr>)"

text \<open>The \<^verbatim>\<open>.filter\<close> predicate.\<close>

definition retained :: "PriceSlabRange \<Rightarrow> bool" where
  "retained s = (js_isFinite (minQty s) \<and> js_gt (minQty s) (Fin 0) \<and> price s \<noteq> '''')"

datatype slab_error =
    SlabPriceInvalid      \<comment> \<open>"Slab price must be a number >= 0"\<close>
  | MaxQtyInvalid         \<comment> \<open>"Max Qty must be empty (open-ended) or >= Min Qty"\<close>
  | MultipleOpenEnded     \<comment> \<open>"Only one open-ended slab (blank Max Qty) is allowed"\<close>
  | RangesOverlap         \<comment> \<open>"Slab ranges overlap. Please make ranges non-overlapping."\<close>

text \<open>The price and range validation loop; the first violation throws.\<close>

fun validateSlabs :: "js_runtime \<Rightarrow> PriceSlabRange list \<Rightarrow> slab_error option" where
  "validateSlabs rt [] = None"
| "validateSlabs rt (s # ss) =
     (let p = Number_str rt (price s) in
      if \<not> js_isFinite p \<or> js_lt p (Fin 0) then Some SlabPriceInvalid
      else if (case maxQty s of None \<Rightarrow> False
               | Some m \<Rightarrow> \<not> js_isFinite m \<or> js_lt m (minQty s)) then Some MaxQtyInvalid
      else validateSlabs rt ss)"

text \<open>\<^verbatim>\<open>v ?? Infinity\<close> in the comparator, and \<^verbatim>\<open>toMax\<close> in the overlap check.\<close>

definition toMax :: "jsnum option \<Rightarrow> jsnum" where
  "toMax v = (case v of None \<Rightarrow> PInf | Some m \<Rightarrow> m)"

text \<open>
  The comparator
  \<^verbatim>\<open>(a, b) => a.minQty - b.minQty || (a.maxQty ?? Infinity) - (b.maxQty ?? Infinity)\<close>.
\<close>

definition slabCmp :: "PriceSlabRange \<Rightarrow> PriceSlabRange \<Rightarrow> jsnum" where
  "slabCmp a b =
     (let d = js_sub (minQty a) (minQty b) in
      if js_truthy d then d else js_sub (toMax (maxQty a)) (toMax (maxQty b)))"

text \<open>
  \<^verbatim>\<open>Array.prototype.sort\<close> is a stable sort: an element moves behind another one only
  when the comparator of the two is positive. It is modelled as stable insertion sort;
  whenever the comparator is a consistent ordering (as it is on validated slabs) every
  stable sort returns this list.
\<close>

fun insortSlab :: "PriceSlabRange \<Rightarrow> PriceSlabRange list \<Rightarrow> PriceSlabRange list" where
  "insortSlab x [] = [x]"
| "insortSlab x (y # ys) =
     (if js_gt (slabCmp x y) (Fin 0) then y # insortSlab x ys else x # y # ys)"

fun sortSlabs :: "PriceSlabRange list \<Rightarrow> PriceSlabRange list" where
  "sortSlabs [] = []"
| "sortSlabs (x # xs) = insortSlab x (sortSlabs xs)"

text \<open>\<^verbatim>\<open>const overlap = a.minQty <= bMax && b.minQty <= aMax\<close>.\<close>

definition overlap :: "PriceSlabRange \<Rightarrow> PriceSlabRange \<Rightarrow> bool" where
  "overlap a b =
     (js_le (minQty a) (toMax (maxQty b)) \<and> js_le (minQty b) (toMax (maxQty a)))"

text \<open>The inner loop over \<open>j > i\<close> and the outer loop over \<open>i\<close>.\<close>

fun overlapsLater :: "PriceSlabRange \<Rightarrow> PriceSlabRange list \<Rightarrow> bool" where
  "overlapsLater a [] = False"
| "overlapsLater a (b # bs) = (if overlap a b then True else overlapsLater a bs)"

fun hasOverlap :: "PriceSlabRange list \<Rightarrow> bool" where
  "hasOverlap [] = False"
| "hasOverlap (a # as) = (if overlapsLater a as then True else hasOverlap as)"

text \<open>
  The input is \<open>None\<close> when it is not an array (the function then returns the empty
  list). A thrown \<^verbatim>\<open>Error\<close> is the left summand.
\<close>

definition cleanSlabs :: "js_runtime \<Rightarrow> raw_slab list \<Rightarrow> PriceSlabRange list" where
  "cleanSlabs rt xs = filter retained (map (coerceSlab rt) xs)"

definition normalizePriceSlabs ::
  "js_runtime \<Rightarrow> raw_slab list option \<Rightarrow> slab_error + PriceSlabRange list" where
  "normalizePriceSlabs rt input =
     (case input of
        None \<Rightarrow> Inr []
      | Some xs \<Rightarrow>
          (let cleaned = cleanSlabs rt xs in
           case validateSlabs rt cleaned of
             Some e \<Rightarrow> Inl e
           | None \<Rightarrow>
               if length (filter (\<lambda>s. maxQty s = None) cleaned) > 1 then Inl MultipleOpenEnded
               else (let sorted = sortSlabs cleaned in
                     if hasOverlap sorted then Inl RangesOverlap else Inr sorted)))"

section \<open>Unit Price Resolver (\<^verbatim>\<open>getUnitPriceForQty\<close>, routes.ts 117--137)\<close>

text \<open>
  The fields of a product row that the handlers read. \<^verbatim>\<open>price\<close> is a decimal string,
  \<^verbatim>\<open>priceSlabs\<close> a JSON array or \<^verbatim>\<open>null\<close>, \<^verbatim>\<open>stock\<close> an integer or \<^verbatim>\<open>null\<close>.
\<close>

record Product =
  p_name :: string
  p_sku :: "string option"
  p_price :: "string option"
  p_stock :: "int option"
  p_isActive :: bool
  p_bulkBuy :: bool
  p_colors :: "string list"
  p_sizes :: "string list"
  p_priceSlabs :: "PriceSlabRange list option"

text \<open>The predicate given to \<^verbatim>\<open>slabs.find\<close>.\<close>

definition slabMatches :: "jsnum \<Rightarrow> PriceSlabRange \<Rightarrow> bool" where
  "slabMatches qty s =
     (let mn = minQty s; mx = toMax (maxQty s) in
      js_isFinite mn \<and> js_ge qty mn \<and> js_le qty mx)"

definition getUnitPriceForQty :: "js_runtime \<Rightarrow> Product \<Rightarrow> jsnum \<Rightarrow> jsnum" where
  "getUnitPriceForQty rt product qty =
     (let base = (case p_price product of None \<Rightarrow> Fin 0 | Some s \<Rightarrow> Number_str rt s);
          slabs = (case p_priceSlabs product of None \<Rightarrow> [] | Some ss \<Rightarrow> ss)
      in if slabs = [] then base
         else (case find (slabMatches qty) slabs of
                 None \<Rightarrow> base
               | Some m \<Rightarrow>
                   (let slabPrice = Number_str rt (price m) in
                    if \<not> js_isFinite slabPrice \<or> js_lt slabPrice (Fin 0) then base
                    else slabPrice)))"

section \<open>Properties of slab lists used in the statements\<close>

definition openEnded :: "PriceSlabRange \<Rightarrow> bool" where
  "openEnded s = (maxQty s = None)"

text \<open>
  A slab as the data model describes it: a finite \<^verbatim>\<open>minQty\<close> and a \<^verbatim>\<open>maxQty\<close> that is
  \<^verbatim>\<open>null\<close> or a finite number not below \<^verbatim>\<open>minQty\<close>.
\<close>

definition wellFormed :: "PriceSlabRange \<Rightarrow> bool" where
  "wellFormed s =
     (js_isFinite (minQty s) \<and>
      (case maxQty s of None \<Rightarrow> True | Some m \<Rightarrow> js_isFinite m \<and> \<not> js_lt m (minQty s)))"

text \<open>Ascending order by \<open>(minQty, maxQty-or-infinity)\<close>, lexicographically.\<close>

definition slab_le :: "PriceSlabRange \<Rightarrow> PriceSlabRange \<Rightarrow> bool" where
  "slab_le a b =
     (js_lt (minQty a) (minQty b) \<or>
      (minQty a = minQty b \<and> js_le (toMax (maxQty a)) (toMax (maxQty b))))"

text \<open>The closed interval \<open>[minQty, maxQty-or-infinity]\<close> of a slab contains \<open>q\<close>.\<close>

definition contains_qty :: "jsnum \<Rightarrow> PriceSlabRange \<Rightarrow> bool" where
  "contains_qty q s = (js_le (minQty s) q \<and> js_le q (toMax (maxQty s)))"

text \<open>The invariant of a product's stored slab table in the data model.\<close>

definition slabsInvariant :: "PriceSlabRange list \<Rightarrow> bool" where
  "slabsInvariant slabs = (list_all wellFormed slabs \<and> sorted_wrt slab_le slabs)"

definition basePrice :: "js_runtime \<Rightarrow> Product \<Rightarrow> jsnum" where
  "basePrice rt product = (case p_price product of None \<Rightarrow> Fin 0 | Some s \<Rightarrow> Number_str rt s)"

text \<open>
  The resolver as the specification words it: the base price without slabs; otherwise
  the first slab, in ascending sorted order, whose interval contains the quantity,
  if its price parses to a finite number \<open>\<ge> 0\<close>; the base price in every other case.
\<close>

definition resolve_spec :: "js_runtime \<Rightarrow> Product \<Rightarrow> jsnum \<Rightarrow> jsnum" where
  "resolve_spec rt product q =
     (case p_priceSlabs product of
        None \<Rightarrow> basePrice rt product
      | Some slabs \<Rightarrow>
          if slabs = [] then basePrice rt product
          else (case find (contains_qty q) (sortSlabs slabs) of
                  None \<Rightarrow> basePrice rt product
                | Some m \<Rightarrow>
                    (let sp = Number_str rt (price m) in
                     if js_isFinite sp \<and> js_le (Fin 0) sp then sp else basePrice rt product)))"

section \<open>A run time for the examples\<close>

text \<open>
  The examples need one concrete run time. Its arithmetic is the exact one: the
  examples add, subtract, multiply and divide integers and halves of moderate size,
  and on these the operations on doubles are exact. \<open>decNumber\<close> reads a signed decimal literal
  without exponent, as \<^verbatim>\<open>Number\<close> does on such a string, and maps the empty string to
  \<open>0\<close>; every other string goes to \<^verbatim>\<open>NaN\<close> (JavaScript also accepts exponents,
  hexadecimal literals, surrounding blanks and \<^verbatim>\<open>Infinity\<close>; the examples use none).
\<close>

definition is_digit :: "char \<Rightarrow> bool" where
  "is_digit c = (c \<in> set ''0123456789'')"

definition digit_val :: "char \<Rightarrow> nat" where
  "digit_val c = length (takeWhile (\<lambda>d. d \<noteq> c) ''0123456789'')"

fun digits_val :: "nat \<Rightarrow> string \<Rightarrow> nat" where
  "digits_val acc [] = acc"
| "digits_val acc (c # cs) = digits_val (acc * 10 + digit_val c) cs"

definition decLiteral :: "bool \<Rightarrow> string \<Rightarrow> jsnum" where
  "decLiteral prefixOnly s =
     (let neg = (s \<noteq> [] \<and> hd s = CHR ''-'');
          body = (if s \<noteq> [] \<and> (hd s = CHR ''-'' \<or> hd s = CHR ''+'') then tl s else s);
          ip = takeWhile is_digit body;
          rest = dropWhile is_digit body;
          fp = (if rest \<noteq> [] \<and> hd rest = CHR ''.'' then takeWhile is_digit (tl rest) else []);
          tail = (if rest \<noteq> [] \<and> hd rest = CHR ''.'' then dropWhile is_digit (tl rest) else rest);
          v = of_nat (digits_val 0 ip) + of_nat (digits_val 0 fp) / 10 ^ length fp
      in if ip = [] \<and> fp = [] then NaN
         else if tail \<noteq> [] \<and> \<not> prefixOnly then NaN
         else Fin (if neg then - v else v))"

definition decNumber :: "string \<Rightarrow> jsnum" where
  "decNumber s = (if s = [] then Fin 0 else decLiteral False s)"

text \<open>\<^verbatim>\<open>parseFloat\<close> reads the longest decimal prefix and gives \<^verbatim>\<open>NaN\<close> without one.\<close>

definition decParseFloat :: "string \<Rightarrow> jsnum" where
  "decParseFloat s = decLiteral True s"

definition digit_char :: "nat \<Rightarrow> char" where
  "digit_char d = ''0123456789'' ! (d mod 10)"

text \<open>\<^verbatim>\<open>String(n)\<close> for a non-negative integer: its decimal digits.\<close>

fun dec_of_nat :: "nat \<Rightarrow> string" where
  "dec_of_nat n = (if n < 10 then [digit_char n] else dec_of_nat (n div 10) @ [digit_char n])"

text \<open>
  \<^verbatim>\<open>x.toFixed(2)\<close> on a finite number: round half away from zero to two decimals.
\<close>

definition decToFixed2 :: "jsnum \<Rightarrow> string" where
  "decToFixed2 x =
     (case x of
        NaN \<Rightarrow> ''NaN'' | PInf \<Rightarrow> ''Infinity'' | NInf \<Rightarrow> ''-Infinity''
      | Fin r \<Rightarrow>
          (let n = nat \<lfloor>\<bar>r\<bar> * 100 + 1 / 2\<rfloor>
           in (if r < 0 \<and> n \<noteq> 0 then ''-'' else []) @ dec_of_nat (n div 100) @ ''.'' @
              [digit_char (n div 10), digit_char n]))"

text \<open>
  \<^verbatim>\<open>String(n)\<close>: exact on integers and on the non-finite values. A fractional number is
  printed with two decimals here, which is not JavaScript's shortest form; no example
  converts one.
\<close>

definition decString :: "jsnum \<Rightarrow> string" where
  "decString x =
     (case x of
        Fin r \<Rightarrow>
          (if of_int \<lfloor>r\<rfloor> = r then (if r < 0 then ''-'' else []) @ dec_of_nat (nat \<bar>\<lfloor>r\<rfloor>\<bar>)
           else decToFixed2 x)
      | _ \<Rightarrow> decToFixed2 x)"

definition is_space :: "char \<Rightarrow> bool" where
  "is_space c = (c \<in> set [CHR '' '', CHR 0x09, CHR 0x0A, CHR 0x0B, CHR 0x0C, CHR 0x0D])"

definition asciiTrim :: "string \<Rightarrow> string" where
  "asciiTrim s = rev (dropWhile is_space (rev (dropWhile is_space s)))"

definition rt0 :: js_runtime where
  "rt0 = \<lparr> Number_str = decNumber, parseFloat_str = decParseFloat, String_num = decString,
           toFixed2 = decToFixed2, trim = asciiTrim,
           dbl_add = js_add, dbl_sub = js_sub, dbl_mul = js_mul, dbl_div = js_div \<rparr>"

text \<open>The slab table and base price of the specification's worked example.\<close>

definition exampleSlabs :: "PriceSlabRange list" where
  "exampleSlabs =
     [\<lparr> minQty = Fin 1, maxQty = Some (Fin 9), price = ''100'' \<rparr>,
      \<lparr> minQty = Fin 10, maxQty = None, price = ''80'' \<rparr>]"

definition exampleProduct :: Product where
  "exampleProduct =
     \<lparr> p_name = ''Mug'', p_sku = Some ''MUG-1'', p_price = Some ''120'', p_stock = Some 50,
       p_isActive = True, p_bulkBuy = True, p_colors = [], p_sizes = [],
       p_priceSlabs = Some exampleSlabs \<rparr>"

definition rawSlab :: "jsval \<Rightarrow> jsval \<Rightarrow> jsval \<Rightarrow> raw_slab" where
  "rawSlab mn mx pr = \<lparr> raw_minQty = mn, raw_maxQty = mx, raw_price = pr \<rparr>"

text \<open>Admin input for the example table, given out of order and with string fields.\<close>

definition exampleRaw :: "raw_slab list" where
  "exampleRaw =
     [rawSlab (JNum (Fin 10)) (JStr []) (JStr '' 80''),
      rawSlab (JStr ''1'') (JNum (Fin 9)) (JStr ''100'')]"

text \<open>Two overlapping slabs with valid prices and ranges: \<open>[1,10]\<close> and \<open>[5,15]\<close>.\<close>

definition overlappingRaw :: "raw_slab list" where
  "overlappingRaw =
     [rawSlab (JNum (Fin 1)) (JNum (Fin 10)) (JStr ''100''),
      rawSlab (JNum (Fin 5)) (JNum (Fin 15)) (JStr ''90'')]"

text \<open>Two open-ended slabs, \<open>[1,\<infinity>)\<close> and \<open>[5,\<infinity>)\<close>: their intervals overlap too.\<close>

definition twoOpenRaw :: "raw_slab list" where
  "twoOpenRaw =
     [rawSlab (JNum (Fin 1)) JNull (JStr ''100''),
      rawSlab (JNum (Fin 5)) JNull (JStr ''90'')]"

section \<open>The persistence layer (\<^verbatim>\<open>src/server/storage.ts\<close>)\<close>

text \<open>
  Tables with a primary key that the handlers read by key are maps from the key to the
  row; tables the handlers iterate over are lists of rows. A row has the columns the
  handlers read or write (the schema is the \<^verbatim>\<open>pgTable\<close> declarations that follow
  \<^verbatim>\<open>src/client/src/pages/bulk-buy.tsx\<close>). Integer columns are integers;
  \<^verbatim>\<open>employees.points\<close> is kept as the JavaScript number read from it, and an update of
  it is refused unless the number is an integer of 32 bits (\<open>updateEmployeePoints\<close>).
\<close>

type_synonym id = string

record Employee =
  e_email :: string
  e_points :: "jsnum option"
  e_bulkBuyAllowed :: bool

record Campaign =
  cmp_name :: string
  cmp_isActive :: bool
  cmp_maxProductsPerUser :: "int option"

record CartItem =
  c_id :: id
  c_employeeId :: id
  c_productId :: id
  c_selectedColor :: "string option"
  c_selectedSize :: "string option"
  c_quantity :: int
  c_campaignId :: "id option"

text \<open>
  \<^verbatim>\<open>orders.metadata\<close> is a \<^verbatim>\<open>json\<close> column. The driver writes it with
  \<^verbatim>\<open>JSON.stringify\<close>, which prints \<^verbatim>\<open>NaN\<close> and the infinities as \<^verbatim>\<open>null\<close>; the row that
  the insert returns, and every later read, has what was written. \<open>None\<close> in a number
  field of the metadata is \<^verbatim>\<open>null\<close> or an absent field.
\<close>

definition jsonNum :: "jsnum \<Rightarrow> jsnum option" where
  "jsonNum v = (if js_isFinite v then Some v else None)"

record OrderMeta =
  m_usedPoints :: "jsnum option"
  m_unitPrice :: "jsnum option"
  m_deliveryMethod :: string
  m_deliveryAddress :: "string option"
  m_copayInr :: "jsnum option"
  m_paymentId :: "string option"
  m_phonepeOrderId :: "string option"

text \<open>
  \<open>o_orderYear\<close> is the calendar year of the row's \<^verbatim>\<open>orderDate\<close>, the only part of the
  date that the code reads back. \<open>o_quantity\<close> is \<open>None\<close> for a row without quantity.
\<close>

record Order =
  o_orderId :: string
  o_employeeId :: id
  o_productId :: id
  o_selectedColor :: "string option"
  o_selectedSize :: "string option"
  o_quantity :: "int option"
  o_campaignId :: "id option"
  o_status :: string
  o_orderYear :: nat
  o_metadata :: "OrderMeta option"

record Branding =
  b_maxSelectionsPerUser :: "int option"
  b_inrPerPoint :: "string option"

record BulkBuyAccess =
  a_isActive :: bool
  a_isProcurement :: bool

record BulkCartItem =
  bc_id :: id
  bc_employeeId :: id
  bc_productId :: id
  bc_selectedColor :: "string option"
  bc_quantity :: int

record BulkItemSnap =
  s_productId :: id
  s_name :: string
  s_sku :: "string option"
  s_selectedColor :: "string option"
  s_selectedSize :: "string option"
  s_quantity :: int
  s_unitPrice :: jsnum
  s_lineTotal :: jsnum

record BulkBuyRequest =
  bb_requestId :: string
  bb_employeeId :: id
  bb_status :: string
  bb_deliveryMethod :: string
  bb_deliveryAddress :: "string option"
  bb_requesterNote :: "string option"
  bb_items :: "BulkItemSnap list"
  bb_totalAmount :: string
  bb_createdYear :: nat

record db =
  employees :: "id \<rightharpoonup> Employee"
  products :: "id \<rightharpoonup> Product"
  campaigns :: "id \<rightharpoonup> Campaign"
  campaignProducts :: "(id \<times> id) list"
  sessions :: "string \<rightharpoonup> id"
  branding :: "Branding option"
  orders :: "Order list"
  cartItems :: "CartItem list"
  bulkBuyAccess :: "string \<rightharpoonup> BulkBuyAccess"
  bulkBuyCartItems :: "BulkCartItem list"
  bulkBuyRequests :: "BulkBuyRequest list"

text \<open>\<^verbatim>\<open>String(n).padStart(w, "0")\<close>.\<close>

definition padStart :: "nat \<Rightarrow> string \<Rightarrow> string" where
  "padStart w s = replicate (w - length s) CHR ''0'' @ s"

definition dec_of_int :: "int \<Rightarrow> string" where
  "dec_of_int i = (if i < 0 then ''-'' @ dec_of_nat (nat (- i)) else dec_of_nat (nat i))"

definition getCartItems :: "db \<Rightarrow> id \<Rightarrow> CartItem list" where
  "getCartItems d employeeId = filter (\<lambda>c. c_employeeId c = employeeId) (cartItems d)"

text \<open>
  \<^verbatim>\<open>getOrdersByEmployeeId\<close> also orders the rows by date; its callers here take the
  length of the result or an integer sum over it, which do not depend on the order.
\<close>

definition getOrdersByEmployeeId :: "db \<Rightarrow> id \<Rightarrow> Order list" where
  "getOrdersByEmployeeId d employeeId = filter (\<lambda>ord. o_employeeId ord = employeeId) (orders d)"

text \<open>\<^verbatim>\<open>updateProduct(id, { stock })\<close>: an update of the rows with that id.\<close>

definition updateProductStock :: "db \<Rightarrow> id \<Rightarrow> int \<Rightarrow> db" where
  "updateProductStock d pid s =
     (case products d pid of
        None \<Rightarrow> d
      | Some p \<Rightarrow> d\<lparr>products := (products d)(pid \<mapsto> p\<lparr>p_stock := Some s\<rparr>)\<rparr>)"

text \<open>
  \<^verbatim>\<open>updateEmployee(id, { points })\<close>. The column is \<^verbatim>\<open>integer("points").notNull()\<close>. The
  driver sends the number as its text, and the database refuses a text that is not an
  integer of 32 bits: \<^verbatim>\<open>NaN\<close>, an infinity, a fraction or a value out of range makes the
  statement fail and the call throw, which is the result \<open>None\<close>.
\<close>

definition storableInt :: "jsnum \<Rightarrow> bool" where
  "storableInt v = (js_isInteger v \<and> js_le (Fin (- 2147483648)) v \<and> js_le v (Fin 2147483647))"

definition updateEmployeePoints :: "db \<Rightarrow> id \<Rightarrow> jsnum \<Rightarrow> db option" where
  "updateEmployeePoints d eid v =
     (if \<not> storableInt v then None
      else Some (case employees d eid of
                   None \<Rightarrow> d
                 | Some e \<Rightarrow> d\<lparr>employees := (employees d)(eid \<mapsto> e\<lparr>e_points := Some v\<rparr>)\<rparr>))"

definition clearCart :: "db \<Rightarrow> id \<Rightarrow> db" where
  "clearCart d employeeId = d\<lparr>cartItems := filter (\<lambda>c. c_employeeId c \<noteq> employeeId) (cartItems d)\<rparr>"

text \<open>
  \<^verbatim>\<open>createOrder\<close> (storage.ts 458--478). The argument carries the fields the caller
  passes; \<open>year\<close> is \<^verbatim>\<open>new Date().getFullYear()\<close>. The function returns the inserted row.
\<close>

record InsertOrder =
  io_employeeId :: id
  io_productId :: id
  io_selectedColor :: "string option"
  io_selectedSize :: "string option"
  io_quantity :: int
  io_campaignId :: "id option"
  io_metadata :: "OrderMeta option"

definition createOrder :: "nat \<Rightarrow> db \<Rightarrow> InsertOrder \<Rightarrow> Order \<times> db" where
  "createOrder year d orderData =
     (let c = length (filter (\<lambda>ord. o_orderYear ord = year) (orders d));
          next = c + 1;
          orderId = ''ORD-'' @ dec_of_nat year @ ''-'' @ padStart 3 (dec_of_nat next);
          row = \<lparr> o_orderId = orderId,
                  o_employeeId = io_employeeId orderData,
                  o_productId = io_productId orderData,
                  o_selectedColor = io_selectedColor orderData,
                  o_selectedSize = io_selectedSize orderData,
                  o_quantity = Some (io_quantity orderData),
                  o_campaignId = io_campaignId orderData,
                  o_status = ''confirmed'',
                  o_orderYear = year,
                  o_metadata = io_metadata orderData \<rparr>
      in (row, d\<lparr>orders := orders d @ [row]\<rparr>))"

text \<open>\<^verbatim>\<open>createBulkBuyRequest\<close> (storage.ts 668--706).\<close>

record InsertBulkBuyRequest =
  ib_employeeId :: id
  ib_deliveryMethod :: string
  ib_deliveryAddress :: "string option"
  ib_requesterNote :: "string option"
  ib_items :: "BulkItemSnap list"
  ib_totalAmount :: jsnum

definition createBulkBuyRequest ::
  "js_runtime \<Rightarrow> nat \<Rightarrow> db \<Rightarrow> InsertBulkBuyRequest \<Rightarrow> BulkBuyRequest \<times> db" where
  "createBulkBuyRequest rt year d input =
     (let c = length (bulkBuyRequests d);
          next = c + 1;
          requestId = ''BBR-'' @ dec_of_nat year @ ''-'' @ padStart 4 (dec_of_nat next);
          row = \<lparr> bb_requestId = requestId,
                  bb_employeeId = ib_employeeId input,
                  bb_status = ''pending_approval'',
                  bb_deliveryMethod = ib_deliveryMethod input,
                  bb_deliveryAddress = ib_deliveryAddress input,
                  bb_requesterNote = ib_requesterNote input,
                  bb_items = ib_items input,
                  bb_totalAmount = toFixed2 rt (ib_totalAmount input),
                  bb_createdYear = year \<rparr>
      in (row, d\<lparr>bulkBuyRequests := bulkBuyRequests d @ [row]\<rparr>))"

definition clearBulkBuyCart :: "db \<Rightarrow> id \<Rightarrow> db" where
  "clearBulkBuyCart d employeeId =
     d\<lparr>bulkBuyCartItems := filter (\<lambda>c. bc_employeeId c \<noteq> employeeId) (bulkBuyCartItems d)\<rparr>"

definition getBulkBuyCartItems :: "db \<Rightarrow> id \<Rightarrow> BulkCartItem list" where
  "getBulkBuyCartItems d employeeId =
     filter (\<lambda>c. bc_employeeId c = employeeId) (bulkBuyCartItems d)"

text \<open>
  \<^verbatim>\<open>getProductCampaigns\<close> and \<^verbatim>\<open>getCampaignProducts\<close>: the inner joins of the membership
  relation with the campaigns and with the products.
\<close>

definition getProductCampaigns :: "db \<Rightarrow> id \<Rightarrow> (id \<times> Campaign) list" where
  "getProductCampaigns d productId =
     concat (map (\<lambda>(cid, pid).
        if pid = productId then (case campaigns d cid of None \<Rightarrow> [] | Some c \<Rightarrow> [(cid, c)])
        else []) (campaignProducts d))"

definition getCampaignProducts :: "db \<Rightarrow> id \<Rightarrow> id list" where
  "getCampaignProducts d campaignId =
     concat (map (\<lambda>(cid, pid).
        if cid = campaignId \<and> products d pid \<noteq> None then [pid] else []) (campaignProducts d))"

section \<open>Checkout with points and with co-pay (\<^verbatim>\<open>src/server/routes.ts\<close> 741--1126)\<close>

text \<open>
  A handler takes the store and the request and returns the response and the store it
  leaves behind. An early \<^verbatim>\<open>return res.status(..).json(..)\<close> is a \<open>Fail\<close> response, and
  so is the answer of the \<^verbatim>\<open>catch\<close> block when a call of the persistence layer throws;
  the writes made before the throw stay.
\<close>

datatype response =
    Fail nat string
  | AmountMismatch jsnum jsnum
  | OkOrders "(Order \<times> Product) list" "Employee option"
  | OkCartItem "CartItem option"
  | OkPayment string string
  | OkBulkRequest BulkBuyRequest

text \<open>
  The three steps every handler starts with: the bearer token (the header with
  \<^verbatim>\<open>"Bearer "\<close> removed; missing or empty is falsy), the session, the employee.
\<close>

definition authEmployee :: "db \<Rightarrow> string option \<Rightarrow> string \<Rightarrow> response + (id \<times> Employee)" where
  "authEmployee d token noTokenMessage =
     (case token of
        None \<Rightarrow> Inl (Fail 401 noTokenMessage)
      | Some t \<Rightarrow>
          if t = [] then Inl (Fail 401 noTokenMessage)
          else (case sessions d t of
                  None \<Rightarrow> Inl (Fail 401 ''Invalid session'')
                | Some employeeId \<Rightarrow>
                    (case employees d employeeId of
                       None \<Rightarrow> Inl (Fail 404 ''Employee not found'')
                     | Some employee \<Rightarrow> Inr (employeeId, employee))))"

text \<open>\<^verbatim>\<open>branding?.maxSelectionsPerUser ?? 1\<close> and \<^verbatim>\<open>parseFloat(branding?.inrPerPoint ?? "1")\<close>.\<close>

definition maxSelections :: "db \<Rightarrow> int" where
  "maxSelections d =
     (case branding d of
        None \<Rightarrow> 1
      | Some b \<Rightarrow> (case b_maxSelectionsPerUser b of None \<Rightarrow> 1 | Some m \<Rightarrow> m))"

definition inrPerPoint :: "js_runtime \<Rightarrow> db \<Rightarrow> jsnum" where
  "inrPerPoint rt d =
     parseFloat_str rt
       (case branding d of
          None \<Rightarrow> ''1''
        | Some b \<Rightarrow> (case b_inrPerPoint b of None \<Rightarrow> ''1'' | Some s \<Rightarrow> s))"

text \<open>\<^verbatim>\<open>p.stock || 0\<close> and \<^verbatim>\<open>employee.points ?? 0\<close>.\<close>

definition stockOr0 :: "Product \<Rightarrow> int" where
  "stockOr0 p = (case p_stock p of None \<Rightarrow> 0 | Some s \<Rightarrow> s)"

definition pointsOr0 :: "Employee \<Rightarrow> jsnum" where
  "pointsOr0 e = (case e_points e of None \<Rightarrow> Fin 0 | Some v \<Rightarrow> v)"

text \<open>\<^verbatim>\<open>Math.ceil(unitPrice / inrPerPoint) * item.quantity\<close>.\<close>

definition pointsFor :: "js_runtime \<Rightarrow> jsnum \<Rightarrow> jsnum \<Rightarrow> int \<Rightarrow> jsnum" where
  "pointsFor rt unitPrice inr quantity =
     dbl_mul rt (js_ceil (dbl_div rt unitPrice inr)) (num quantity)"

text \<open>\<^verbatim>\<open>p?.name || item.productId\<close> inside the "unavailable" message.\<close>

definition unavailable :: "Product option \<Rightarrow> id \<Rightarrow> response" where
  "unavailable p productId =
     Fail 400 (''Product '' @
       (case p of None \<Rightarrow> productId | Some q \<Rightarrow> if p_name q = [] then productId else p_name q)
       @ '' unavailable'')"

text \<open>
  The first loop over the cart (``slab-aware points calc''): stock validation and the
  running total \<^verbatim>\<open>totalPointsRequired\<close>.
\<close>

fun pointsLoop ::
  "js_runtime \<Rightarrow> db \<Rightarrow> jsnum \<Rightarrow> CartItem list \<Rightarrow> jsnum \<Rightarrow> response + jsnum" where
  "pointsLoop rt d inr [] tot = Inr tot"
| "pointsLoop rt d inr (item # items) tot =
     (case products d (c_productId item) of
        None \<Rightarrow> Inl (unavailable None (c_productId item))
      | Some p \<Rightarrow>
          if stockOr0 p < c_quantity item then Inl (unavailable (Some p) (c_productId item))
          else (let unitPrice = getUnitPriceForQty rt p (num (c_quantity item))
                in pointsLoop rt d inr items
                     (dbl_add rt tot (pointsFor rt unitPrice inr (c_quantity item)))))"

text \<open>\<^verbatim>\<open>item.campaignId || undefined\<close>.\<close>

definition idOrUndefined :: "id option \<Rightarrow> id option" where
  "idOrUndefined v = (case v of None \<Rightarrow> None | Some s \<Rightarrow> if s = [] then None else Some s)"

text \<open>
  The second loop over the cart, which commits. The two handlers differ only in the
  metadata they stamp, so the metadata is built by the argument \<open>mk\<close> from
  \<open>usedPoints\<close> and \<open>unitPrice\<close>. A cart item whose product is not found is skipped
  (\<^verbatim>\<open>if (!p) continue\<close>).
\<close>

fun commitLoop ::
  "js_runtime \<Rightarrow> nat \<Rightarrow> id \<Rightarrow> jsnum \<Rightarrow> (jsnum \<Rightarrow> jsnum \<Rightarrow> OrderMeta) \<Rightarrow>
   CartItem list \<Rightarrow> db \<Rightarrow> (Order \<times> Product) list \<times> db" where
  "commitLoop rt year employeeId inr mk [] d = ([], d)"
| "commitLoop rt year employeeId inr mk (item # items) d =
     (case products d (c_productId item) of
        None \<Rightarrow> commitLoop rt year employeeId inr mk items d
      | Some p \<Rightarrow>
          (let d1 = updateProductStock d (c_productId item) (stockOr0 p - c_quantity item);
               unitPrice = getUnitPriceForQty rt p (num (c_quantity item));
               usedPoints = pointsFor rt unitPrice inr (c_quantity item)
           in case createOrder year d1
                     \<lparr> io_employeeId = employeeId,
                       io_productId = c_productId item,
                       io_selectedColor = c_selectedColor item,
                       io_selectedSize = c_selectedSize item,
                       io_quantity = c_quantity item,
                       io_campaignId = idOrUndefined (c_campaignId item),
                       io_metadata = Some (mk usedPoints unitPrice) \<rparr> of
                (ord, d2) \<Rightarrow>
                  (case commitLoop rt year employeeId inr mk items d2 of
                     (rest, d3) \<Rightarrow> ((ord, p) # rest, d3))))"

record checkout_req =
  r_token :: "string option"
  r_deliveryMethod :: "string option"
  r_deliveryAddress :: "string option"

definition deliveryMethodOf :: "string option \<Rightarrow> string" where
  "deliveryMethodOf v = (case v of None \<Rightarrow> ''office'' | Some m \<Rightarrow> m)"

text \<open>What the validation part of a checkout hands to its commit part.\<close>

record checkout_ctx =
  x_employeeId :: id
  x_cartItems :: "CartItem list"
  x_inrPerPoint :: jsnum
  x_total :: jsnum
  x_userPoints :: jsnum

text \<open>
  \<^verbatim>\<open>POST /api/orders\<close>, lines 743--782: every check before the first write. The steps
  shared with the co-pay handlers (cart, selection limit, first loop) are
  \<open>cartChecks\<close>.
\<close>

definition cartChecks :: "js_runtime \<Rightarrow> db \<Rightarrow> id \<Rightarrow> Employee \<Rightarrow> response + checkout_ctx" where
  "cartChecks rt d employeeId employee =
     (let cart = getCartItems d employeeId in
      if cart = [] then Inl (Fail 400 ''Cart is empty'')
      else (let employeeOrders = getOrdersByEmployeeId d employeeId in
            if maxSelections d \<noteq> - 1 \<and>
               int (length employeeOrders) + int (length cart) > maxSelections d
            then Inl (Fail 400 ''Selection limit reached'')
            else (case pointsLoop rt d (inrPerPoint rt d) cart (Fin 0) of
                    Inl r \<Rightarrow> Inl r
                  | Inr tot \<Rightarrow>
                      Inr \<lparr> x_employeeId = employeeId, x_cartItems = cart,
                            x_inrPerPoint = inrPerPoint rt d, x_total = tot,
                            x_userPoints = pointsOr0 employee \<rparr>)))"

definition ordersValidate :: "js_runtime \<Rightarrow> db \<Rightarrow> checkout_req \<Rightarrow> response + checkout_ctx" where
  "ordersValidate rt d req =
     (case authEmployee d (r_token req) ''No token provided'' of
        Inl r \<Rightarrow> Inl r
      | Inr (employeeId, employee) \<Rightarrow>
          (case cartChecks rt d employeeId employee of
             Inl r \<Rightarrow> Inl r
           | Inr ctx \<Rightarrow>
               if js_lt (x_userPoints ctx) (x_total ctx) then Inl (Fail 400 ''Insufficient points'')
               else Inr ctx))"

text \<open>
  The metadata object of line 801, as the \<^verbatim>\<open>json\<close> column holds it.
\<close>

definition pointsMeta :: "checkout_req \<Rightarrow> jsnum \<Rightarrow> jsnum \<Rightarrow> OrderMeta" where
  "pointsMeta req usedPoints unitPrice =
     \<lparr> m_usedPoints = jsonNum usedPoints, m_unitPrice = jsonNum unitPrice,
       m_deliveryMethod = deliveryMethodOf (r_deliveryMethod req),
       m_deliveryAddress = r_deliveryAddress req,
       m_copayInr = None, m_paymentId = None, m_phonepeOrderId = None \<rparr>"

text \<open>
  Lines 784--820: the commit. It runs on the store as it is when the writes happen,
  which is the validated store when nothing else wrote in between. When the update of
  the balance throws, the \<^verbatim>\<open>catch\<close> block answers 500; the stock updates and the orders
  of the loop are written by then, the balance and the cart are as before.
\<close>

definition ordersCommit ::
  "js_runtime \<Rightarrow> nat \<Rightarrow> checkout_req \<Rightarrow> checkout_ctx \<Rightarrow> db \<Rightarrow> response \<times> db" where
  "ordersCommit rt year req ctx d =
     (case commitLoop rt year (x_employeeId ctx) (x_inrPerPoint ctx) (pointsMeta req)
             (x_cartItems ctx) d of
        (ords, d1) \<Rightarrow>
          (case updateEmployeePoints d1 (x_employeeId ctx)
                  (dbl_sub rt (x_userPoints ctx) (x_total ctx)) of
             None \<Rightarrow> (Fail 500 ''Error creating orders'', d1)
           | Some d2 \<Rightarrow>
               (let d3 = clearCart d2 (x_employeeId ctx)
                in (OkOrders ords (employees d3 (x_employeeId ctx)), d3))))"

definition ordersPost :: "js_runtime \<Rightarrow> nat \<Rightarrow> db \<Rightarrow> checkout_req \<Rightarrow> response \<times> db" where
  "ordersPost rt year d req =
     (case ordersValidate rt d req of
        Inl r \<Rightarrow> (r, d)
      | Inr ctx \<Rightarrow> ordersCommit rt year req ctx d)"

text \<open>
  The payment gateway is an external service. Its configuration comes from the
  environment; its replies are inputs of the handlers (\<open>None\<close>: the request or the
  decoding of the reply threw).
\<close>

record gw_config =
  g_merchantId :: "string option"
  g_saltKey :: "string option"
  g_redirectBase :: "string option"

definition unset :: "string option \<Rightarrow> bool" where
  "unset v = (case v of None \<Rightarrow> True | Some s \<Rightarrow> s = [])"

text \<open>The reply to the status request: \<^verbatim>\<open>response.ok\<close> and the decoded body.\<close>

record gw_status =
  gs_ok :: bool
  gs_success :: bool
  gs_code :: "string option"
  gs_amount :: "jsnum option"
  gs_transactionId :: "string option"

text \<open>The reply to the pay request.\<close>

record gw_pay =
  gp_ok :: bool
  gp_success :: bool
  gp_url :: "string option"

text \<open>
  \<^verbatim>\<open>POST /api/orders/create-copay-order\<close> (lines 833--963). Besides the response, the
  model returns the \<^verbatim>\<open>amount\<close> of the payload when a pay request is sent, as
  \<^verbatim>\<open>JSON.stringify\<close> writes it. \<open>nowMs\<close> is \<^verbatim>\<open>Date.now()\<close>. The handler writes nothing to
  the store.
\<close>

definition createCopayOrder ::
  "js_runtime \<Rightarrow> gw_config \<Rightarrow> nat \<Rightarrow> gw_pay option \<Rightarrow> db \<Rightarrow> checkout_req \<Rightarrow>
   response \<times> jsnum option option" where
  "createCopayOrder rt cfg nowMs reply d req =
     (case authEmployee d (r_token req) ''No token'' of
        Inl r \<Rightarrow> (r, None)
      | Inr (employeeId, employee) \<Rightarrow>
          (case cartChecks rt d employeeId employee of
             Inl r \<Rightarrow> (r, None)
           | Inr ctx \<Rightarrow>
               if js_ge (x_userPoints ctx) (x_total ctx)
               then (Fail 400 ''Sufficient points, use normal checkout'', None)
               else (let deficitPoints = dbl_sub rt (x_total ctx) (x_userPoints ctx);
                         copayInr = js_ceil (dbl_mul rt deficitPoints (x_inrPerPoint ctx))
                     in if unset (g_merchantId cfg) \<or> unset (g_saltKey cfg) \<or>
                           unset (g_redirectBase cfg)
                        then (Fail 500 (''PhonePe not configured. Missing PHONEPE_MERCHANT_ID / ''
                                @ ''PHONEPE_SALT_KEY / PHONEPE_REDIRECT_URL_BASE''), None)
                        else (let merchantTransactionId = ''TXN_'' @ dec_of_nat nowMs;
                                  amount = jsonNum (dbl_mul rt copayInr (Fin 100))
                              in case reply of
                                   None \<Rightarrow> (Fail 500 ''Failed to create copay order'', Some amount)
                                 | Some result \<Rightarrow>
                                     if \<not> gp_ok result \<or> \<not> gp_success result
                                     then (Fail 500 ''Failed to initiate PhonePe payment'',
                                           Some amount)
                                     else (case gp_url result of
                                             None \<Rightarrow>
                                               (Fail 500 ''PhonePe redirect URL missing'',
                                                Some amount)
                                           | Some paymentUrl \<Rightarrow>
                                               if paymentUrl = []
                                               then (Fail 500 ''PhonePe redirect URL missing'',
                                                     Some amount)
                                               else (OkPayment paymentUrl merchantTransactionId,
                                                     Some amount))))))"

record verify_req =
  v_token :: "string option"
  v_merchantTransactionId :: "string option"
  v_merchantOrderId :: "string option"
  v_deliveryMethod :: "string option"
  v_deliveryAddress :: "string option"

text \<open>\<^verbatim>\<open>merchantTransactionId || merchantOrderId\<close>.\<close>

definition txnIdOf :: "verify_req \<Rightarrow> string option" where
  "txnIdOf req =
     (if unset (v_merchantTransactionId req) then v_merchantOrderId req
      else v_merchantTransactionId req)"

record copay_ctx =
  y_checkout :: checkout_ctx
  y_copayInr :: jsnum
  y_result :: gw_status

definition copayMeta :: "verify_req \<Rightarrow> gw_status \<Rightarrow> jsnum \<Rightarrow> jsnum \<Rightarrow> jsnum \<Rightarrow> OrderMeta" where
  "copayMeta req result copayInr usedPoints unitPrice =
     \<lparr> m_usedPoints = jsonNum usedPoints, m_unitPrice = jsonNum unitPrice,
       m_deliveryMethod = deliveryMethodOf (v_deliveryMethod req),
       m_deliveryAddress = v_deliveryAddress req,
       m_copayInr = jsonNum copayInr, m_paymentId = gs_transactionId result,
       m_phonepeOrderId = txnIdOf req \<rparr>"

text \<open>
  \<^verbatim>\<open>POST /api/orders/verify-copay\<close>, lines 1037--1084: the checks that follow a
  confirmed payment \<open>result\<close>, up to the comparison of the paid amount.
\<close>

definition copayChecks ::
  "js_runtime \<Rightarrow> db \<Rightarrow> string option \<Rightarrow> gw_status \<Rightarrow> response + copay_ctx" where
  "copayChecks rt d token result =
     (case authEmployee d token ''No token'' of
        Inl r \<Rightarrow> Inl r
      | Inr (employeeId, employee) \<Rightarrow>
          (case cartChecks rt d employeeId employee of
             Inl r \<Rightarrow> Inl r
           | Inr ctx \<Rightarrow>
               if js_ge (x_userPoints ctx) (x_total ctx) then Inl (Fail 400 ''Sufficient points'')
               else (let deficitPoints = dbl_sub rt (x_total ctx) (x_userPoints ctx);
                         copayInr = js_ceil (dbl_mul rt deficitPoints (x_inrPerPoint ctx));
                         paidAmount =
                           dbl_div rt (case gs_amount result of None \<Rightarrow> Fin 0 | Some a \<Rightarrow> a)
                             (Fin 100)
                     in if \<not> js_eq paidAmount copayInr
                        then Inl (AmountMismatch copayInr paidAmount)
                        else Inr \<lparr> y_checkout = ctx, y_copayInr = copayInr,
                                   y_result = result \<rparr>)))"

text \<open>
  Lines 998--1035: the transaction id, the configuration and the gateway's answer
  \<open>reply\<close> to the status request come first.
\<close>

definition verifyValidate ::
  "js_runtime \<Rightarrow> gw_config \<Rightarrow> gw_status option \<Rightarrow> db \<Rightarrow> verify_req \<Rightarrow>
   response + copay_ctx" where
  "verifyValidate rt cfg reply d req =
     (if unset (txnIdOf req) then Inl (Fail 400 ''Missing merchantTransactionId'')
      else if unset (g_merchantId cfg) \<or> unset (g_saltKey cfg)
      then Inl (Fail 500 ''PhonePe not configured'')
      else (case reply of
              None \<Rightarrow> Inl (Fail 400 ''Invalid payment'')
            | Some result \<Rightarrow>
                if \<not> gs_ok result \<or> \<not> gs_success result \<or> gs_code result \<noteq> Some ''PAYMENT_SUCCESS''
                then Inl (Fail 400 ''Payment not completed'')
                else copayChecks rt d (v_token req) result))"

text \<open>
  Lines 1086--1125: the commit of the co-pay checkout. The \<^verbatim>\<open>catch\<close> block of this
  handler answers 400.
\<close>

definition verifyCommit ::
  "js_runtime \<Rightarrow> nat \<Rightarrow> verify_req \<Rightarrow> copay_ctx \<Rightarrow> db \<Rightarrow> response \<times> db" where
  "verifyCommit rt year req cctx d =
     (let ctx = y_checkout cctx in
      case commitLoop rt year (x_employeeId ctx) (x_inrPerPoint ctx)
             (copayMeta req (y_result cctx) (y_copayInr cctx)) (x_cartItems ctx) d of
        (ords, d1) \<Rightarrow>
          (case updateEmployeePoints d1 (x_employeeId ctx) (Fin 0) of
             None \<Rightarrow> (Fail 400 ''Invalid payment'', d1)
           | Some d2 \<Rightarrow>
               (let d3 = clearCart d2 (x_employeeId ctx)
                in (OkOrders ords (employees d3 (x_employeeId ctx)), d3))))"

definition verifyCopay ::
  "js_runtime \<Rightarrow> gw_config \<Rightarrow> nat \<Rightarrow> gw_status option \<Rightarrow> db \<Rightarrow> verify_req \<Rightarrow>
   response \<times> db" where
  "verifyCopay rt cfg year reply d req =
     (case verifyValidate rt cfg reply d req of
        Inl r \<Rightarrow> (r, d)
      | Inr cctx \<Rightarrow> verifyCommit rt year req cctx d)"

section \<open>Bulk-buy submission (\<^verbatim>\<open>src/server/routes.ts\<close> 168--200, 1928--2163)\<close>

text \<open>
  \<^verbatim>\<open>requireBulkBuyAccess\<close>: token, session and employee as before (with the message
  \<^verbatim>\<open>"No token"\<close>), then the employee's flag or an active allowlist entry for the e-mail.
\<close>

definition requireBulkBuyAccess :: "db \<Rightarrow> string option \<Rightarrow> response + (id \<times> Employee)" where
  "requireBulkBuyAccess d token =
     (case authEmployee d token ''No token'' of
        Inl r \<Rightarrow> Inl r
      | Inr (employeeId, employee) \<Rightarrow>
          (let employeeEligible = e_bulkBuyAllowed employee;
               accessEligible = (case bulkBuyAccess d (e_email employee) of
                                   None \<Rightarrow> False
                                 | Some a \<Rightarrow> a_isActive a)
           in if \<not> employeeEligible \<and> \<not> accessEligible
              then Inl (Fail 403 ''Bulk Buy access not enabled'')
              else Inr (employeeId, employee)))"

text \<open>\<^verbatim>\<open>Number((unitPrice * quantity).toFixed(2))\<close>.\<close>

definition lineTotalOf :: "js_runtime \<Rightarrow> jsnum \<Rightarrow> int \<Rightarrow> jsnum" where
  "lineTotalOf rt unitPrice quantity =
     Number_str rt (toFixed2 rt (dbl_mul rt unitPrice (num quantity)))"

text \<open>
  The loop of \<^verbatim>\<open>POST /api/bulkbuy/checkout\<close> over the bulk-buy cart. A cart row whose
  product is missing or is not a bulk-buy product is skipped.
\<close>

fun bulkLoop ::
  "js_runtime \<Rightarrow> db \<Rightarrow> BulkCartItem list \<Rightarrow> jsnum \<Rightarrow> BulkItemSnap list \<Rightarrow>
   response + (jsnum \<times> BulkItemSnap list)" where
  "bulkLoop rt d [] tot itemsSnap = Inr (tot, itemsSnap)"
| "bulkLoop rt d (it # rest) tot itemsSnap =
     (case products d (bc_productId it) of
        None \<Rightarrow> bulkLoop rt d rest tot itemsSnap
      | Some p \<Rightarrow>
          if \<not> p_bulkBuy p then bulkLoop rt d rest tot itemsSnap
          else if stockOr0 p < bc_quantity it
          then Inl (Fail 400 (''Product unavailable: '' @ p_name p))
          else (let unitPrice = getUnitPriceForQty rt p (num (bc_quantity it));
                    lineTotal = lineTotalOf rt unitPrice (bc_quantity it)
                in bulkLoop rt d rest (dbl_add rt tot lineTotal)
                     (itemsSnap @
                      [\<lparr> s_productId = bc_productId it, s_name = p_name p, s_sku = p_sku p,
                         s_selectedColor = bc_selectedColor it, s_selectedSize = None,
                         s_quantity = bc_quantity it, s_unitPrice = unitPrice,
                         s_lineTotal = lineTotal \<rparr>])))"

record bulk_req =
  q_token :: "string option"
  q_deliveryMethod :: "string option"
  q_deliveryAddress :: "string option"
  q_requesterNote :: "string option"

text \<open>
  \<^verbatim>\<open>POST /api/bulkbuy/checkout\<close>. The two notification e-mails sent after the writes are
  outside the store and are not modelled; the response is the one sent when they return.
\<close>

definition bulkbuyCheckout :: "js_runtime \<Rightarrow> nat \<Rightarrow> db \<Rightarrow> bulk_req \<Rightarrow> response \<times> db" where
  "bulkbuyCheckout rt year d req =
     (case requireBulkBuyAccess d (q_token req) of
        Inl r \<Rightarrow> (r, d)
      | Inr (employeeId, employee) \<Rightarrow>
          (let cart = getBulkBuyCartItems d employeeId in
           if cart = [] then (Fail 400 ''Bulk buy cart is empty'', d)
           else (case bulkLoop rt d cart (Fin 0) [] of
                   Inl r \<Rightarrow> (r, d)
                 | Inr (tot, itemsSnap) \<Rightarrow>
                     if itemsSnap = [] then (Fail 400 ''No valid items to submit'', d)
                     else (case createBulkBuyRequest rt year d
                                  \<lparr> ib_employeeId = employeeId,
                                    ib_deliveryMethod = deliveryMethodOf (q_deliveryMethod req),
                                    ib_deliveryAddress = q_deliveryAddress req,
                                    ib_requesterNote = q_requesterNote req,
                                    ib_items = itemsSnap,
                                    ib_totalAmount = tot \<rparr> of
                             (requestRec, d1) \<Rightarrow>
                               (OkBulkRequest requestRec, clearBulkBuyCart d1 employeeId)))))"

record bulk_direct_req =
  dq_token :: "string option"
  dq_productId :: "string option"
  dq_quantity :: "jsnum option"
  dq_selectedColor :: "string option"
  dq_selectedSize :: "string option"
  dq_deliveryMethod :: "string option"
  dq_deliveryAddress :: "string option"
  dq_requesterNote :: "string option"

text \<open>The integer a validated quantity stands for.\<close>

definition intOf :: "jsnum \<Rightarrow> int" where
  "intOf x = \<lfloor>ratOf x\<rfloor>"

text \<open>
  \<^verbatim>\<open>POST /api/bulkbuy/request\<close>, the direct request without a cart. A quantity that is
  not a number is not an integer for \<^verbatim>\<open>Number.isInteger\<close>; it is represented by \<^verbatim>\<open>NaN\<close>.
\<close>

definition bulkbuyRequest ::
  "js_runtime \<Rightarrow> nat \<Rightarrow> db \<Rightarrow> bulk_direct_req \<Rightarrow> response \<times> db" where
  "bulkbuyRequest rt year d req =
     (case requireBulkBuyAccess d (dq_token req) of
        Inl r \<Rightarrow> (r, d)
      | Inr (employeeId, employee) \<Rightarrow>
          (let quantity = (case dq_quantity req of None \<Rightarrow> Fin 1 | Some q \<Rightarrow> q);
               deliveryMethod = deliveryMethodOf (dq_deliveryMethod req)
           in if unset (dq_productId req) then (Fail 400 ''ProductId required'', d)
              else if \<not> js_isInteger quantity \<or> js_lt quantity (Fin 1)
              then (Fail 400 ''Invalid quantity'', d)
              else if deliveryMethod \<noteq> ''office'' \<and> deliveryMethod \<noteq> ''delivery''
              then (Fail 400 ''Invalid delivery method'', d)
              else if deliveryMethod = ''delivery'' \<and>
                      trim rt (case dq_deliveryAddress req of None \<Rightarrow> [] | Some a \<Rightarrow> a) = []
              then (Fail 400 ''Delivery address required'', d)
              else (case products d (case dq_productId req of None \<Rightarrow> [] | Some i \<Rightarrow> i) of
                      None \<Rightarrow> (Fail 404 ''Bulk buy product not found'', d)
                    | Some p \<Rightarrow>
                        if \<not> p_isActive p \<or> \<not> p_bulkBuy p
                        then (Fail 404 ''Bulk buy product not found'', d)
                        else if p_colors p \<noteq> [] \<and> unset (dq_selectedColor req)
                        then (Fail 400 ''Please select a color'', d)
                        else if p_sizes p \<noteq> [] \<and> unset (dq_selectedSize req)
                        then (Fail 400 ''Please select a size'', d)
                        else if stockOr0 p < intOf quantity
                        then (Fail 400 ''Insufficient stock'', d)
                        else (let unitPrice = getUnitPriceForQty rt p quantity;
                                  lineTotal =
                                    Number_str rt (toFixed2 rt (dbl_mul rt unitPrice quantity));
                                  itemsSnap =
                                    [\<lparr> s_productId = (case dq_productId req of None \<Rightarrow> []
                                                         | Some i \<Rightarrow> i),
                                       s_name = p_name p,
                                       s_sku = Some (case p_sku p of None \<Rightarrow> [] | Some k \<Rightarrow> k),
                                       s_selectedColor = dq_selectedColor req,
                                       s_selectedSize = dq_selectedSize req,
                                       s_quantity = intOf quantity, s_unitPrice = unitPrice,
                                       s_lineTotal = lineTotal \<rparr>]
                              in case createBulkBuyRequest rt year d
                                        \<lparr> ib_employeeId = employeeId,
                                          ib_deliveryMethod = deliveryMethod,
                                          ib_deliveryAddress =
                                            (if deliveryMethod = ''delivery''
                                             then dq_deliveryAddress req else None),
                                          ib_requesterNote = dq_requesterNote req,
                                          ib_items = itemsSnap,
                                          ib_totalAmount = lineTotal \<rparr> of
                                   (requestRec, d1) \<Rightarrow> (OkBulkRequest requestRec, d1)))))"

section \<open>The campaign limit in the cart handlers (\<^verbatim>\<open>src/server/routes.ts\<close> 576--728)\<close>

text \<open>\<^verbatim>\<open>c.quantity || 1\<close> on a cart row and \<^verbatim>\<open>o.quantity || 1\<close> on an order row.\<close>

definition qtyOr1 :: "int \<Rightarrow> int" where
  "qtyOr1 q = (if q = 0 then 1 else q)"

definition orderQtyOr1 :: "int option \<Rightarrow> int" where
  "orderQtyOr1 q = (case q of None \<Rightarrow> 1 | Some n \<Rightarrow> qtyOr1 n)"

definition limitReached :: "int \<Rightarrow> string \<Rightarrow> response" where
  "limitReached limit name =
     Fail 400 (''Campaign limit reached. You can only select '' @ dec_of_int limit @
               '' products for '' @ [CHR 0x22] @ name @ [CHR 0x22] @ ''.'')"

text \<open>
  The campaign check of \<^verbatim>\<open>POST /api/cart\<close> (lines 602--629): the two \<^verbatim>\<open>forEach\<close> loops
  add to \<^verbatim>\<open>usage\<close> the quantity of every order and cart row whose \<^verbatim>\<open>campaignId\<close> is the
  campaign's id. The result is the rejection, if any.
\<close>

definition usagePost :: "db \<Rightarrow> id \<Rightarrow> id \<Rightarrow> int" where
  "usagePost d employeeId cid =
     (let employeeOrders = getOrdersByEmployeeId d employeeId;
          currentCart = getCartItems d employeeId;
          usage = foldl (\<lambda>u ord. if o_campaignId ord = Some cid
                                 then u + orderQtyOr1 (o_quantity ord) else u) 0 employeeOrders
      in foldl (\<lambda>u c. if c_campaignId c = Some cid then u + qtyOr1 (c_quantity c) else u)
           usage currentCart)"

definition campaignCheckPost :: "db \<Rightarrow> id \<Rightarrow> id option \<Rightarrow> int \<Rightarrow> response option" where
  "campaignCheckPost d employeeId campaignId requestedQty =
     (case idOrUndefined campaignId of
        None \<Rightarrow> None
      | Some cid \<Rightarrow>
          (case campaigns d cid of
             None \<Rightarrow> None
           | Some campaign \<Rightarrow>
               (case cmp_maxProductsPerUser campaign of
                  None \<Rightarrow> None
                | Some limit \<Rightarrow>
                    if cmp_isActive campaign \<and> usagePost d employeeId cid + requestedQty > limit
                    then Some (limitReached limit (cmp_name campaign))
                    else None)))"

definition updateCartItem :: "db \<Rightarrow> id \<Rightarrow> int \<Rightarrow> db" where
  "updateCartItem d cartId q =
     d\<lparr>cartItems := map (\<lambda>c. if c_id c = cartId then c\<lparr>c_quantity := q\<rparr> else c) (cartItems d)\<rparr>"

definition getCartItem :: "db \<Rightarrow> id \<Rightarrow> CartItem option" where
  "getCartItem d cartId = find (\<lambda>c. c_id c = cartId) (cartItems d)"

text \<open>
  The campaign check of \<^verbatim>\<open>PUT /api/cart/:id\<close> (lines 686--720). It goes through the
  active capped campaigns the product belongs to and counts the orders and the other
  cart rows whose product belongs to the campaign.
\<close>

definition usagePut :: "db \<Rightarrow> CartItem \<Rightarrow> id \<Rightarrow> int" where
  "usagePut d item cid =
     (let employeeOrders = getOrdersByEmployeeId d (c_employeeId item);
          currentCart = getCartItems d (c_employeeId item);
          campaignProductIds = set (getCampaignProducts d cid);
          usage = foldl (\<lambda>u ord. if o_productId ord \<in> campaignProductIds
                                 then u + orderQtyOr1 (o_quantity ord) else u) 0 employeeOrders
      in foldl (\<lambda>u c. if c_id c \<noteq> c_id item \<and> c_productId c \<in> campaignProductIds
                       then u + qtyOr1 (c_quantity c) else u)
           usage currentCart)"

fun putLoop :: "db \<Rightarrow> CartItem \<Rightarrow> int \<Rightarrow> (id \<times> Campaign) list \<Rightarrow> response option" where
  "putLoop d item quantity [] = None"
| "putLoop d item quantity ((cid, campaign) # rest) =
     (let limit = (case cmp_maxProductsPerUser campaign of None \<Rightarrow> 0 | Some l \<Rightarrow> l) in
      if usagePut d item cid + quantity > limit
      then Some (limitReached limit (cmp_name campaign))
      else putLoop d item quantity rest)"

definition campaignCheckPut :: "db \<Rightarrow> CartItem \<Rightarrow> int \<Rightarrow> response option" where
  "campaignCheckPut d item quantity =
     (let productCampaigns = getProductCampaigns d (c_productId item);
          activeCampaignsWithLimit =
            filter (\<lambda>(cid, c). cmp_isActive c \<and> cmp_maxProductsPerUser c \<noteq> None) productCampaigns
      in if activeCampaignsWithLimit = [] then None
         else (case employees d (c_employeeId item) of
                 None \<Rightarrow> None
               | Some employee \<Rightarrow> putLoop d item quantity activeCampaignsWithLimit))"

text \<open>\<^verbatim>\<open>PUT /api/cart/:id\<close>; \<open>quantity\<close> is the body's field.\<close>

definition cartPut :: "db \<Rightarrow> id \<Rightarrow> jsnum \<Rightarrow> response \<times> db" where
  "cartPut d cartId quantity =
     (if \<not> js_isInteger quantity \<or> js_lt quantity (Fin 1) then (Fail 400 ''Invalid quantity'', d)
      else (case getCartItem d cartId of
              None \<Rightarrow> (Fail 404 ''Cart item not found'', d)
            | Some item \<Rightarrow>
                (case products d (c_productId item) of
                   None \<Rightarrow> (Fail 404 ''Product not found'', d)
                 | Some product \<Rightarrow>
                     if stockOr0 product < intOf quantity then (Fail 400 ''Insufficient stock'', d)
                     else (case campaignCheckPut d item (intOf quantity) of
                             Some r \<Rightarrow> (r, d)
                           | None \<Rightarrow>
                               (let d1 = updateCartItem d cartId (intOf quantity)
                                in (OkCartItem (getCartItem d1 cartId), d1))))))"

section \<open>Quantities used to state the checkout claims\<close>

text \<open>The unit price of a cart item, resolved against a product table.\<close>

definition unitPriceIn :: "js_runtime \<Rightarrow> (id \<rightharpoonup> Product) \<Rightarrow> CartItem \<Rightarrow> jsnum" where
  "unitPriceIn rt ps item =
     (case ps (c_productId item) of
        None \<Rightarrow> NaN
      | Some p \<Rightarrow> getUnitPriceForQty rt p (num (c_quantity item)))"

text \<open>
  \<open>usedPoints = ceil(unitPrice / inrPerPoint) * quantity\<close>: the ceiling is taken of the
  quotient for one unit, then multiplied by the quantity. Division and multiplication
  are those of the run time.
\<close>

definition usedPointsOf :: "js_runtime \<Rightarrow> jsnum \<Rightarrow> jsnum \<Rightarrow> int \<Rightarrow> jsnum" where
  "usedPointsOf rt unitPrice inr quantity =
     dbl_mul rt (js_ceil (dbl_div rt unitPrice inr)) (num quantity)"

text \<open>
  \<^verbatim>\<open>sum(ceil(unitPrice(product, qty) / inrPerPoint) * qty)\<close> over the cart, added from
  \<open>0\<close> in cart order with the addition of the run time.
\<close>

definition requiredPoints ::
  "js_runtime \<Rightarrow> (id \<rightharpoonup> Product) \<Rightarrow> jsnum \<Rightarrow> CartItem list \<Rightarrow> jsnum" where
  "requiredPoints rt ps inr cart =
     foldl (dbl_add rt) (Fin 0)
       (map (\<lambda>item. usedPointsOf rt (unitPriceIn rt ps item) inr (c_quantity item)) cart)"

text \<open>Every cart item names an existing product with \<open>stock \<ge> quantity\<close>.\<close>

definition available :: "(id \<rightharpoonup> Product) \<Rightarrow> CartItem \<Rightarrow> bool" where
  "available ps item =
     (case ps (c_productId item) of None \<Rightarrow> False | Some p \<Rightarrow> c_quantity item \<le> stockOr0 p)"

definition stockOk :: "(id \<rightharpoonup> Product) \<Rightarrow> CartItem list \<Rightarrow> bool" where
  "stockOk ps cart = list_all (available ps) cart"

text \<open>The product a cart item names is in the table.\<close>

definition present :: "(id \<rightharpoonup> Product) \<Rightarrow> CartItem \<Rightarrow> bool" where
  "present ps item = (ps (c_productId item) \<noteq> None)"

text \<open>The total quantity a cart orders of one product.\<close>

definition orderedQty :: "CartItem list \<Rightarrow> id \<Rightarrow> int" where
  "orderedQty cart pid = sum_list (map c_quantity (filter (\<lambda>item. c_productId item = pid) cart))"

text \<open>
  The product table after each product named by the cart has had its stock reduced by
  the quantities ordered of it.
\<close>

definition stockAfter :: "(id \<rightharpoonup> Product) \<Rightarrow> CartItem list \<Rightarrow> (id \<rightharpoonup> Product)" where
  "stockAfter ps cart =
     (\<lambda>pid. case ps pid of
               None \<Rightarrow> None
             | Some p \<Rightarrow>
                 if pid \<in> c_productId ` set cart
                 then Some (p\<lparr>p_stock := Some (stockOr0 p - orderedQty cart pid)\<rparr>)
                 else Some p)"

definition yearCount :: "nat \<Rightarrow> Order list \<Rightarrow> nat" where
  "yearCount year ords = length (filter (\<lambda>ord. o_orderYear ord = year) ords)"

text \<open>
  The metadata an order is expected to carry, as the \<^verbatim>\<open>json\<close> column holds it:
  \<open>usedPoints\<close> and \<open>unitPrice\<close> (\<^verbatim>\<open>null\<close> when not finite), the delivery fields, and on
  the co-pay path the co-pay and the two payment references.
\<close>

definition stamped ::
  "string \<Rightarrow> string option \<Rightarrow> jsnum option \<Rightarrow> string option \<Rightarrow> string option \<Rightarrow>
   jsnum \<Rightarrow> jsnum \<Rightarrow> OrderMeta" where
  "stamped deliveryMethod deliveryAddress copay paymentId txnId usedPoints unitPrice =
     \<lparr> m_usedPoints = jsonNum usedPoints, m_unitPrice = jsonNum unitPrice,
       m_deliveryMethod = deliveryMethod, m_deliveryAddress = deliveryAddress,
       m_copayInr = copay, m_paymentId = paymentId, m_phonepeOrderId = txnId \<rparr>"

text \<open>
  The order expected for a cart item: the item's fields, status \<^verbatim>\<open>confirmed\<close>, metadata
  built by \<open>mk\<close> from \<open>usedPoints = ceil(unitPrice / inrPerPoint) * quantity\<close> and the
  item's unit price, and the identifier that follows \<open>n\<close> existing orders of the year.
\<close>

definition expectedOrder ::
  "js_runtime \<Rightarrow> nat \<Rightarrow> id \<Rightarrow> jsnum \<Rightarrow> (jsnum \<Rightarrow> jsnum \<Rightarrow> OrderMeta) \<Rightarrow> (id \<rightharpoonup> Product) \<Rightarrow>
   nat \<Rightarrow> CartItem \<Rightarrow> Order" where
  "expectedOrder rt year employeeId inr mk ps n item =
     \<lparr> o_orderId = ''ORD-'' @ dec_of_nat year @ ''-'' @ padStart 3 (dec_of_nat (n + 1)),
       o_employeeId = employeeId,
       o_productId = c_productId item,
       o_selectedColor = c_selectedColor item,
       o_selectedSize = c_selectedSize item,
       o_quantity = Some (c_quantity item),
       o_campaignId = idOrUndefined (c_campaignId item),
       o_status = ''confirmed'',
       o_orderYear = year,
       o_metadata = Some (mk (usedPointsOf rt (unitPriceIn rt ps item) inr (c_quantity item))
                             (unitPriceIn rt ps item)) \<rparr>"

fun expectedOrders ::
  "js_runtime \<Rightarrow> nat \<Rightarrow> id \<Rightarrow> jsnum \<Rightarrow> (jsnum \<Rightarrow> jsnum \<Rightarrow> OrderMeta) \<Rightarrow> (id \<rightharpoonup> Product) \<Rightarrow>
   nat \<Rightarrow> CartItem list \<Rightarrow> Order list" where
  "expectedOrders rt year employeeId inr mk ps n [] = []"
| "expectedOrders rt year employeeId inr mk ps n (item # items) =
     expectedOrder rt year employeeId inr mk ps n item
       # expectedOrders rt year employeeId inr mk ps (Suc n) items"

text \<open>The request comes with the token of a session of employee \<open>eid\<close>, whose row is \<open>emp\<close>.\<close>

definition authenticated :: "db \<Rightarrow> string option \<Rightarrow> id \<Rightarrow> Employee \<Rightarrow> bool" where
  "authenticated d token eid emp =
     (case token of
        None \<Rightarrow> False
      | Some t \<Rightarrow> t \<noteq> [] \<and> sessions d t = Some eid \<and> employees d eid = Some emp)"

text \<open>
  The selection limit is not exceeded: the limit is \<open>-1\<close> (unlimited), or the employee's
  historical orders plus the incoming cart items do not exceed it.
\<close>

definition selectionOk :: "db \<Rightarrow> id \<Rightarrow> bool" where
  "selectionOk d eid =
     (maxSelections d = - 1 \<or>
      int (length (getOrdersByEmployeeId d eid)) + int (length (getCartItems d eid))
        \<le> maxSelections d)"

text \<open>
  The gateway is configured, the request names a transaction, and the gateway's reply
  \<open>result\<close> to the status request reports success with code \<^verbatim>\<open>PAYMENT_SUCCESS\<close>.
\<close>

definition paymentVerified ::
  "gw_config \<Rightarrow> verify_req \<Rightarrow> gw_status option \<Rightarrow> gw_status \<Rightarrow> bool" where
  "paymentVerified cfg req reply result =
     (\<not> unset (txnIdOf req) \<and> \<not> unset (g_merchantId cfg) \<and> \<not> unset (g_saltKey cfg) \<and>
      reply = Some result \<and> gs_ok result \<and> gs_success result \<and>
      gs_code result = Some ''PAYMENT_SUCCESS'')"

text \<open>
  \<open>copayAmount = ceil(deficitPoints * inrPerPoint)\<close> with
  \<open>deficitPoints = totalPointsRequired - employee.points\<close>, and the amount the gateway
  reports as paid, converted from minor units; subtraction, multiplication and
  division are those of the run time.
\<close>

definition copayAmount :: "js_runtime \<Rightarrow> jsnum \<Rightarrow> jsnum \<Rightarrow> jsnum \<Rightarrow> jsnum" where
  "copayAmount rt tot userPoints inr = js_ceil (dbl_mul rt (dbl_sub rt tot userPoints) inr)"

definition paidAmount :: "js_runtime \<Rightarrow> gw_status \<Rightarrow> jsnum" where
  "paidAmount rt result =
     dbl_div rt (case gs_amount result of None \<Rightarrow> Fin 0 | Some a \<Rightarrow> a) (Fin 100)"

text \<open>
  The store a committed checkout of the cart \<open>cart\<close> of employee \<open>eid\<close> leaves behind:
  stocks reduced, one order appended per cart item, the balance set to \<open>newPoints\<close>, the
  employee's cart rows deleted, every other table as before.
\<close>

definition afterCheckout ::
  "js_runtime \<Rightarrow> nat \<Rightarrow> db \<Rightarrow> id \<Rightarrow> Employee \<Rightarrow> CartItem list \<Rightarrow>
   (jsnum \<Rightarrow> jsnum \<Rightarrow> OrderMeta) \<Rightarrow> jsnum \<Rightarrow> db" where
  "afterCheckout rt year d eid emp cart mk newPoints =
     d\<lparr>products := stockAfter (products d) cart,
       orders := orders d @
         expectedOrders rt year eid (inrPerPoint rt d) mk (products d)
           (yearCount year (orders d)) cart,
       employees := (employees d)(eid \<mapsto> emp\<lparr>e_points := Some newPoints\<rparr>),
       cartItems := filter (\<lambda>c. c_employeeId c \<noteq> eid) (cartItems d)\<rparr>"

section \<open>An example store\<close>

text \<open>
  Employee \<open>e1\<close> holds 500 points and has a session; the conversion rate is 2 per
  point and selections are unlimited. Product \<open>p1\<close> is the slab example with stock 50,
  product \<open>p2\<close> costs 99 without slabs and has stock 10. The cart of \<open>e1\<close> holds three
  units of \<open>p2\<close>.
\<close>

definition penProduct :: Product where
  "penProduct =
     \<lparr> p_name = ''Pen'', p_sku = Some ''PEN-1'', p_price = Some ''99'', p_stock = Some 10,
       p_isActive = True, p_bulkBuy = True, p_colors = [], p_sizes = [],
       p_priceSlabs = None \<rparr>"

definition employee1 :: Employee where
  "employee1 = \<lparr> e_email = ''asha@example.com'', e_points = Some (Fin 500),
                 e_bulkBuyAllowed = True \<rparr>"

definition cartItem1 :: CartItem where
  "cartItem1 =
     \<lparr> c_id = ''c1'', c_employeeId = ''e1'', c_productId = ''p2'', c_selectedColor = None,
       c_selectedSize = None, c_quantity = 3, c_campaignId = None \<rparr>"

definition branding1 :: Branding where
  "branding1 = \<lparr> b_maxSelectionsPerUser = Some (- 1), b_inrPerPoint = Some ''2'' \<rparr>"

definition exampleDb :: db where
  "exampleDb =
     \<lparr> employees = [''e1'' \<mapsto> employee1],
       products = [''p1'' \<mapsto> exampleProduct, ''p2'' \<mapsto> penProduct],
       campaigns = Map.empty,
       campaignProducts = [],
       sessions = [''tok1'' \<mapsto> ''e1''],
       branding = Some branding1,
       orders = [],
       cartItems = [cartItem1],
       bulkBuyAccess = Map.empty,
       bulkBuyCartItems = [],
       bulkBuyRequests = [] \<rparr>"

definition exampleReq :: checkout_req where
  "exampleReq = \<lparr> r_token = Some ''tok1'', r_deliveryMethod = None, r_deliveryAddress = None \<rparr>"

text \<open>The same store with only 100 points for \<open>e1\<close>: 50 points short of the 150 required.\<close>

definition poorDb :: db where
  "poorDb = exampleDb\<lparr>employees := [''e1'' \<mapsto> employee1\<lparr>e_points := Some (Fin 100)\<rparr>]\<rparr>"

definition exampleCfg :: gw_config where
  "exampleCfg = \<lparr> g_merchantId = Some ''M1'', g_saltKey = Some ''s3cret'',
                  g_redirectBase = Some ''https://shop.example'' \<rparr>"

definition exampleVerifyReq :: verify_req where
  "exampleVerifyReq =
     \<lparr> v_token = Some ''tok1'', v_merchantTransactionId = Some ''TXN_1'',
       v_merchantOrderId = None, v_deliveryMethod = None, v_deliveryAddress = None \<rparr>"

text \<open>The gateway confirms a payment of 10000 minor units, that is 100.\<close>

definition paidReply :: gw_status where
  "paidReply = \<lparr> gs_ok = True, gs_success = True, gs_code = Some ''PAYMENT_SUCCESS'',
                 gs_amount = Some (Fin 10000), gs_transactionId = Some ''T-77'' \<rparr>"

text \<open>
  A store for the selection limit: as \<open>exampleDb\<close>, but the limit is 1 and \<open>e1\<close> already
  has one order.
\<close>

definition oldOrder :: Order where
  "oldOrder =
     \<lparr> o_orderId = ''ORD-2025-001'', o_employeeId = ''e1'', o_productId = ''p1'',
       o_selectedColor = None, o_selectedSize = None, o_quantity = Some 1,
       o_campaignId = None, o_status = ''confirmed'', o_orderYear = 2025,
       o_metadata = None \<rparr>"

definition limitedDb :: db where
  "limitedDb =
     exampleDb\<lparr>branding := Some (branding1\<lparr>b_maxSelectionsPerUser := Some 1\<rparr>),
               orders := [oldOrder]\<rparr>"

text \<open>The gateway confirms a payment of 10100 minor units: 101 instead of 100.\<close>

definition overpaidReply :: gw_status where
  "overpaidReply = paidReply\<lparr>gs_amount := Some (Fin 10100)\<rparr>"

definition payReply :: gw_pay where
  "payReply = \<lparr> gp_ok = True, gp_success = True, gp_url = Some ''https://pay.example/1'' \<rparr>"

section \<open>Quantities used to state the bulk-buy and campaign claims\<close>

text \<open>A bulk-buy cart row counts when its product exists and is a bulk-buy product.\<close>

definition bulkItemValid :: "(id \<rightharpoonup> Product) \<Rightarrow> BulkCartItem \<Rightarrow> bool" where
  "bulkItemValid ps it = (case ps (bc_productId it) of None \<Rightarrow> False | Some p \<Rightarrow> p_bulkBuy p)"

definition bulkItemInStock :: "(id \<rightharpoonup> Product) \<Rightarrow> BulkCartItem \<Rightarrow> bool" where
  "bulkItemInStock ps it =
     (case ps (bc_productId it) of None \<Rightarrow> False | Some p \<Rightarrow> bc_quantity it \<le> stockOr0 p)"

text \<open>
  The snapshot line of a cart row: name and sku of the product, the row's colour and
  quantity, the unit price resolved for that quantity, and the line total rounded to
  two decimals.
\<close>

definition snapshotOf :: "js_runtime \<Rightarrow> (id \<rightharpoonup> Product) \<Rightarrow> BulkCartItem \<Rightarrow> BulkItemSnap" where
  "snapshotOf rt ps it =
     (case ps (bc_productId it) of
        None \<Rightarrow> \<lparr> s_productId = bc_productId it, s_name = [], s_sku = None,
                  s_selectedColor = bc_selectedColor it, s_selectedSize = None,
                  s_quantity = bc_quantity it, s_unitPrice = NaN, s_lineTotal = NaN \<rparr>
      | Some p \<Rightarrow>
          \<lparr> s_productId = bc_productId it, s_name = p_name p, s_sku = p_sku p,
            s_selectedColor = bc_selectedColor it, s_selectedSize = None,
            s_quantity = bc_quantity it,
            s_unitPrice = getUnitPriceForQty rt p (num (bc_quantity it)),
            s_lineTotal = lineTotalOf rt (getUnitPriceForQty rt p (num (bc_quantity it)))
                            (bc_quantity it) \<rparr>)"

definition bulkSnapshot ::
  "js_runtime \<Rightarrow> (id \<rightharpoonup> Product) \<Rightarrow> BulkCartItem list \<Rightarrow> BulkItemSnap list" where
  "bulkSnapshot rt ps cart = map (snapshotOf rt ps) (filter (bulkItemValid ps) cart)"

text \<open>The employee may use bulk buy: the own flag, or an active allowlist entry.\<close>

definition bulkBuyEligible :: "db \<Rightarrow> Employee \<Rightarrow> bool" where
  "bulkBuyEligible d emp =
     (e_bulkBuyAllowed emp \<or>
      (case bulkBuyAccess d (e_email emp) of None \<Rightarrow> False | Some a \<Rightarrow> a_isActive a))"

text \<open>
  The request a bulk-buy submission is expected to store: status \<^verbatim>\<open>pending_approval\<close>,
  the snapshot, the total with two decimals, and the identifier built from the number
  \<open>n\<close> of requests counted.
\<close>

definition expectedRequest ::
  "js_runtime \<Rightarrow> nat \<Rightarrow> nat \<Rightarrow> id \<Rightarrow> string \<Rightarrow> string option \<Rightarrow> string option \<Rightarrow>
   BulkItemSnap list \<Rightarrow> jsnum \<Rightarrow> BulkBuyRequest" where
  "expectedRequest rt year n eid dmeth address note snaps tot =
     \<lparr> bb_requestId = ''BBR-'' @ dec_of_nat year @ ''-'' @ padStart 4 (dec_of_nat (n + 1)),
       bb_employeeId = eid, bb_status = ''pending_approval'', bb_deliveryMethod = dmeth,
       bb_deliveryAddress = address, bb_requesterNote = note, bb_items = snaps,
       bb_totalAmount = toFixed2 rt tot, bb_createdYear = year \<rparr>"

text \<open>
  Campaign usage as the specification defines it: the sum of the quantities (1 when
  the quantity is missing) of the employee's orders whose \<^verbatim>\<open>campaignId\<close> is the
  campaign's id, plus the sum of the quantities of the employee's cart rows whose
  \<^verbatim>\<open>campaignId\<close> is the campaign's id, the row \<open>updated\<close> that is being changed left out.
\<close>

definition campaignUsage :: "db \<Rightarrow> id \<Rightarrow> id \<Rightarrow> id option \<Rightarrow> int" where
  "campaignUsage d eid cid updated =
     (\<Sum>ord\<leftarrow>filter (\<lambda>ord. o_campaignId ord = Some cid) (getOrdersByEmployeeId d eid).
         (case o_quantity ord of None \<Rightarrow> 1 | Some q \<Rightarrow> q)) +
     (\<Sum>c\<leftarrow>filter (\<lambda>c. c_campaignId c = Some cid \<and> Some (c_id c) \<noteq> updated)
            (getCartItems d eid). c_quantity c)"

text \<open>
  The rule of the specification: a campaign without a cap always allows; with a cap
  the request is allowed exactly when usage plus the requested quantity stays within
  the cap.
\<close>

definition campaignAllows :: "db \<Rightarrow> id \<Rightarrow> id \<Rightarrow> Campaign \<Rightarrow> id option \<Rightarrow> int \<Rightarrow> bool" where
  "campaignAllows d eid cid campaign updated requested =
     (case cmp_maxProductsPerUser campaign of
        None \<Rightarrow> True
      | Some cap \<Rightarrow> campaignUsage d eid cid updated + requested \<le> cap)"

section \<open>Example stores for bulk buy and campaigns\<close>

definition bulkItem1 :: BulkCartItem where
  "bulkItem1 = \<lparr> bc_id = ''b1'', bc_employeeId = ''e1'', bc_productId = ''p1'',
                 bc_selectedColor = None, bc_quantity = 10 \<rparr>"

definition bulkDb :: db where
  "bulkDb = exampleDb\<lparr>bulkBuyCartItems := [bulkItem1]\<rparr>"

definition bulkReq :: bulk_req where
  "bulkReq = \<lparr> q_token = Some ''tok1'', q_deliveryMethod = None, q_deliveryAddress = None,
               q_requesterNote = None \<rparr>"

definition directReq :: bulk_direct_req where
  "directReq =
     \<lparr> dq_token = Some ''tok1'', dq_productId = Some ''p1'', dq_quantity = Some (Fin 10),
       dq_selectedColor = None, dq_selectedSize = None, dq_deliveryMethod = None,
       dq_deliveryAddress = None, dq_requesterNote = None \<rparr>"

text \<open>A store that already holds one bulk-buy request, created in 2025.\<close>

definition oldRequest :: BulkBuyRequest where
  "oldRequest =
     \<lparr> bb_requestId = ''BBR-2025-0001'', bb_employeeId = ''e1'', bb_status = ''approved'',
       bb_deliveryMethod = ''office'', bb_deliveryAddress = None, bb_requesterNote = None,
       bb_items = [], bb_totalAmount = ''0.00'', bb_createdYear = 2025 \<rparr>"

definition oldBulkDb :: db where
  "oldBulkDb = bulkDb\<lparr>bulkBuyRequests := [oldRequest]\<rparr>"

definition exampleInsert :: InsertBulkBuyRequest where
  "exampleInsert =
     \<lparr> ib_employeeId = ''e1'', ib_deliveryMethod = ''office'', ib_deliveryAddress = None,
       ib_requesterNote = None, ib_items = [], ib_totalAmount = Fin 800 \<rparr>"

definition exampleInsertOrder :: InsertOrder where
  "exampleInsertOrder =
     \<lparr> io_employeeId = ''e1'', io_productId = ''p2'', io_selectedColor = None,
       io_selectedSize = None, io_quantity = 1, io_campaignId = None, io_metadata = None \<rparr>"

text \<open>
  Campaign \<open>k1\<close> is active, has a cap of 2 and contains product \<open>p2\<close>. Employee \<open>e1\<close>
  has one order of two units of \<open>p2\<close>, placed without a campaign id, and one cart row
  \<open>c1\<close>: one unit of \<open>p2\<close>, added for campaign \<open>k1\<close>.
\<close>

definition campaign1 :: Campaign where
  "campaign1 = \<lparr> cmp_name = ''Diwali'', cmp_isActive = True, cmp_maxProductsPerUser = Some 2 \<rparr>"

definition legacyOrder :: Order where
  "legacyOrder = oldOrder\<lparr>o_productId := ''p2'', o_quantity := Some 2\<rparr>"

definition campaignItem :: CartItem where
  "campaignItem = cartItem1\<lparr>c_quantity := 1, c_campaignId := Some ''k1''\<rparr>"

definition campaignDb :: db where
  "campaignDb =
     exampleDb\<lparr>campaigns := [''k1'' \<mapsto> campaign1], campaignProducts := [(''k1'', ''p2'')],
               orders := [legacyOrder], cartItems := [campaignItem]\<rparr>"

text \<open>The request that the checkout of \<open>bulkDb\<close> in 2026 stores: ten mugs at the slab price 80.\<close>

definition exampleSnap :: BulkItemSnap where
  "exampleSnap =
     \<lparr> s_productId = ''p1'', s_name = ''Mug'', s_sku = Some ''MUG-1'', s_selectedColor = None,
       s_selectedSize = None, s_quantity = 10, s_unitPrice = Fin 80, s_lineTotal = Fin 800 \<rparr>"

definition exampleRequest :: BulkBuyRequest where
  "exampleRequest =
     \<lparr> bb_requestId = ''BBR-2026-0001'', bb_employeeId = ''e1'', bb_status = ''pending_approval'',
       bb_deliveryMethod = ''office'', bb_deliveryAddress = None, bb_requesterNote = None,
       bb_items = [exampleSnap], bb_totalAmount = ''800.00'', bb_createdYear = 2026 \<rparr>"

section \<open>Lemmas about the slab normaliser\<close>

lemma rt0_simps:
  "Number_str rt0 = decNumber" "parseFloat_str rt0 = decParseFloat"
  "String_num rt0 = decString" "toFixed2 rt0 = decToFixed2" "trim rt0 = asciiTrim"
  "dbl_add rt0 = js_add" "dbl_sub rt0 = js_sub" "dbl_mul rt0 = js_mul" "dbl_div rt0 = js_div"
  by (simp_all add: rt0_def)

lemma js_isFinite_iff: "js_isFinite a = (\<exists>r. a = Fin r)"
  by (cases a) auto

lemma slabCmp_gt_iff:
  assumes "wellFormed a" "wellFormed b"
  shows "js_gt (slabCmp a b) (Fin 0) = (\<not> slab_le a b)"
proof -
  obtain x y where xy: "minQty a = Fin x" "minQty b = Fin y"
    using assms by (auto simp: wellFormed_def js_isFinite_iff)
  show ?thesis
  proof (cases "x = y")
    case False
    then show ?thesis using xy
      by (auto simp: slabCmp_def slab_le_def js_sub_def js_truthy_def js_gt_def Let_def)
  next
    case True
    show ?thesis
    proof (cases "maxQty a")
      case None
      then show ?thesis using xy True assms(2)
        by (cases "maxQty b")
           (auto simp: slabCmp_def slab_le_def js_sub_def js_truthy_def js_gt_def js_le_def
              toMax_def wellFormed_def js_isFinite_iff Let_def)
    next
      case (Some m)
      then show ?thesis using xy True assms
        by (cases "maxQty b")
           (auto simp: slabCmp_def slab_le_def js_sub_def js_truthy_def js_gt_def js_le_def
              toMax_def wellFormed_def js_isFinite_iff Let_def)
    qed
  qed
qed

lemma slab_le_total: "wellFormed a \<Longrightarrow> wellFormed b \<Longrightarrow> \<not> slab_le a b \<Longrightarrow> slab_le b a"
  by (cases "maxQty a"; cases "maxQty b")
     (auto simp: slab_le_def wellFormed_def js_isFinite_iff js_le_def toMax_def)

lemma slab_le_trans:
  "wellFormed a \<Longrightarrow> wellFormed b \<Longrightarrow> wellFormed c \<Longrightarrow> slab_le a b \<Longrightarrow> slab_le b c
   \<Longrightarrow> slab_le a c"
  by (cases "maxQty a"; cases "maxQty b"; cases "maxQty c")
     (auto simp: slab_le_def wellFormed_def js_isFinite_iff js_le_def toMax_def)

lemma set_insortSlab: "set (insortSlab x ys) = insert x (set ys)"
  by (induction ys) auto

lemma set_sortSlabs: "set (sortSlabs xs) = set xs"
  by (induction xs) (auto simp: set_insortSlab)

lemma filter_len_insortSlab:
  "length (filter P (insortSlab x ys)) = length (filter P (x # ys))"
  by (induction ys) auto

lemma filter_len_sortSlabs: "length (filter P (sortSlabs xs)) = length (filter P xs)"
  by (induction xs) (auto simp: filter_len_insortSlab)

lemma sorted_insortSlab:
  assumes "sorted_wrt slab_le ys" "wellFormed x" "\<forall>y\<in>set ys. wellFormed y"
  shows "sorted_wrt slab_le (insortSlab x ys)"
  using assms
proof (induction ys)
  case Nil
  then show ?case by simp
next
  case (Cons y ys)
  show ?case
  proof (cases "js_gt (slabCmp x y) (Fin 0)")
    case True
    then have "slab_le y x"
      using Cons.prems slabCmp_gt_iff[of x y] slab_le_total[of x y] by auto
    then show ?thesis using True Cons by (auto simp: set_insortSlab)
  next
    case False
    then have xy: "slab_le x y" using Cons.prems slabCmp_gt_iff[of x y] by auto
    have "\<forall>z\<in>set ys. slab_le x z"
      using xy Cons.prems slab_le_trans[of x y] by auto
    then show ?thesis using False xy Cons.prems by auto
  qed
qed

lemma sorted_sortSlabs:
  "\<forall>y\<in>set xs. wellFormed y \<Longrightarrow> sorted_wrt slab_le (sortSlabs xs)"
  by (induction xs) (auto simp: sorted_insortSlab set_sortSlabs)

lemma overlap_sym: "overlap a b = overlap b a"
  by (auto simp: overlap_def)

lemma overlapsLater_iff: "overlapsLater a bs = (\<exists>b\<in>set bs. overlap a b)"
  by (induction bs) auto

lemma hasOverlap_iff: "hasOverlap xs = (\<not> sorted_wrt (\<lambda>a b. \<not> overlap a b) xs)"
  by (induction xs) (auto simp: overlapsLater_iff)

lemma hasOverlap_insortSlab: "hasOverlap (insortSlab x ys) = hasOverlap (x # ys)"
  by (induction ys) (auto simp: overlapsLater_iff set_insortSlab overlap_sym)

lemma hasOverlap_sortSlabs: "hasOverlap (sortSlabs xs) = hasOverlap xs"
  by (induction xs) (auto simp: hasOverlap_insortSlab overlapsLater_iff set_sortSlabs)

lemma validateSlabs_None:
  "validateSlabs rt xs = None \<Longrightarrow> s \<in> set xs \<Longrightarrow>
   (case maxQty s of None \<Rightarrow> True | Some m \<Rightarrow> js_isFinite m \<and> \<not> js_lt m (minQty s))"
  by (induction xs) (auto simp: Let_def split: if_splits option.splits)

lemma cleaned_wellFormed:
  "validateSlabs rt (cleanSlabs rt xs) = None \<Longrightarrow> s \<in> set (cleanSlabs rt xs) \<Longrightarrow> wellFormed s"
  using validateSlabs_None[of rt "cleanSlabs rt xs" s]
  by (auto simp: wellFormed_def cleanSlabs_def retained_def)

lemma normalize_Inr_iff:
  "normalizePriceSlabs rt (Some xs) = Inr out \<longleftrightarrow>
     validateSlabs rt (cleanSlabs rt xs) = None \<and>
     length (filter (\<lambda>s. maxQty s = None) (cleanSlabs rt xs)) \<le> 1 \<and>
     \<not> hasOverlap (cleanSlabs rt xs) \<and> out = sortSlabs (cleanSlabs rt xs)"
  by (auto simp: normalizePriceSlabs_def Let_def hasOverlap_sortSlabs split: option.splits)

lemma normalize_output_invariant:
  assumes "normalizePriceSlabs rt (Some xs) = Inr out"
  shows "slabsInvariant out"
proof -
  have v: "validateSlabs rt (cleanSlabs rt xs) = None" and o: "out = sortSlabs (cleanSlabs rt xs)"
    using assms by (simp_all add: normalize_Inr_iff)
  have wf: "\<forall>s\<in>set (cleanSlabs rt xs). wellFormed s"
    using v cleaned_wellFormed by blast
  show ?thesis
    using wf o by (simp add: slabsInvariant_def list_all_iff set_sortSlabs sorted_sortSlabs)
qed

lemma sortSlabs_sorted_id:
  "list_all wellFormed xs \<Longrightarrow> sorted_wrt slab_le xs \<Longrightarrow> sortSlabs xs = xs"
proof (induction xs)
  case Nil
  then show ?case by simp
next
  case (Cons x xs)
  then have ih: "sortSlabs xs = xs" by simp
  show ?case
  proof (cases xs)
    case Nil
    then show ?thesis by simp
  next
    case (Cons y ys)
    then have "slab_le x y" "wellFormed x" "wellFormed y"
      using Cons.prems by auto
    then have "\<not> js_gt (slabCmp x y) (Fin 0)"
      by (simp add: slabCmp_gt_iff)
    then show ?thesis using ih Cons by simp
  qed
qed

lemma slabMatches_contains:
  "wellFormed s \<Longrightarrow> slabMatches q s = contains_qty q s"
  by (simp add: slabMatches_def contains_qty_def wellFormed_def js_ge_def Let_def)

lemma find_cong_set: "(\<And>x. x \<in> set xs \<Longrightarrow> P x = Q x) \<Longrightarrow> find P xs = find Q xs"
  by (induction xs) auto

section \<open>Lemmas about the checkout loops\<close>

lemma getUnitPriceForQty_stock [simp]:
  "getUnitPriceForQty rt (p\<lparr>p_stock := s\<rparr>) q = getUnitPriceForQty rt p q"
  by (simp add: getUnitPriceForQty_def)

lemma stockOr0_update [simp]: "stockOr0 (p\<lparr>p_stock := Some s\<rparr>) = s"
  by (simp add: stockOr0_def)

lemma pointsLoop_stockOk:
  "stockOk (products d) cart \<Longrightarrow>
   pointsLoop rt d inr cart acc =
     Inr (foldl (dbl_add rt) acc
            (map (\<lambda>item. usedPointsOf rt (unitPriceIn rt (products d) item) inr (c_quantity item)) cart))"
  by (induction cart arbitrary: acc)
     (auto simp: stockOk_def available_def unitPriceIn_def pointsFor_def usedPointsOf_def Let_def
        split: option.splits)

lemma pointsLoop_Inr_stockOk:
  "pointsLoop rt d inr cart acc = Inr t \<Longrightarrow> stockOk (products d) cart"
proof (induction cart arbitrary: acc)
  case Nil
  then show ?case by (simp add: stockOk_def)
next
  case (Cons item items)
  from Cons.prems obtain p where p: "products d (c_productId item) = Some p"
    by (auto split: option.splits)
  from Cons.prems p have q: "\<not> stockOr0 p < c_quantity item"
    by (auto split: if_splits)
  from Cons.prems p q obtain acc' where "pointsLoop rt d inr items acc' = Inr t"
    by (auto simp: Let_def)
  then have "stockOk (products d) items" by (rule Cons.IH)
  then show ?case using p q by (simp add: stockOk_def available_def)
qed

lemma pointsLoop_Inr_iff:
  "pointsLoop rt d inr cart (Fin 0) = Inr t \<longleftrightarrow>
     stockOk (products d) cart \<and> t = requiredPoints rt (products d) inr cart"
  using pointsLoop_stockOk[of d cart rt inr "Fin 0"] pointsLoop_Inr_stockOk[of rt d inr cart "Fin 0" t]
  by (auto simp: requiredPoints_def)

lemma orderedQty_Nil [simp]: "orderedQty [] pid = 0"
  by (simp add: orderedQty_def)

lemma orderedQty_Cons:
  "orderedQty (item # items) pid =
     (if c_productId item = pid then c_quantity item else 0) + orderedQty items pid"
  by (simp add: orderedQty_def)

lemma orderedQty_notin: "pid \<notin> c_productId ` set items \<Longrightarrow> orderedQty items pid = 0"
  by (induction items) (auto simp: orderedQty_Cons)

lemma stockAfter_Nil [simp]: "stockAfter ps [] = ps"
  by (auto simp: stockAfter_def fun_eq_iff split: option.splits)

lemma stockAfter_step:
  assumes "ps (c_productId item) = Some p"
  shows "stockAfter (ps(c_productId item \<mapsto> p\<lparr>p_stock := Some (stockOr0 p - c_quantity item)\<rparr>)) items
         = stockAfter ps (item # items)"
proof
  fix pid
  show "stockAfter (ps(c_productId item \<mapsto> p\<lparr>p_stock := Some (stockOr0 p - c_quantity item)\<rparr>)) items pid
         = stockAfter ps (item # items) pid"
  proof (cases "pid = c_productId item")
    case True
    then show ?thesis using assms
      by (cases "pid \<in> c_productId ` set items")
         (auto simp: stockAfter_def orderedQty_Cons orderedQty_notin)
  next
    case False
    then show ?thesis
      by (auto simp: stockAfter_def orderedQty_Cons split: option.splits)
  qed
qed

lemma unitPriceIn_step:
  "ps pid = Some p \<Longrightarrow> unitPriceIn rt (ps(pid \<mapsto> p\<lparr>p_stock := s\<rparr>)) item = unitPriceIn rt ps item"
  by (auto simp: unitPriceIn_def)

lemma expectedOrders_step:
  "ps pid = Some p \<Longrightarrow>
   expectedOrders rt year eid inr mk (ps(pid \<mapsto> p\<lparr>p_stock := s\<rparr>)) n items
     = expectedOrders rt year eid inr mk ps n items"
  by (induction items arbitrary: n) (simp_all add: expectedOrder_def unitPriceIn_step)

lemma yearCount_expected [simp]:
  "yearCount year (os @ [expectedOrder rt year eid inr mk ps n item]) = Suc (yearCount year os)"
  by (simp add: yearCount_def expectedOrder_def)

lemma present_step:
  "present ps item \<Longrightarrow> present (ps(pid \<mapsto> p')) item"
  by (simp add: present_def)

lemma commitLoop_db:
  assumes "list_all (present (products d)) items"
  shows "snd (commitLoop rt year eid inr mk items d) =
            d\<lparr>products := stockAfter (products d) items,
              orders := orders d @
                expectedOrders rt year eid inr mk (products d) (yearCount year (orders d)) items\<rparr>"
  using assms
proof (induction items arbitrary: d)
  case Nil
  then show ?case by simp
next
  case (Cons item items)
  then obtain p where p: "products d (c_productId item) = Some p" by (auto simp: present_def)
  let ?d1 = "updateProductStock d (c_productId item) (stockOr0 p - c_quantity item)"
  let ?io = "\<lparr> io_employeeId = eid,
                       io_productId = c_productId item,
                       io_selectedColor = c_selectedColor item,
                       io_selectedSize = c_selectedSize item,
                       io_quantity = c_quantity item,
                       io_campaignId = idOrUndefined (c_campaignId item),
                       io_metadata = Some (mk (pointsFor rt (getUnitPriceForQty rt p (num (c_quantity item))) inr (c_quantity item)) (getUnitPriceForQty rt p (num (c_quantity item)))) \<rparr>"
  let ?d2 = "snd (createOrder year ?d1 ?io)"
  have ps2: "products ?d2 = (products d)(c_productId item \<mapsto> p\<lparr>p_stock := Some (stockOr0 p - c_quantity item)\<rparr>)"
    using p by (simp add: createOrder_def updateProductStock_def Let_def)
  have os2: "orders ?d2 = orders d @ [expectedOrder rt year eid inr mk (products d) (yearCount year (orders d)) item]"
    using p by (simp add: createOrder_def updateProductStock_def Let_def expectedOrder_def unitPriceIn_def
        yearCount_def pointsFor_def usedPointsOf_def)
  have all2: "list_all (present (products ?d2)) items"
    using Cons.prems unfolding ps2 by (auto simp: list_all_iff intro: present_step)
  have ih: "snd (commitLoop rt year eid inr mk items ?d2) =
     ?d2\<lparr>products := stockAfter (products ?d2) items,
         orders := orders ?d2 @ expectedOrders rt year eid inr mk (products ?d2) (yearCount year (orders ?d2)) items\<rparr>"
    using Cons.IH[OF all2] .
  have step: "snd (commitLoop rt year eid inr mk (item # items) d) = snd (commitLoop rt year eid inr mk items ?d2)"
    using p by (simp add: Let_def split: prod.splits)
  have rest: "?d2\<lparr>products := stockAfter (products ?d2) items,
         orders := orders ?d2 @ expectedOrders rt year eid inr mk (products ?d2) (yearCount year (orders ?d2)) items\<rparr>
     = d\<lparr>products := stockAfter (products d) (item # items),
              orders := orders d @
                expectedOrders rt year eid inr mk (products d) (yearCount year (orders d)) (item # items)\<rparr>"
    unfolding os2 ps2
    using p by (simp add: stockAfter_step expectedOrders_step createOrder_def updateProductStock_def Let_def)
  show ?case unfolding step ih rest ..
qed

lemma commitLoop_orders:
  assumes "list_all (present (products d)) items"
  shows "map fst (fst (commitLoop rt year eid inr mk items d)) =
           expectedOrders rt year eid inr mk (products d) (yearCount year (orders d)) items"
  using assms
proof (induction items arbitrary: d)
  case Nil
  then show ?case by simp
next
  case (Cons item items)
  then obtain p where p: "products d (c_productId item) = Some p" by (auto simp: present_def)
  let ?d1 = "updateProductStock d (c_productId item) (stockOr0 p - c_quantity item)"
  let ?io = "\<lparr> io_employeeId = eid,
                       io_productId = c_productId item,
                       io_selectedColor = c_selectedColor item,
                       io_selectedSize = c_selectedSize item,
                       io_quantity = c_quantity item,
                       io_campaignId = idOrUndefined (c_campaignId item),
                       io_metadata = Some (mk (pointsFor rt (getUnitPriceForQty rt p (num (c_quantity item))) inr (c_quantity item)) (getUnitPriceForQty rt p (num (c_quantity item)))) \<rparr>"
  let ?d2 = "snd (createOrder year ?d1 ?io)"
  have ps2: "products ?d2 = (products d)(c_productId item \<mapsto> p\<lparr>p_stock := Some (stockOr0 p - c_quantity item)\<rparr>)"
    using p by (simp add: createOrder_def updateProductStock_def Let_def)
  have os2: "orders ?d2 = orders d @ [expectedOrder rt year eid inr mk (products d) (yearCount year (orders d)) item]"
    using p by (simp add: createOrder_def updateProductStock_def Let_def expectedOrder_def unitPriceIn_def
        yearCount_def pointsFor_def usedPointsOf_def)
  have f2: "fst (createOrder year ?d1 ?io) = expectedOrder rt year eid inr mk (products d) (yearCount year (orders d)) item"
    using p by (simp add: createOrder_def updateProductStock_def Let_def expectedOrder_def unitPriceIn_def
        yearCount_def pointsFor_def usedPointsOf_def)
  have all2: "list_all (present (products ?d2)) items"
    using Cons.prems unfolding ps2 by (auto simp: list_all_iff intro: present_step)
  have ih: "map fst (fst (commitLoop rt year eid inr mk items ?d2)) =
     expectedOrders rt year eid inr mk (products ?d2) (yearCount year (orders ?d2)) items"
    using Cons.IH[OF all2] .
  have step: "map fst (fst (commitLoop rt year eid inr mk (item # items) d)) =
     fst (createOrder year ?d1 ?io) # map fst (fst (commitLoop rt year eid inr mk items ?d2))"
    using p by (simp add: Let_def split: prod.splits)
  show ?case unfolding step ih f2 unfolding os2 ps2
    using p by (simp add: expectedOrders_step)
qed

lemma length_expectedOrders [simp]:
  "length (expectedOrders rt year eid inr mk ps n items) = length items"
  by (induction items arbitrary: n) simp_all

lemma nth_expectedOrders:
  "i < length items \<Longrightarrow>
   expectedOrders rt year eid inr mk ps n items ! i = expectedOrder rt year eid inr mk ps (n + i) (items ! i)"
proof (induction items arbitrary: n i)
  case Nil
  then show ?case by simp
next
  case (Cons item items)
  then show ?case by (cases i) simp_all
qed

lemma stockOk_present: "stockOk ps cart \<Longrightarrow> list_all (present ps) cart"
  by (auto simp: stockOk_def list_all_iff available_def present_def split: option.splits)

lemma authEmployee_Inr_iff:
  "authEmployee d token msg = Inr (eid, emp) \<longleftrightarrow>
     (\<exists>t. token = Some t \<and> t \<noteq> [] \<and> sessions d t = Some eid \<and> employees d eid = Some emp)"
  by (auto simp: authEmployee_def split: option.splits)

lemma cartChecks_Inr_iff:
  "cartChecks rt d eid emp = Inr ctx \<longleftrightarrow>
     getCartItems d eid \<noteq> [] \<and>
     (maxSelections d = - 1 \<or>
      int (length (getOrdersByEmployeeId d eid)) + int (length (getCartItems d eid)) \<le> maxSelections d) \<and>
     stockOk (products d) (getCartItems d eid) \<and>
     ctx = \<lparr> x_employeeId = eid, x_cartItems = getCartItems d eid,
             x_inrPerPoint = inrPerPoint rt d,
             x_total = requiredPoints rt (products d) (inrPerPoint rt d) (getCartItems d eid),
             x_userPoints = pointsOr0 emp \<rparr>"
proof (cases "pointsLoop rt d (inrPerPoint rt d) (getCartItems d eid) (Fin 0)")
  case (Inl r)
  then have "\<not> stockOk (products d) (getCartItems d eid)"
    using pointsLoop_stockOk[of d "getCartItems d eid" rt "inrPerPoint rt d" "Fin 0"] by auto
  then show ?thesis using Inl by (auto simp: cartChecks_def Let_def)
next
  case (Inr t)
  then have "stockOk (products d) (getCartItems d eid)"
    and "t = requiredPoints rt (products d) (inrPerPoint rt d) (getCartItems d eid)"
    by (simp_all add: pointsLoop_Inr_iff)
  then show ?thesis using Inr by (auto simp: cartChecks_def Let_def)
qed

lemma ordersValidate_Inr_iff:
  "ordersValidate rt d req = Inr ctx \<longleftrightarrow>
     (\<exists>eid emp. authEmployee d (r_token req) ''No token provided'' = Inr (eid, emp) \<and>
        cartChecks rt d eid emp = Inr ctx \<and> \<not> js_lt (x_userPoints ctx) (x_total ctx))"
  by (auto simp: ordersValidate_def split: sum.splits)

lemma storableInt_0 [simp]: "storableInt (Fin 0)"
  by (simp add: storableInt_def js_le_def)

lemma commit_tail:
  assumes "list_all (present (products d)) cart" "employees d eid = Some emp" "storableInt v"
  shows "(case commitLoop rt year eid inr mk cart d of
            (ords, d1) \<Rightarrow>
              (case updateEmployeePoints d1 eid v of
                 None \<Rightarrow> (r, d1)
               | Some d2 \<Rightarrow>
                   (let d3 = clearCart d2 eid in (OkOrders ords (employees d3 eid), d3))))
         = (OkOrders (fst (commitLoop rt year eid inr mk cart d)) (Some (emp\<lparr>e_points := Some v\<rparr>)),
            d\<lparr>products := stockAfter (products d) cart,
              orders := orders d @ expectedOrders rt year eid inr mk (products d) (yearCount year (orders d)) cart,
              employees := (employees d)(eid \<mapsto> emp\<lparr>e_points := Some v\<rparr>),
              cartItems := filter (\<lambda>c. c_employeeId c \<noteq> eid) (cartItems d)\<rparr>)"
  using assms commitLoop_db[OF assms(1), of rt year eid inr mk]
  by (simp add: case_prod_beta Let_def updateEmployeePoints_def clearCart_def)

lemma commit_tail_refused:
  assumes "list_all (present (products d)) cart" "\<not> storableInt v"
  shows "(case commitLoop rt year eid inr mk cart d of
            (ords, d1) \<Rightarrow>
              (case updateEmployeePoints d1 eid v of
                 None \<Rightarrow> (r, d1)
               | Some d2 \<Rightarrow>
                   (let d3 = clearCart d2 eid in (OkOrders ords (employees d3 eid), d3))))
         = (r, d\<lparr>products := stockAfter (products d) cart,
                 orders := orders d @
                   expectedOrders rt year eid inr mk (products d) (yearCount year (orders d)) cart\<rparr>)"
  using assms commitLoop_db[OF assms(1), of rt year eid inr mk]
  by (simp add: case_prod_beta updateEmployeePoints_def)

lemma authenticated_iff:
  "authenticated d token eid emp = (authEmployee d token msg = Inr (eid, emp))"
  by (auto simp: authenticated_def authEmployee_def split: option.splits)

lemma ordersCommit_done:
  assumes "list_all (present (products d)) (x_cartItems ctx)"
    and "employees d (x_employeeId ctx) = Some emp"
    and "storableInt (dbl_sub rt (x_userPoints ctx) (x_total ctx))"
  shows "ordersCommit rt year req ctx d =
     (OkOrders (fst (commitLoop rt year (x_employeeId ctx) (x_inrPerPoint ctx) (pointsMeta req)
                       (x_cartItems ctx) d))
        (Some (emp\<lparr>e_points := Some (dbl_sub rt (x_userPoints ctx) (x_total ctx))\<rparr>)),
      d\<lparr>products := stockAfter (products d) (x_cartItems ctx),
        orders := orders d @
          expectedOrders rt year (x_employeeId ctx) (x_inrPerPoint ctx) (pointsMeta req) (products d)
            (yearCount year (orders d)) (x_cartItems ctx),
        employees := (employees d)(x_employeeId ctx \<mapsto>
                        emp\<lparr>e_points := Some (dbl_sub rt (x_userPoints ctx) (x_total ctx))\<rparr>),
        cartItems := filter (\<lambda>c. c_employeeId c \<noteq> x_employeeId ctx) (cartItems d)\<rparr>)"
  unfolding ordersCommit_def by (rule commit_tail[OF assms])

lemma ordersCommit_refused:
  assumes "list_all (present (products d)) (x_cartItems ctx)"
    and "\<not> storableInt (dbl_sub rt (x_userPoints ctx) (x_total ctx))"
  shows "ordersCommit rt year req ctx d =
     (Fail 500 ''Error creating orders'',
      d\<lparr>products := stockAfter (products d) (x_cartItems ctx),
        orders := orders d @
          expectedOrders rt year (x_employeeId ctx) (x_inrPerPoint ctx) (pointsMeta req) (products d)
            (yearCount year (orders d)) (x_cartItems ctx)\<rparr>)"
  unfolding ordersCommit_def by (rule commit_tail_refused[OF assms])

lemma verifyCommit_done:
  assumes "list_all (present (products d)) (x_cartItems (y_checkout cctx))"
    and "employees d (x_employeeId (y_checkout cctx)) = Some emp"
  shows "verifyCommit rt year req cctx d =
     (OkOrders (fst (commitLoop rt year (x_employeeId (y_checkout cctx))
                       (x_inrPerPoint (y_checkout cctx))
                       (copayMeta req (y_result cctx) (y_copayInr cctx))
                       (x_cartItems (y_checkout cctx)) d))
        (Some (emp\<lparr>e_points := Some (Fin 0)\<rparr>)),
      d\<lparr>products := stockAfter (products d) (x_cartItems (y_checkout cctx)),
        orders := orders d @
          expectedOrders rt year (x_employeeId (y_checkout cctx)) (x_inrPerPoint (y_checkout cctx))
            (copayMeta req (y_result cctx) (y_copayInr cctx)) (products d)
            (yearCount year (orders d)) (x_cartItems (y_checkout cctx)),
        employees := (employees d)(x_employeeId (y_checkout cctx) \<mapsto> emp\<lparr>e_points := Some (Fin 0)\<rparr>),
        cartItems := filter (\<lambda>c. c_employeeId c \<noteq> x_employeeId (y_checkout cctx)) (cartItems d)\<rparr>)"
  using commit_tail[OF assms storableInt_0, where r = "Fail 400 ''Invalid payment''" and rt = rt
      and year = year and inr = "x_inrPerPoint (y_checkout cctx)"
      and mk = "copayMeta req (y_result cctx) (y_copayInr cctx)"]
  unfolding verifyCommit_def Let_def .

lemma ordersValidate_passed:
  assumes a: "authenticated d (r_token req) eid emp"
    and c: "getCartItems d eid \<noteq> []" "selectionOk d eid" "stockOk (products d) (getCartItems d eid)"
    and p: "\<not> js_lt (pointsOr0 emp) (requiredPoints rt (products d) (inrPerPoint rt d) (getCartItems d eid))"
  shows "ordersValidate rt d req =
     Inr \<lparr> x_employeeId = eid, x_cartItems = getCartItems d eid,
             x_inrPerPoint = inrPerPoint rt d,
             x_total = requiredPoints rt (products d) (inrPerPoint rt d) (getCartItems d eid),
             x_userPoints = pointsOr0 emp \<rparr>"
proof -
  let ?ctx = "\<lparr> x_employeeId = eid, x_cartItems = getCartItems d eid,
             x_inrPerPoint = inrPerPoint rt d,
             x_total = requiredPoints rt (products d) (inrPerPoint rt d) (getCartItems d eid),
             x_userPoints = pointsOr0 emp \<rparr>"
  have au: "authEmployee d (r_token req) ''No token provided'' = Inr (eid, emp)"
    using a authenticated_iff by blast
  have cc: "cartChecks rt d eid emp = Inr ?ctx"
    using c by (simp add: cartChecks_Inr_iff selectionOk_def)
  show ?thesis using au cc p by (simp add: ordersValidate_def)
qed

lemma ordersPost_committed:
  assumes a: "authenticated d (r_token req) eid emp"
    and c: "getCartItems d eid \<noteq> []" "selectionOk d eid" "stockOk (products d) (getCartItems d eid)"
    and p: "\<not> js_lt (pointsOr0 emp) (requiredPoints rt (products d) (inrPerPoint rt d) (getCartItems d eid))"
    and s: "storableInt (dbl_sub rt (pointsOr0 emp)
              (requiredPoints rt (products d) (inrPerPoint rt d) (getCartItems d eid)))"
  shows "ordersPost rt year d req =
     (OkOrders (fst (commitLoop rt year eid (inrPerPoint rt d) (pointsMeta req) (getCartItems d eid) d))
        (Some (emp\<lparr>e_points := Some (dbl_sub rt (pointsOr0 emp)
            (requiredPoints rt (products d) (inrPerPoint rt d) (getCartItems d eid)))\<rparr>)),
      afterCheckout rt year d eid emp (getCartItems d eid) (pointsMeta req)
        (dbl_sub rt (pointsOr0 emp) (requiredPoints rt (products d) (inrPerPoint rt d) (getCartItems d eid))))"
proof -
  have e: "employees d eid = Some emp"
    using a by (auto simp: authenticated_def split: option.splits)
  show ?thesis
    unfolding ordersPost_def ordersValidate_passed[OF a c p] sum.case
    using ordersCommit_done[of d "\<lparr> x_employeeId = eid, x_cartItems = getCartItems d eid,
             x_inrPerPoint = inrPerPoint rt d,
             x_total = requiredPoints rt (products d) (inrPerPoint rt d) (getCartItems d eid),
             x_userPoints = pointsOr0 emp \<rparr>" emp rt year req] stockOk_present[OF c(3)] e s
    by (simp add: afterCheckout_def)
qed

lemma ordersPost_refused:
  assumes a: "authenticated d (r_token req) eid emp"
    and c: "getCartItems d eid \<noteq> []" "selectionOk d eid" "stockOk (products d) (getCartItems d eid)"
    and p: "\<not> js_lt (pointsOr0 emp) (requiredPoints rt (products d) (inrPerPoint rt d) (getCartItems d eid))"
    and s: "\<not> storableInt (dbl_sub rt (pointsOr0 emp)
              (requiredPoints rt (products d) (inrPerPoint rt d) (getCartItems d eid)))"
  shows "ordersPost rt year d req =
     (Fail 500 ''Error creating orders'',
      d\<lparr>products := stockAfter (products d) (getCartItems d eid),
        orders := orders d @
          expectedOrders rt year eid (inrPerPoint rt d) (pointsMeta req) (products d)
            (yearCount year (orders d)) (getCartItems d eid)\<rparr>)"
  unfolding ordersPost_def ordersValidate_passed[OF a c p] sum.case
  using ordersCommit_refused[of d "\<lparr> x_employeeId = eid, x_cartItems = getCartItems d eid,
             x_inrPerPoint = inrPerPoint rt d,
             x_total = requiredPoints rt (products d) (inrPerPoint rt d) (getCartItems d eid),
             x_userPoints = pointsOr0 emp \<rparr>" rt year req] stockOk_present[OF c(3)] s
  by simp

lemma verifyCopay_committed:
  assumes g: "paymentVerified cfg req reply result"
    and a: "authenticated d (v_token req) eid emp"
    and c: "getCartItems d eid \<noteq> []" "selectionOk d eid" "stockOk (products d) (getCartItems d eid)"
    and p: "\<not> js_ge (pointsOr0 emp) (requiredPoints rt (products d) (inrPerPoint rt d) (getCartItems d eid))"
    and m: "js_eq (paidAmount rt result)
              (copayAmount rt (requiredPoints rt (products d) (inrPerPoint rt d) (getCartItems d eid))
                 (pointsOr0 emp) (inrPerPoint rt d))"
  shows "verifyCopay rt cfg year reply d req =
     (OkOrders (fst (commitLoop rt year eid (inrPerPoint rt d)
                  (copayMeta req result (copayAmount rt (requiredPoints rt (products d) (inrPerPoint rt d) (getCartItems d eid))
                 (pointsOr0 emp) (inrPerPoint rt d))) (getCartItems d eid) d))
        (Some (emp\<lparr>e_points := Some (Fin 0)\<rparr>)),
      afterCheckout rt year d eid emp (getCartItems d eid)
        (copayMeta req result (copayAmount rt (requiredPoints rt (products d) (inrPerPoint rt d) (getCartItems d eid))
                 (pointsOr0 emp) (inrPerPoint rt d))) (Fin 0))"
proof -
  let ?tot = "requiredPoints rt (products d) (inrPerPoint rt d) (getCartItems d eid)"
  let ?ctx = "\<lparr> x_employeeId = eid, x_cartItems = getCartItems d eid,
             x_inrPerPoint = inrPerPoint rt d, x_total = ?tot, x_userPoints = pointsOr0 emp \<rparr>"
  let ?cctx = "\<lparr> y_checkout = ?ctx, y_copayInr = copayAmount rt ?tot (pointsOr0 emp) (inrPerPoint rt d),
                 y_result = result \<rparr>"
  have au: "authEmployee d (v_token req) ''No token'' = Inr (eid, emp)"
    using a authenticated_iff by blast
  have cc: "cartChecks rt d eid emp = Inr ?ctx"
    using c by (simp add: cartChecks_Inr_iff selectionOk_def)
  have v: "verifyValidate rt cfg reply d req = Inr ?cctx"
    using g au cc p m
    by (simp add: verifyValidate_def copayChecks_def paymentVerified_def copayAmount_def
        paidAmount_def Let_def)
  have e: "employees d eid = Some emp"
    using a by (auto simp: authenticated_def split: option.splits)
  show ?thesis
    unfolding verifyCopay_def v sum.case
    using verifyCommit_done[of d ?cctx emp rt year req] stockOk_present[OF c(3)] e
    by (simp add: afterCheckout_def)
qed

lemma is_Fail_unavailable: "\<exists>n m. unavailable p pid = Fail n m"
  by (simp add: unavailable_def)

lemma pointsLoop_Inl: "pointsLoop rt d inr cart acc = Inl r \<Longrightarrow> \<exists>n m. r = Fail n m"
  by (induction cart arbitrary: acc)
     (auto simp: Let_def unavailable_def split: option.splits if_splits)

lemma authEmployee_Inl: "authEmployee d token msg = Inl r \<Longrightarrow> \<exists>n m. r = Fail n m"
  by (auto simp: authEmployee_def split: option.splits if_splits)

lemma cartChecks_Inl: "cartChecks rt d eid emp = Inl r \<Longrightarrow> \<exists>n m. r = Fail n m"
  by (auto simp: cartChecks_def Let_def split: if_splits sum.splits dest: pointsLoop_Inl)

lemma ordersValidate_Inl: "ordersValidate rt d req = Inl r \<Longrightarrow> \<exists>n m. r = Fail n m"
  by (auto simp: ordersValidate_def split: sum.splits if_splits
      dest: authEmployee_Inl cartChecks_Inl)

lemma copayChecks_Inl:
  "copayChecks rt d token result = Inl r \<Longrightarrow> (\<exists>n m. r = Fail n m) \<or> (\<exists>a b. r = AmountMismatch a b)"
  by (auto simp: copayChecks_def Let_def split: sum.splits if_splits
      dest: authEmployee_Inl cartChecks_Inl)

lemma verifyValidate_Inl:
  "verifyValidate rt cfg reply d req = Inl r \<Longrightarrow> (\<exists>n m. r = Fail n m) \<or> (\<exists>a b. r = AmountMismatch a b)"
  by (auto simp: verifyValidate_def split: if_splits option.splits dest: copayChecks_Inl)

lemma verifyValidate_verified:
  "paymentVerified cfg req reply result \<Longrightarrow>
   verifyValidate rt cfg reply d req = copayChecks rt d (v_token req) result"
  by (simp add: verifyValidate_def paymentVerified_def)

lemma ordersPost_cases:
  assumes "ordersPost rt year d req = (resp, d1)"
  shows "(\<exists>n m. resp = Fail n m \<and> d1 = d) \<or>
         (\<exists>eid emp. authenticated d (r_token req) eid emp \<and> getCartItems d eid \<noteq> [] \<and>
            selectionOk d eid \<and> stockOk (products d) (getCartItems d eid) \<and>
            \<not> js_lt (pointsOr0 emp)
               (requiredPoints rt (products d) (inrPerPoint rt d) (getCartItems d eid)))"
proof (cases "ordersValidate rt d req")
  case (Inl r)
  then show ?thesis using assms ordersValidate_Inl[OF Inl] by (auto simp: ordersPost_def)
next
  case (Inr ctx)
  then obtain eid emp where au: "authEmployee d (r_token req) ''No token provided'' = Inr (eid, emp)"
    and cc: "cartChecks rt d eid emp = Inr ctx" and lt: "\<not> js_lt (x_userPoints ctx) (x_total ctx)"
    by (auto simp: ordersValidate_Inr_iff)
  have "authenticated d (r_token req) eid emp" using au authenticated_iff by blast
  moreover have "getCartItems d eid \<noteq> []" "selectionOk d eid" "stockOk (products d) (getCartItems d eid)"
    "\<not> js_lt (pointsOr0 emp)
               (requiredPoints rt (products d) (inrPerPoint rt d) (getCartItems d eid))"
    using cc lt by (auto simp: cartChecks_Inr_iff selectionOk_def)
  ultimately show ?thesis by blast
qed

lemma verifyValidate_Inr:
  assumes "verifyValidate rt cfg reply d req = Inr cctx"
  shows "\<exists>result eid emp. paymentVerified cfg req reply result \<and>
            authenticated d (v_token req) eid emp \<and> getCartItems d eid \<noteq> [] \<and>
            selectionOk d eid \<and> stockOk (products d) (getCartItems d eid) \<and>
            \<not> js_ge (pointsOr0 emp)
               (requiredPoints rt (products d) (inrPerPoint rt d) (getCartItems d eid)) \<and>
            js_eq (paidAmount rt result)
              (copayAmount rt (requiredPoints rt (products d) (inrPerPoint rt d) (getCartItems d eid))
                 (pointsOr0 emp) (inrPerPoint rt d))"
proof -
  from assms obtain result where r: "reply = Some result"
    by (auto simp: verifyValidate_def split: if_splits option.splits)
  from assms r have pv: "paymentVerified cfg req reply result"
    by (auto simp: verifyValidate_def paymentVerified_def split: if_splits)
  have cok: "copayChecks rt d (v_token req) result = Inr cctx"
    using assms verifyValidate_verified[OF pv] by simp
  from cok obtain eid emp where au: "authEmployee d (v_token req) ''No token'' = Inr (eid, emp)"
    by (auto simp: copayChecks_def split: sum.splits)
  from cok au obtain ctx where cc: "cartChecks rt d eid emp = Inr ctx"
    by (auto simp: copayChecks_def split: sum.splits)
  have ctx: "ctx = \<lparr> x_employeeId = eid, x_cartItems = getCartItems d eid,
             x_inrPerPoint = inrPerPoint rt d,
             x_total = requiredPoints rt (products d) (inrPerPoint rt d) (getCartItems d eid),
             x_userPoints = pointsOr0 emp \<rparr>"
    using cc by (simp add: cartChecks_Inr_iff)
  have rest: "\<not> js_ge (pointsOr0 emp)
               (requiredPoints rt (products d) (inrPerPoint rt d) (getCartItems d eid)) \<and>
            js_eq (paidAmount rt result)
              (copayAmount rt (requiredPoints rt (products d) (inrPerPoint rt d) (getCartItems d eid))
                 (pointsOr0 emp) (inrPerPoint rt d))"
    using cok au cc unfolding ctx
    by (auto simp: copayChecks_def copayAmount_def paidAmount_def Let_def split: if_splits)
  have "authenticated d (v_token req) eid emp" using au authenticated_iff by blast
  moreover have "getCartItems d eid \<noteq> []" "selectionOk d eid" "stockOk (products d) (getCartItems d eid)"
    using cc by (auto simp: cartChecks_Inr_iff selectionOk_def)
  ultimately show ?thesis using pv rest by blast
qed

lemma verifyCopay_cases:
  assumes "verifyCopay rt cfg year reply d req = (resp, d1)"
  shows "((\<exists>n m. resp = Fail n m) \<or> (\<exists>a b. resp = AmountMismatch a b)) \<and> d1 = d \<or>
         (\<exists>result eid emp. paymentVerified cfg req reply result \<and>
            authenticated d (v_token req) eid emp \<and> getCartItems d eid \<noteq> [] \<and>
            selectionOk d eid \<and> stockOk (products d) (getCartItems d eid) \<and>
            \<not> js_ge (pointsOr0 emp)
               (requiredPoints rt (products d) (inrPerPoint rt d) (getCartItems d eid)) \<and>
            js_eq (paidAmount rt result)
              (copayAmount rt (requiredPoints rt (products d) (inrPerPoint rt d) (getCartItems d eid))
                 (pointsOr0 emp) (inrPerPoint rt d)))"
proof (cases "verifyValidate rt cfg reply d req")
  case (Inl r)
  then show ?thesis using assms verifyValidate_Inl[OF Inl] by (auto simp: verifyCopay_def)
next
  case (Inr cctx)
  then show ?thesis using verifyValidate_Inr[OF Inr] by blast
qed

lemma stockAfter_apply:
  "ps pid = Some p \<Longrightarrow> pid \<in> c_productId ` set cart \<Longrightarrow>
   stockAfter ps cart pid = Some (p\<lparr>p_stock := Some (stockOr0 p - orderedQty cart pid)\<rparr>)"
  by (simp add: stockAfter_def)

lemma stockAfter_other:
  "pid \<notin> c_productId ` set cart \<Longrightarrow> stockAfter ps cart pid = ps pid"
  by (simp add: stockAfter_def split: option.splits)

lemma getCartItems_afterCheckout:
  "getCartItems (afterCheckout rt year d eid emp cart mk v) eid = []"
  by (simp add: getCartItems_def afterCheckout_def filter_empty_conv)

lemma usedPoints_expectedOrders:
  "map (\<lambda>ord. map_option m_usedPoints (o_metadata ord))
       (expectedOrders rt year eid inr mk ps n cart) =
   map (\<lambda>item. Some (m_usedPoints (mk (usedPointsOf rt (unitPriceIn rt ps item) inr (c_quantity item))
                                       (unitPriceIn rt ps item)))) cart"
  by (induction cart arbitrary: n) (simp_all add: expectedOrder_def)

lemma ordersPost_Ok:
  assumes "ordersPost rt year d req = (OkOrders ords e, d1)"
  shows "\<exists>eid emp. authenticated d (r_token req) eid emp \<and> getCartItems d eid \<noteq> [] \<and>
            selectionOk d eid \<and> stockOk (products d) (getCartItems d eid) \<and>
            \<not> js_lt (pointsOr0 emp)
               (requiredPoints rt (products d) (inrPerPoint rt d) (getCartItems d eid)) \<and>
            storableInt (dbl_sub rt (pointsOr0 emp)
               (requiredPoints rt (products d) (inrPerPoint rt d) (getCartItems d eid))) \<and>
            d1 = afterCheckout rt year d eid emp (getCartItems d eid) (pointsMeta req)
                   (dbl_sub rt (pointsOr0 emp)
                      (requiredPoints rt (products d) (inrPerPoint rt d) (getCartItems d eid))) \<and>
            map fst ords = expectedOrders rt year eid (inrPerPoint rt d) (pointsMeta req)
                   (products d) (yearCount year (orders d)) (getCartItems d eid)"
proof -
  from ordersPost_cases[OF assms] obtain eid emp where
    h: "authenticated d (r_token req) eid emp" "getCartItems d eid \<noteq> []"
       "selectionOk d eid" "stockOk (products d) (getCartItems d eid)"
       "\<not> js_lt (pointsOr0 emp)
               (requiredPoints rt (products d) (inrPerPoint rt d) (getCartItems d eid))"
    by auto
  have so: "list_all (present (products d)) (getCartItems d eid)"
    using h(4) by (rule stockOk_present)
  have s: "storableInt (dbl_sub rt (pointsOr0 emp)
               (requiredPoints rt (products d) (inrPerPoint rt d) (getCartItems d eid)))"
  proof (rule ccontr)
    assume n: "\<not> storableInt (dbl_sub rt (pointsOr0 emp)
               (requiredPoints rt (products d) (inrPerPoint rt d) (getCartItems d eid)))"
    show False using assms ordersPost_refused[OF h n, of year] by simp
  qed
  have k: "ordersPost rt year d req =
     (OkOrders (fst (commitLoop rt year eid (inrPerPoint rt d) (pointsMeta req) (getCartItems d eid) d))
        (Some (emp\<lparr>e_points := Some (dbl_sub rt (pointsOr0 emp)
            (requiredPoints rt (products d) (inrPerPoint rt d) (getCartItems d eid)))\<rparr>)),
      afterCheckout rt year d eid emp (getCartItems d eid) (pointsMeta req)
        (dbl_sub rt (pointsOr0 emp) (requiredPoints rt (products d) (inrPerPoint rt d) (getCartItems d eid))))"
    by (rule ordersPost_committed[OF h s])
  have o: "ords = fst (commitLoop rt year eid (inrPerPoint rt d) (pointsMeta req) (getCartItems d eid) d)"
    and dd: "d1 = afterCheckout rt year d eid emp (getCartItems d eid) (pointsMeta req)
        (dbl_sub rt (pointsOr0 emp) (requiredPoints rt (products d) (inrPerPoint rt d) (getCartItems d eid)))"
    using assms k by simp_all
  have m: "map fst ords = expectedOrders rt year eid (inrPerPoint rt d) (pointsMeta req)
                   (products d) (yearCount year (orders d)) (getCartItems d eid)"
    unfolding o by (rule commitLoop_orders[OF so])
  show ?thesis using h s dd m by blast
qed

lemma verifyCopay_Ok:
  assumes "verifyCopay rt cfg year reply d req = (OkOrders ords e, d1)"
  shows "\<exists>result eid emp. paymentVerified cfg req reply result \<and>
            authenticated d (v_token req) eid emp \<and> getCartItems d eid \<noteq> [] \<and>
            selectionOk d eid \<and> stockOk (products d) (getCartItems d eid) \<and>
            \<not> js_ge (pointsOr0 emp)
               (requiredPoints rt (products d) (inrPerPoint rt d) (getCartItems d eid)) \<and>
            js_eq (paidAmount rt result)
              (copayAmount rt (requiredPoints rt (products d) (inrPerPoint rt d) (getCartItems d eid))
                 (pointsOr0 emp) (inrPerPoint rt d)) \<and>
            d1 = afterCheckout rt year d eid emp (getCartItems d eid)
                   (copayMeta req result
                      (copayAmount rt (requiredPoints rt (products d) (inrPerPoint rt d) (getCartItems d eid))
                         (pointsOr0 emp) (inrPerPoint rt d))) (Fin 0) \<and>
            map fst ords = expectedOrders rt year eid (inrPerPoint rt d)
                   (copayMeta req result
                      (copayAmount rt (requiredPoints rt (products d) (inrPerPoint rt d) (getCartItems d eid))
                         (pointsOr0 emp) (inrPerPoint rt d)))
                   (products d) (yearCount year (orders d)) (getCartItems d eid)"
proof -
  from verifyCopay_cases[OF assms] obtain result eid emp where
    h: "paymentVerified cfg req reply result" "authenticated d (v_token req) eid emp"
       "getCartItems d eid \<noteq> []"
       "selectionOk d eid" "stockOk (products d) (getCartItems d eid)"
       "\<not> js_ge (pointsOr0 emp)
               (requiredPoints rt (products d) (inrPerPoint rt d) (getCartItems d eid))"
       "js_eq (paidAmount rt result)
              (copayAmount rt (requiredPoints rt (products d) (inrPerPoint rt d) (getCartItems d eid))
                 (pointsOr0 emp) (inrPerPoint rt d))"
    by auto
  have so: "list_all (present (products d)) (getCartItems d eid)"
    using h(5) by (rule stockOk_present)
  show ?thesis
    using h assms verifyCopay_committed[OF h, of year]
      commitLoop_orders[OF so, of rt year eid "inrPerPoint rt d"]
    by auto
qed

section \<open>Lemmas about the selection limit\<close>

lemma unavailable_not_selection: "unavailable p pid \<noteq> Fail 400 ''Selection limit reached''"
  by (simp add: unavailable_def)

lemma pointsLoop_not_selection:
  "pointsLoop rt d inr cart acc \<noteq> Inl (Fail 400 ''Selection limit reached'')"
  by (induction cart arbitrary: acc)
     (auto simp: Let_def unavailable_def split: option.splits)

lemma cartChecks_selection_iff:
  "cartChecks rt d eid emp = Inl (Fail 400 ''Selection limit reached'') \<longleftrightarrow>
     getCartItems d eid \<noteq> [] \<and> \<not> selectionOk d eid"
  using pointsLoop_not_selection[of rt d "inrPerPoint rt d" "getCartItems d eid" "Fin 0"]
  by (auto simp: cartChecks_def selectionOk_def Let_def split: sum.splits)

lemma authEmployee_not_selection:
  "authEmployee d token ''No token provided'' \<noteq> Inl (Fail 400 ''Selection limit reached'')"
  "authEmployee d token ''No token'' \<noteq> Inl (Fail 400 ''Selection limit reached'')"
  by (auto simp: authEmployee_def split: option.splits)

lemma fst_ordersCommit:
  "(\<exists>ords e. fst (ordersCommit rt year req ctx d) = OkOrders ords e) \<or>
   fst (ordersCommit rt year req ctx d) = Fail 500 ''Error creating orders''"
  by (simp add: ordersCommit_def case_prod_beta Let_def split: option.splits)

lemma fst_verifyCommit:
  "\<exists>ords e. fst (verifyCommit rt year req cctx d) = OkOrders ords e"
  by (simp add: verifyCommit_def case_prod_beta Let_def updateEmployeePoints_def)

lemma ordersPost_selection_iff:
  "fst (ordersPost rt year d req) = Fail 400 ''Selection limit reached'' \<longleftrightarrow>
     (\<exists>eid emp. authenticated d (r_token req) eid emp \<and> getCartItems d eid \<noteq> [] \<and>
                \<not> selectionOk d eid)"
proof (cases "authEmployee d (r_token req) ''No token provided''")
  case (Inl r)
  then have "\<not> (\<exists>eid emp. authenticated d (r_token req) eid emp)"
    using authenticated_iff[of d "r_token req" _ _ "''No token provided''"] by auto
  moreover have "r \<noteq> Fail 400 ''Selection limit reached''"
    using Inl authEmployee_not_selection(1)[of d "r_token req"] by auto
  ultimately show ?thesis using Inl by (auto simp: ordersPost_def ordersValidate_def)
next
  case (Inr x)
  obtain eid emp where x: "x = (eid, emp)" by (cases x)
  have a: "authenticated d (r_token req) eid emp" using Inr x authenticated_iff by blast
  have u: "\<And>eid' emp'. authenticated d (r_token req) eid' emp' \<Longrightarrow> eid' = eid \<and> emp' = emp"
    using Inr x authenticated_iff[of d "r_token req" _ _ "''No token provided''"] by auto
  show ?thesis
  proof (cases "cartChecks rt d eid emp")
    case (Inl r)
    then have "fst (ordersPost rt year d req) = r"
      using Inr x by (simp add: ordersPost_def ordersValidate_def)
    moreover have "(r = Fail 400 ''Selection limit reached'') =
        (getCartItems d eid \<noteq> [] \<and> \<not> selectionOk d eid)"
      using Inl cartChecks_selection_iff[of rt d eid emp] by simp
    ultimately show ?thesis using a u by blast
  next
    case (Inr ctx)
    then have n: "\<not> (getCartItems d eid \<noteq> [] \<and> \<not> selectionOk d eid)"
      using cartChecks_selection_iff[of rt d eid emp] by auto
    have v: "ordersValidate rt d req = Inl (Fail 400 ''Insufficient points'') \<or>
             ordersValidate rt d req = Inr ctx"
      using Inr \<open>authEmployee d (r_token req) ''No token provided'' = Inr x\<close> x
      by (simp add: ordersValidate_def)
    have "fst (ordersPost rt year d req) \<noteq> Fail 400 ''Selection limit reached''"
    proof (rule disjE[OF v])
      assume "ordersValidate rt d req = Inl (Fail 400 ''Insufficient points'')"
      then show ?thesis by (simp add: ordersPost_def)
    next
      assume "ordersValidate rt d req = Inr ctx"
      then show ?thesis using fst_ordersCommit[of rt year req ctx d]
        by (auto simp: ordersPost_def)
    qed
    then show ?thesis using n u by blast
  qed
qed

lemma authenticated_unique:
  "authenticated d token eid emp \<Longrightarrow> authenticated d token eid' emp' \<Longrightarrow> eid' = eid \<and> emp' = emp"
  by (auto simp: authenticated_def split: option.splits)

lemma auth_cases:
  "(\<exists>r. authEmployee d token msg = Inl r \<and> \<not> (\<exists>eid emp. authenticated d token eid emp)) \<or>
   (\<exists>eid emp. authEmployee d token msg = Inr (eid, emp) \<and> authenticated d token eid emp)"
  by (auto simp: authEmployee_def authenticated_def split: option.splits)

lemma copayChecks_selection_iff:
  "copayChecks rt d token result = Inl (Fail 400 ''Selection limit reached'') \<longleftrightarrow>
     (\<exists>eid emp. authenticated d token eid emp \<and> getCartItems d eid \<noteq> [] \<and> \<not> selectionOk d eid)"
proof (rule disjE[OF auth_cases[of d token "''No token''"]])
  assume "\<exists>r. authEmployee d token ''No token'' = Inl r \<and>
      \<not> (\<exists>eid emp. authenticated d token eid emp)"
  then obtain r where r: "authEmployee d token ''No token'' = Inl r"
    and n: "\<not> (\<exists>eid emp. authenticated d token eid emp)" by blast
  have "r \<noteq> Fail 400 ''Selection limit reached''"
    using r authEmployee_not_selection(2)[of d token] by auto
  moreover have "copayChecks rt d token result = Inl r" using r by (simp add: copayChecks_def)
  ultimately show ?thesis using n by simp
next
  assume "\<exists>eid emp. authEmployee d token ''No token'' = Inr (eid, emp) \<and> authenticated d token eid emp"
  then obtain eid emp where au: "authEmployee d token ''No token'' = Inr (eid, emp)"
    and a: "authenticated d token eid emp" by blast
  have u: "\<And>eid' emp'. authenticated d token eid' emp' \<Longrightarrow> eid' = eid \<and> emp' = emp"
    using a authenticated_unique by blast
  show ?thesis
  proof (cases "cartChecks rt d eid emp")
    case (Inl r)
    then have "copayChecks rt d token result = Inl r" using au by (simp add: copayChecks_def)
    moreover have "(r = Fail 400 ''Selection limit reached'') =
        (getCartItems d eid \<noteq> [] \<and> \<not> selectionOk d eid)"
      using Inl cartChecks_selection_iff[of rt d eid emp] by simp
    ultimately have e: "(copayChecks rt d token result = Inl (Fail 400 ''Selection limit reached'')) =
        (getCartItems d eid \<noteq> [] \<and> \<not> selectionOk d eid)" by simp
    have f: "(\<exists>eid' emp'. authenticated d token eid' emp' \<and> getCartItems d eid' \<noteq> [] \<and>
          \<not> selectionOk d eid') = (getCartItems d eid \<noteq> [] \<and> \<not> selectionOk d eid)"
      using a u by blast
    show ?thesis unfolding e f ..
  next
    case (Inr ctx)
    then have n: "\<not> (getCartItems d eid \<noteq> [] \<and> \<not> selectionOk d eid)"
      using cartChecks_selection_iff[of rt d eid emp] by auto
    have "copayChecks rt d token result \<noteq> Inl (Fail 400 ''Selection limit reached'')"
      using Inr au by (auto simp: copayChecks_def Let_def)
    then show ?thesis using n u by blast
  qed
qed

lemma verifyValidate_unverified:
  "\<not> (\<exists>result. paymentVerified cfg req reply result) \<Longrightarrow>
   \<exists>n m. verifyValidate rt cfg reply d req = Inl (Fail n m) \<and>
     m \<in> {''Missing merchantTransactionId'', ''PhonePe not configured'', ''Invalid payment'',
          ''Payment not completed''}"
  by (auto simp: verifyValidate_def paymentVerified_def split: option.splits)

lemma verifyCopay_fst:
  "fst (verifyCopay rt cfg year reply d req) = Fail n m \<longleftrightarrow>
     verifyValidate rt cfg reply d req = Inl (Fail n m)"
proof (cases "verifyValidate rt cfg reply d req")
  case (Inl r)
  then show ?thesis by (simp add: verifyCopay_def)
next
  case (Inr cctx)
  then show ?thesis using fst_verifyCommit[of rt year req cctx d]
    by (auto simp: verifyCopay_def)
qed

lemma verifyCopay_selection_iff:
  "fst (verifyCopay rt cfg year reply d req) = Fail 400 ''Selection limit reached'' \<longleftrightarrow>
     (\<exists>result eid emp. paymentVerified cfg req reply result \<and>
        authenticated d (v_token req) eid emp \<and> getCartItems d eid \<noteq> [] \<and> \<not> selectionOk d eid)"
proof (cases "\<exists>result. paymentVerified cfg req reply result")
  case True
  then obtain result where pv: "paymentVerified cfg req reply result" by blast
  then have r: "\<And>result'. paymentVerified cfg req reply result' \<Longrightarrow> result' = result"
    by (auto simp: paymentVerified_def)
  show ?thesis
    unfolding verifyCopay_fst verifyValidate_verified[OF pv] copayChecks_selection_iff
    using pv r by blast
next
  case False
  from verifyValidate_unverified[OF False, of rt d]
  have "verifyValidate rt cfg reply d req \<noteq> Inl (Fail 400 ''Selection limit reached'')"
    by auto
  then show ?thesis unfolding verifyCopay_fst using False by blast
qed

lemma createCopayOrder_selection_iff:
  "fst (createCopayOrder rt cfg nowMs preply d req) = Fail 400 ''Selection limit reached'' \<longleftrightarrow>
     (\<exists>eid emp. authenticated d (r_token req) eid emp \<and> getCartItems d eid \<noteq> [] \<and>
                \<not> selectionOk d eid)"
proof (rule disjE[OF auth_cases[of d "r_token req" "''No token''"]])
  assume "\<exists>r. authEmployee d (r_token req) ''No token'' = Inl r \<and>
      \<not> (\<exists>eid emp. authenticated d (r_token req) eid emp)"
  then obtain r where r: "authEmployee d (r_token req) ''No token'' = Inl r"
    and n: "\<not> (\<exists>eid emp. authenticated d (r_token req) eid emp)" by blast
  have "r \<noteq> Fail 400 ''Selection limit reached''"
    using r authEmployee_not_selection(2)[of d "r_token req"] by auto
  moreover have "fst (createCopayOrder rt cfg nowMs preply d req) = r"
    using r by (simp add: createCopayOrder_def)
  ultimately show ?thesis using n by simp
next
  assume "\<exists>eid emp. authEmployee d (r_token req) ''No token'' = Inr (eid, emp) \<and>
     authenticated d (r_token req) eid emp"
  then obtain eid emp where au: "authEmployee d (r_token req) ''No token'' = Inr (eid, emp)"
    and a: "authenticated d (r_token req) eid emp" by blast
  have u: "\<And>eid' emp'. authenticated d (r_token req) eid' emp' \<Longrightarrow> eid' = eid \<and> emp' = emp"
    using a authenticated_unique by blast
  show ?thesis
  proof (cases "cartChecks rt d eid emp")
    case (Inl r)
    then have "fst (createCopayOrder rt cfg nowMs preply d req) = r"
      using au by (simp add: createCopayOrder_def)
    moreover have "(r = Fail 400 ''Selection limit reached'') =
        (getCartItems d eid \<noteq> [] \<and> \<not> selectionOk d eid)"
      using Inl cartChecks_selection_iff[of rt d eid emp] by simp
    ultimately have e: "(fst (createCopayOrder rt cfg nowMs preply d req) =
         Fail 400 ''Selection limit reached'') =
        (getCartItems d eid \<noteq> [] \<and> \<not> selectionOk d eid)" by simp
    have f: "(\<exists>eid' emp'. authenticated d (r_token req) eid' emp' \<and> getCartItems d eid' \<noteq> [] \<and>
          \<not> selectionOk d eid') = (getCartItems d eid \<noteq> [] \<and> \<not> selectionOk d eid)"
      using a u by blast
    show ?thesis unfolding e f ..
  next
    case (Inr ctx)
    then have n: "\<not> (getCartItems d eid \<noteq> [] \<and> \<not> selectionOk d eid)"
      using cartChecks_selection_iff[of rt d eid emp] by auto
    have "fst (createCopayOrder rt cfg nowMs preply d req) \<noteq> Fail 400 ''Selection limit reached''"
      using Inr au by (auto simp: createCopayOrder_def Let_def split: option.splits)
    then show ?thesis using n u by blast
  qed
qed

lemma bulkLoop_not_selection:
  "bulkLoop rt d cart tot snaps \<noteq> Inl (Fail 400 ''Selection limit reached'')"
  by (induction cart arbitrary: tot snaps) (auto simp: Let_def split: option.splits)

lemma requireBulkBuyAccess_not_selection:
  "requireBulkBuyAccess d token \<noteq> Inl (Fail 400 ''Selection limit reached'')"
  using authEmployee_not_selection(2)[of d token]
  by (auto simp: requireBulkBuyAccess_def Let_def split: sum.splits if_splits)

lemma bulkbuyCheckout_not_selection:
  "fst (bulkbuyCheckout rt year d req) \<noteq> Fail 400 ''Selection limit reached''"
proof (cases "requireBulkBuyAccess d (q_token req)")
  case (Inl r)
  then show ?thesis using requireBulkBuyAccess_not_selection[of d "q_token req"]
    by (auto simp: bulkbuyCheckout_def)
next
  case (Inr x)
  obtain eid emp where x: "x = (eid, emp)" by (cases x)
  show ?thesis
  proof (cases "bulkLoop rt d (getBulkBuyCartItems d eid) (Fin 0) []")
    case (Inl r)
    then show ?thesis using Inr x bulkLoop_not_selection[of rt d "getBulkBuyCartItems d eid" "Fin 0" "[]"]
      by (auto simp: bulkbuyCheckout_def Let_def)
  next
    case (Inr y)
    then show ?thesis using \<open>requireBulkBuyAccess d (q_token req) = Inr x\<close> x
      by (cases y) (auto simp: bulkbuyCheckout_def Let_def case_prod_beta)
  qed
qed

lemma bulkLoop_frame:
  "bulkLoop rt (d\<lparr>branding := b, orders := os\<rparr>) cart tot snaps = bulkLoop rt d cart tot snaps"
  by (induction cart arbitrary: tot snaps) (auto simp: Let_def split: option.splits)

lemma requireBulkBuyAccess_frame:
  "requireBulkBuyAccess (d\<lparr>branding := b, orders := os\<rparr>) token = requireBulkBuyAccess d token"
  by (auto simp: requireBulkBuyAccess_def authEmployee_def split: option.splits)

lemma bulkbuyCheckout_frame:
  "bulkbuyCheckout rt year (d\<lparr>branding := b, orders := os\<rparr>) req =
     (fst (bulkbuyCheckout rt year d req),
      (snd (bulkbuyCheckout rt year d req))\<lparr>branding := b, orders := os\<rparr>)"
  by (auto simp: bulkbuyCheckout_def requireBulkBuyAccess_frame bulkLoop_frame Let_def
      getBulkBuyCartItems_def createBulkBuyRequest_def clearBulkBuyCart_def
      split: sum.splits prod.splits)

section \<open>Lemmas about the co-pay checks and the commit on a changed store\<close>

lemma copayChecks_reached:
  assumes a: "authenticated d token eid emp"
    and c: "getCartItems d eid \<noteq> []" "selectionOk d eid" "stockOk (products d) (getCartItems d eid)"
  shows "copayChecks rt d token result =
     (let tot = requiredPoints rt (products d) (inrPerPoint rt d) (getCartItems d eid);
          copay = copayAmount rt tot (pointsOr0 emp) (inrPerPoint rt d)
      in if js_ge (pointsOr0 emp) tot then Inl (Fail 400 ''Sufficient points'')
         else if \<not> js_eq (paidAmount rt result) copay
         then Inl (AmountMismatch copay (paidAmount rt result))
         else Inr \<lparr> y_checkout =
                     \<lparr> x_employeeId = eid, x_cartItems = getCartItems d eid,
                       x_inrPerPoint = inrPerPoint rt d, x_total = tot,
                       x_userPoints = pointsOr0 emp \<rparr>,
                    y_copayInr = copay, y_result = result \<rparr>)"
proof -
  let ?ctx = "\<lparr> x_employeeId = eid, x_cartItems = getCartItems d eid,
             x_inrPerPoint = inrPerPoint rt d,
             x_total = requiredPoints rt (products d) (inrPerPoint rt d) (getCartItems d eid),
             x_userPoints = pointsOr0 emp \<rparr>"
  have au: "authEmployee d token ''No token'' = Inr (eid, emp)"
    using a authenticated_iff by blast
  have cc: "cartChecks rt d eid emp = Inr ?ctx"
    using c by (simp add: cartChecks_Inr_iff selectionOk_def)
  show ?thesis
    by (simp add: copayChecks_def au cc copayAmount_def paidAmount_def Let_def)
qed

lemma createCopayOrder_reached:
  assumes a: "authenticated d (r_token req) eid emp"
    and c: "getCartItems d eid \<noteq> []" "selectionOk d eid" "stockOk (products d) (getCartItems d eid)"
  shows "js_ge (pointsOr0 emp) (requiredPoints rt (products d) (inrPerPoint rt d) (getCartItems d eid)) \<Longrightarrow>
         createCopayOrder rt cfg nowMs preply d req =
           (Fail 400 ''Sufficient points, use normal checkout'', None)"
    and "\<not> js_ge (pointsOr0 emp) (requiredPoints rt (products d) (inrPerPoint rt d) (getCartItems d eid)) \<Longrightarrow>
         \<not> unset (g_merchantId cfg) \<Longrightarrow> \<not> unset (g_saltKey cfg) \<Longrightarrow> \<not> unset (g_redirectBase cfg) \<Longrightarrow>
         snd (createCopayOrder rt cfg nowMs preply d req) =
           Some (jsonNum (dbl_mul rt
                   (copayAmount rt (requiredPoints rt (products d) (inrPerPoint rt d) (getCartItems d eid))
                           (pointsOr0 emp) (inrPerPoint rt d)) (Fin 100)))"
proof -
  let ?ctx = "\<lparr> x_employeeId = eid, x_cartItems = getCartItems d eid,
             x_inrPerPoint = inrPerPoint rt d,
             x_total = requiredPoints rt (products d) (inrPerPoint rt d) (getCartItems d eid),
             x_userPoints = pointsOr0 emp \<rparr>"
  have au: "authEmployee d (r_token req) ''No token'' = Inr (eid, emp)"
    using a authenticated_iff by blast
  have cc: "cartChecks rt d eid emp = Inr ?ctx"
    using c by (simp add: cartChecks_Inr_iff selectionOk_def)
  show "js_ge (pointsOr0 emp) (requiredPoints rt (products d) (inrPerPoint rt d) (getCartItems d eid)) \<Longrightarrow>
         createCopayOrder rt cfg nowMs preply d req =
           (Fail 400 ''Sufficient points, use normal checkout'', None)"
    by (simp add: createCopayOrder_def au cc)
  show "\<not> js_ge (pointsOr0 emp) (requiredPoints rt (products d) (inrPerPoint rt d) (getCartItems d eid)) \<Longrightarrow>
         \<not> unset (g_merchantId cfg) \<Longrightarrow> \<not> unset (g_saltKey cfg) \<Longrightarrow> \<not> unset (g_redirectBase cfg) \<Longrightarrow>
         snd (createCopayOrder rt cfg nowMs preply d req) =
           Some (jsonNum (dbl_mul rt
                   (copayAmount rt (requiredPoints rt (products d) (inrPerPoint rt d) (getCartItems d eid))
                           (pointsOr0 emp) (inrPerPoint rt d)) (Fin 100)))"
    by (simp add: createCopayOrder_def au cc copayAmount_def Let_def split: option.splits)
qed

lemma verifyCopay_unchanged:
  "(\<forall>ords e. fst (verifyCopay rt cfg year reply d req) \<noteq> OkOrders ords e) \<Longrightarrow>
   snd (verifyCopay rt cfg year reply d req) = d"
proof (cases "verifyValidate rt cfg reply d req")
  case (Inl r)
  then show ?thesis by (simp add: verifyCopay_def)
next
  case (Inr cctx)
  assume "\<forall>ords e. fst (verifyCopay rt cfg year reply d req) \<noteq> OkOrders ords e"
  then show ?thesis using Inr fst_verifyCommit[of rt year req cctx d]
    by (auto simp: verifyCopay_def)
qed

lemma commitLoop_filter:
  "commitLoop rt year eid inr mk items d =
   commitLoop rt year eid inr mk (filter (present (products d)) items) d"
proof (induction items arbitrary: d)
  case Nil
  then show ?case by simp
next
  case (Cons item items)
  show ?case
  proof (cases "products d (c_productId item)")
    case None
    then show ?thesis using Cons.IH[of d] by (simp add: present_def)
  next
    case (Some p)
    let ?d1 = "updateProductStock d (c_productId item) (stockOr0 p - c_quantity item)"
    let ?io = "\<lparr> io_employeeId = eid,
                       io_productId = c_productId item,
                       io_selectedColor = c_selectedColor item,
                       io_selectedSize = c_selectedSize item,
                       io_quantity = c_quantity item,
                       io_campaignId = idOrUndefined (c_campaignId item),
                       io_metadata = Some (mk (pointsFor rt (getUnitPriceForQty rt p (num (c_quantity item))) inr (c_quantity item)) (getUnitPriceForQty rt p (num (c_quantity item)))) \<rparr>"
    let ?d2 = "snd (createOrder year ?d1 ?io)"
    have ps2: "products ?d2 = (products d)(c_productId item \<mapsto> p\<lparr>p_stock := Some (stockOr0 p - c_quantity item)\<rparr>)"
      using Some by (simp add: createOrder_def updateProductStock_def Let_def)
    have pr: "present (products ?d2) = present (products d)"
      unfolding ps2 using Some by (auto simp: present_def fun_eq_iff)
    have ih: "commitLoop rt year eid inr mk items ?d2 =
              commitLoop rt year eid inr mk (filter (present (products d)) items) ?d2"
      using Cons.IH[of ?d2] by (simp add: pr)
    have pi: "present (products d) item" using Some by (simp add: present_def)
    show ?thesis
      using Some ih pi by (simp add: Let_def case_prod_beta)
  qed
qed

lemma filter_present_deleted:
  "list_all (present ps) cart \<Longrightarrow>
   filter (present (ps(pid := None))) cart = filter (\<lambda>item. c_productId item \<noteq> pid) cart"
  by (induction cart) (auto simp: present_def)

lemma present_filter: "list_all (present ps) (filter (present ps) cart)"
  by (simp add: list_all_iff)

section \<open>Lemmas about the bulk-buy handlers\<close>

lemma bulkLoop_Inr_iff:
  "bulkLoop rt d cart tot snaps = Inr (tot', snaps') \<longleftrightarrow>
     list_all (bulkItemInStock (products d)) (filter (bulkItemValid (products d)) cart) \<and>
     snaps' = snaps @ bulkSnapshot rt (products d) cart \<and>
     tot' = foldl (dbl_add rt) tot (map s_lineTotal (bulkSnapshot rt (products d) cart))"
proof (induction cart arbitrary: tot snaps)
  case Nil
  then show ?case by (auto simp: bulkSnapshot_def)
next
  case (Cons it rest)
  show ?case
  proof (cases "products d (bc_productId it)")
    case None
    then show ?thesis using Cons.IH[of tot snaps]
      by (simp add: bulkItemValid_def bulkSnapshot_def)
  next
    case (Some p)
    show ?thesis
    proof (cases "p_bulkBuy p")
      case False
      then show ?thesis using Some Cons.IH[of tot snaps]
        by (simp add: bulkItemValid_def bulkSnapshot_def)
    next
      case True
      show ?thesis
      proof (cases "stockOr0 p < bc_quantity it")
        case True
        then show ?thesis using Some \<open>p_bulkBuy p\<close>
          by (simp add: bulkItemValid_def bulkItemInStock_def)
      next
        case False
        then show ?thesis using Some True
          Cons.IH[of "dbl_add rt tot (lineTotalOf rt (getUnitPriceForQty rt p (num (bc_quantity it))) (bc_quantity it))"
                     "snaps @ [snapshotOf rt (products d) it]"]
          by (simp add: bulkItemValid_def bulkItemInStock_def bulkSnapshot_def snapshotOf_def Let_def)
      qed
    qed
  qed
qed

lemma bulkLoop_Inl: "bulkLoop rt d cart tot snaps = Inl r \<Longrightarrow> \<exists>n m. r = Fail n m"
  by (induction cart arbitrary: tot snaps) (auto simp: Let_def split: option.splits if_splits)

lemma requireBulkBuyAccess_Inl: "requireBulkBuyAccess d token = Inl r \<Longrightarrow> \<exists>n m. r = Fail n m"
  by (auto simp: requireBulkBuyAccess_def Let_def split: sum.splits if_splits dest: authEmployee_Inl)

lemma requireBulkBuyAccess_Inr_iff:
  "requireBulkBuyAccess d token = Inr (eid, emp) \<longleftrightarrow>
     authenticated d token eid emp \<and> bulkBuyEligible d emp"
proof (rule disjE[OF auth_cases[of d token "''No token''"]])
  assume "\<exists>r. authEmployee d token ''No token'' = Inl r \<and> \<not> (\<exists>eid emp. authenticated d token eid emp)"
  then show ?thesis by (auto simp: requireBulkBuyAccess_def)
next
  assume "\<exists>eid emp. authEmployee d token ''No token'' = Inr (eid, emp) \<and> authenticated d token eid emp"
  then obtain eid1 emp1 where au: "authEmployee d token ''No token'' = Inr (eid1, emp1)"
    and a: "authenticated d token eid1 emp1" by blast
  show ?thesis using au a authenticated_unique[OF a, of eid emp]
    by (auto simp: requireBulkBuyAccess_def bulkBuyEligible_def Let_def)
qed

lemma bulkbuyCheckout_cases:
  assumes "bulkbuyCheckout rt year d req = (resp, d1)"
  shows "(\<exists>n m. resp = Fail n m \<and> d1 = d) \<or>
         (\<exists>eid emp. authenticated d (q_token req) eid emp \<and> bulkBuyEligible d emp \<and>
            getBulkBuyCartItems d eid \<noteq> [] \<and>
            list_all (bulkItemInStock (products d))
              (filter (bulkItemValid (products d)) (getBulkBuyCartItems d eid)) \<and>
            bulkSnapshot rt (products d) (getBulkBuyCartItems d eid) \<noteq> [] \<and>
            resp = OkBulkRequest
                     (expectedRequest rt year (length (bulkBuyRequests d)) eid
                        (deliveryMethodOf (q_deliveryMethod req)) (q_deliveryAddress req)
                        (q_requesterNote req)
                        (bulkSnapshot rt (products d) (getBulkBuyCartItems d eid))
                        (foldl (dbl_add rt) (Fin 0)
                           (map s_lineTotal (bulkSnapshot rt (products d) (getBulkBuyCartItems d eid))))) \<and>
            d1 = d\<lparr>bulkBuyRequests := bulkBuyRequests d @
                      [expectedRequest rt year (length (bulkBuyRequests d)) eid
                        (deliveryMethodOf (q_deliveryMethod req)) (q_deliveryAddress req)
                        (q_requesterNote req)
                        (bulkSnapshot rt (products d) (getBulkBuyCartItems d eid))
                        (foldl (dbl_add rt) (Fin 0)
                           (map s_lineTotal (bulkSnapshot rt (products d) (getBulkBuyCartItems d eid))))],
                   bulkBuyCartItems := filter (\<lambda>c. bc_employeeId c \<noteq> eid) (bulkBuyCartItems d)\<rparr>)"
proof (cases "requireBulkBuyAccess d (q_token req)")
  case (Inl r)
  then show ?thesis using assms requireBulkBuyAccess_Inl[OF Inl] by (auto simp: bulkbuyCheckout_def)
next
  case (Inr x)
  obtain eid emp where x: "x = (eid, emp)" by (cases x)
  have a: "authenticated d (q_token req) eid emp" "bulkBuyEligible d emp"
    using Inr x by (simp_all add: requireBulkBuyAccess_Inr_iff)
  show ?thesis
  proof (cases "getBulkBuyCartItems d eid = []")
    case True
    then show ?thesis using assms Inr x by (auto simp: bulkbuyCheckout_def)
  next
    case False
    show ?thesis
    proof (cases "bulkLoop rt d (getBulkBuyCartItems d eid) (Fin 0) []")
      case (Inl r)
      then show ?thesis using assms \<open>requireBulkBuyAccess d (q_token req) = Inr x\<close> x False
          bulkLoop_Inl[OF Inl]
        by (auto simp: bulkbuyCheckout_def)
    next
      case (Inr y)
      obtain tot snaps where y: "y = (tot, snaps)" by (cases y)
      have l: "list_all (bulkItemInStock (products d))
              (filter (bulkItemValid (products d)) (getBulkBuyCartItems d eid))"
        and s: "snaps = bulkSnapshot rt (products d) (getBulkBuyCartItems d eid)"
        and t: "tot = foldl (dbl_add rt) (Fin 0)
                           (map s_lineTotal (bulkSnapshot rt (products d) (getBulkBuyCartItems d eid)))"
        using Inr y by (simp_all add: bulkLoop_Inr_iff)
      show ?thesis
      proof (cases "snaps = []")
        case True
        then show ?thesis using assms \<open>requireBulkBuyAccess d (q_token req) = Inr x\<close> x False Inr y
          by (auto simp: bulkbuyCheckout_def)
      next
        case ne: False
        have "bulkbuyCheckout rt year d req =
           (OkBulkRequest
                     (expectedRequest rt year (length (bulkBuyRequests d)) eid
                        (deliveryMethodOf (q_deliveryMethod req)) (q_deliveryAddress req)
                        (q_requesterNote req) snaps tot),
            d\<lparr>bulkBuyRequests := bulkBuyRequests d @
                      [expectedRequest rt year (length (bulkBuyRequests d)) eid
                        (deliveryMethodOf (q_deliveryMethod req)) (q_deliveryAddress req)
                        (q_requesterNote req) snaps tot],
               bulkBuyCartItems := filter (\<lambda>c. bc_employeeId c \<noteq> eid) (bulkBuyCartItems d)\<rparr>)"
          using \<open>requireBulkBuyAccess d (q_token req) = Inr x\<close> x False Inr y ne
          by (simp add: bulkbuyCheckout_def createBulkBuyRequest_def clearBulkBuyCart_def
              expectedRequest_def Let_def)
        then show ?thesis using assms a False l ne unfolding s t by auto
      qed
    qed
  qed
qed

lemma bulkbuyRequest_cases:
  assumes "bulkbuyRequest rt year d req = (resp, d1)"
  shows "(\<exists>n m. resp = Fail n m \<and> d1 = d) \<or>
         (\<exists>eid emp pid p quantity snap.
            authenticated d (dq_token req) eid emp \<and> bulkBuyEligible d emp \<and>
            dq_productId req = Some pid \<and> products d pid = Some p \<and> p_bulkBuy p \<and>
            quantity = (case dq_quantity req of None \<Rightarrow> Fin 1 | Some q \<Rightarrow> q) \<and>
            js_isInteger quantity \<and> intOf quantity \<le> stockOr0 p \<and>
            s_productId snap = pid \<and> s_quantity snap = intOf quantity \<and>
            s_unitPrice snap = getUnitPriceForQty rt p quantity \<and>
            s_lineTotal snap = Number_str rt (toFixed2 rt (dbl_mul rt (s_unitPrice snap) quantity)) \<and>
            resp = OkBulkRequest
                     (expectedRequest rt year (length (bulkBuyRequests d)) eid
                        (deliveryMethodOf (dq_deliveryMethod req))
                        (if deliveryMethodOf (dq_deliveryMethod req) = ''delivery''
                         then dq_deliveryAddress req else None)
                        (dq_requesterNote req) [snap] (s_lineTotal snap)) \<and>
            d1 = d\<lparr>bulkBuyRequests := bulkBuyRequests d @
                      [expectedRequest rt year (length (bulkBuyRequests d)) eid
                        (deliveryMethodOf (dq_deliveryMethod req))
                        (if deliveryMethodOf (dq_deliveryMethod req) = ''delivery''
                         then dq_deliveryAddress req else None)
                        (dq_requesterNote req) [snap] (s_lineTotal snap)]\<rparr>)"
proof (cases "requireBulkBuyAccess d (dq_token req)")
  case (Inl r)
  then show ?thesis using assms requireBulkBuyAccess_Inl[OF Inl] by (auto simp: bulkbuyRequest_def)
next
  case (Inr x)
  obtain eid emp where x: "x = (eid, emp)" by (cases x)
  have a: "authenticated d (dq_token req) eid emp" "bulkBuyEligible d emp"
    using Inr x by (simp_all add: requireBulkBuyAccess_Inr_iff)
  define quantity where "quantity = (case dq_quantity req of None \<Rightarrow> Fin 1 | Some q \<Rightarrow> q)"
  define dmeth where "dmeth = deliveryMethodOf (dq_deliveryMethod req)"
  define pid where "pid = (case dq_productId req of None \<Rightarrow> [] | Some i \<Rightarrow> i)"
  show ?thesis
  proof (cases "unset (dq_productId req) \<or> \<not> js_isInteger quantity \<or> js_lt quantity (Fin 1) \<or>
                (dmeth \<noteq> ''office'' \<and> dmeth \<noteq> ''delivery'') \<or>
                (dmeth = ''delivery'' \<and>
                   trim rt (case dq_deliveryAddress req of None \<Rightarrow> [] | Some a \<Rightarrow> a) = [])")
    case True
    then have "\<exists>n m. bulkbuyRequest rt year d req = (Fail n m, d)"
      using Inr x by (auto simp: bulkbuyRequest_def Let_def quantity_def dmeth_def)
    then show ?thesis using assms by auto
  next
    case pre: False
    then have ps: "dq_productId req = Some pid"
      by (auto simp: unset_def pid_def split: option.splits)
    show ?thesis
    proof (cases "products d pid")
      case None
      then have "\<exists>n m. bulkbuyRequest rt year d req = (Fail n m, d)"
        using Inr x pre by (auto simp: bulkbuyRequest_def Let_def quantity_def dmeth_def pid_def)
      then show ?thesis using assms by auto
    next
      case (Some p)
      show ?thesis
      proof (cases "\<not> p_isActive p \<or> \<not> p_bulkBuy p \<or> (p_colors p \<noteq> [] \<and> unset (dq_selectedColor req)) \<or>
                    (p_sizes p \<noteq> [] \<and> unset (dq_selectedSize req)) \<or> stockOr0 p < intOf quantity")
        case True
        then have "\<exists>n m. bulkbuyRequest rt year d req = (Fail n m, d)"
          using Inr x pre Some
          by (auto simp: bulkbuyRequest_def Let_def quantity_def dmeth_def pid_def)
        then show ?thesis using assms by auto
      next
        case ok: False
        let ?snap = "\<lparr> s_productId = pid, s_name = p_name p,
                        s_sku = Some (case p_sku p of None \<Rightarrow> [] | Some k \<Rightarrow> k),
                        s_selectedColor = dq_selectedColor req,
                        s_selectedSize = dq_selectedSize req,
                        s_quantity = intOf quantity,
                        s_unitPrice = getUnitPriceForQty rt p quantity,
                        s_lineTotal = Number_str rt (toFixed2 rt (dbl_mul rt (getUnitPriceForQty rt p quantity) quantity)) \<rparr>"
        let ?rec = "expectedRequest rt year (length (bulkBuyRequests d)) eid dmeth
                        (if dmeth = ''delivery'' then dq_deliveryAddress req else None)
                        (dq_requesterNote req) [?snap] (s_lineTotal ?snap)"
        have "bulkbuyRequest rt year d req =
                (OkBulkRequest ?rec, d\<lparr>bulkBuyRequests := bulkBuyRequests d @ [?rec]\<rparr>)"
          using Inr x pre Some ok
          by (simp add: bulkbuyRequest_def Let_def quantity_def dmeth_def pid_def
              createBulkBuyRequest_def expectedRequest_def)
        then have r: "resp = OkBulkRequest ?rec" "d1 = d\<lparr>bulkBuyRequests := bulkBuyRequests d @ [?rec]\<rparr>"
          using assms by simp_all
        have f: "authenticated d (dq_token req) eid emp \<and> bulkBuyEligible d emp \<and>
            dq_productId req = Some pid \<and> products d pid = Some p \<and> p_bulkBuy p \<and>
            js_isInteger quantity \<and> intOf quantity \<le> stockOr0 p \<and>
            s_productId ?snap = pid \<and> s_quantity ?snap = intOf quantity \<and>
            s_unitPrice ?snap = getUnitPriceForQty rt p quantity \<and>
            s_lineTotal ?snap = Number_str rt (toFixed2 rt (dbl_mul rt (s_unitPrice ?snap) quantity))"
          using a ps Some pre ok by (simp add: quantity_def)
        show ?thesis
          apply (rule disjI2)
          apply (rule exI[of _ eid], rule exI[of _ emp], rule exI[of _ pid], rule exI[of _ p],
                 rule exI[of _ quantity], rule exI[of _ ?snap])
          using f r quantity_def unfolding dmeth_def by blast
      qed
    qed
  qed
qed

lemma bulkbuyCheckout_Ok:
  assumes "authenticated d (q_token req) eid emp" "bulkBuyEligible d emp"
    and "getBulkBuyCartItems d eid \<noteq> []"
    and "list_all (bulkItemInStock (products d))
           (filter (bulkItemValid (products d)) (getBulkBuyCartItems d eid))"
    and "bulkSnapshot rt (products d) (getBulkBuyCartItems d eid) \<noteq> []"
  shows "bulkbuyCheckout rt year d req =
           (OkBulkRequest
              (expectedRequest rt year (length (bulkBuyRequests d)) eid
                 (deliveryMethodOf (q_deliveryMethod req)) (q_deliveryAddress req)
                 (q_requesterNote req)
                 (bulkSnapshot rt (products d) (getBulkBuyCartItems d eid))
                 (foldl (dbl_add rt) (Fin 0)
                    (map s_lineTotal (bulkSnapshot rt (products d) (getBulkBuyCartItems d eid))))),
            d\<lparr>bulkBuyRequests := bulkBuyRequests d @
                  [expectedRequest rt year (length (bulkBuyRequests d)) eid
                     (deliveryMethodOf (q_deliveryMethod req)) (q_deliveryAddress req)
                     (q_requesterNote req)
                     (bulkSnapshot rt (products d) (getBulkBuyCartItems d eid))
                     (foldl (dbl_add rt) (Fin 0)
                        (map s_lineTotal (bulkSnapshot rt (products d) (getBulkBuyCartItems d eid))))],
               bulkBuyCartItems := filter (\<lambda>c. bc_employeeId c \<noteq> eid) (bulkBuyCartItems d)\<rparr>)"
proof -
  have r: "requireBulkBuyAccess d (q_token req) = Inr (eid, emp)"
    using assms(1,2) by (simp add: requireBulkBuyAccess_Inr_iff)
  have l: "bulkLoop rt d (getBulkBuyCartItems d eid) (Fin 0) [] =
             Inr (foldl (dbl_add rt) (Fin 0)
                    (map s_lineTotal (bulkSnapshot rt (products d) (getBulkBuyCartItems d eid))),
                  bulkSnapshot rt (products d) (getBulkBuyCartItems d eid))"
    using assms(4) by (simp add: bulkLoop_Inr_iff)
  show ?thesis
    using assms(3,5)
    by (simp add: bulkbuyCheckout_def r l createBulkBuyRequest_def clearBulkBuyCart_def
        expectedRequest_def Let_def)
qed

lemma bulkbuyRequest_Ok:
  assumes "authenticated d (dq_token req) eid emp" "bulkBuyEligible d emp"
    and "dq_productId req = Some pid" "pid \<noteq> []" "dq_quantity req = Some q"
    and "js_isInteger q" "\<not> js_lt q (Fin 1)"
    and "deliveryMethodOf (dq_deliveryMethod req) = ''office''"
    and "products d pid = Some p" "p_isActive p" "p_bulkBuy p" "p_colors p = []" "p_sizes p = []"
    and "intOf q \<le> stockOr0 p"
    and "snap = \<lparr> s_productId = pid, s_name = p_name p,
                    s_sku = Some (case p_sku p of None \<Rightarrow> [] | Some k \<Rightarrow> k),
                    s_selectedColor = dq_selectedColor req, s_selectedSize = dq_selectedSize req,
                    s_quantity = intOf q, s_unitPrice = getUnitPriceForQty rt p q,
                    s_lineTotal = Number_str rt (toFixed2 rt (dbl_mul rt (getUnitPriceForQty rt p q) q)) \<rparr>"
  shows "bulkbuyRequest rt year d req =
           (OkBulkRequest
              (expectedRequest rt year (length (bulkBuyRequests d)) eid ''office'' None
                 (dq_requesterNote req) [snap] (s_lineTotal snap)),
            d\<lparr>bulkBuyRequests := bulkBuyRequests d @
                  [expectedRequest rt year (length (bulkBuyRequests d)) eid ''office'' None
                     (dq_requesterNote req) [snap] (s_lineTotal snap)]\<rparr>)"
proof -
  have r: "requireBulkBuyAccess d (dq_token req) = Inr (eid, emp)"
    using assms(1,2) by (simp add: requireBulkBuyAccess_Inr_iff)
  have u: "\<not> unset (Some pid)" using assms(4) by (simp add: unset_def)
  have s: "\<not> stockOr0 p < intOf q" using assms(14) by simp
  show ?thesis
    unfolding assms(15)
    by (simp add: bulkbuyRequest_def r Let_def assms(3) assms(5) assms(6) assms(7) assms(8)
        assms(9) assms(10) assms(11) assms(12) assms(13) u s createBulkBuyRequest_def
        expectedRequest_def)
qed

section \<open>Evaluation of the example store\<close>

lemma dec_simps:
  "decNumber ''99'' = Fin 99" "decNumber ''120'' = Fin 120" "decParseFloat ''2'' = Fin 2"
  "decParseFloat ''1'' = Fin 1" "decNumber ''100'' = Fin 100" "decNumber ''80'' = Fin 80"
  by (simp_all add: decNumber_def decParseFloat_def decLiteral_def is_digit_def digit_val_def Let_def)

lemma ex_cart: "getCartItems exampleDb ''e1'' = [cartItem1]"
  by (simp add: getCartItems_def exampleDb_def cartItem1_def)

lemma ex_inr: "inrPerPoint rt0 exampleDb = Fin 2"
  by (simp add: inrPerPoint_def exampleDb_def branding1_def rt0_simps dec_simps)

lemma ex_unitPrice: "unitPriceIn rt0 (products exampleDb) cartItem1 = Fin 99"
  by (simp add: unitPriceIn_def exampleDb_def cartItem1_def penProduct_def getUnitPriceForQty_def
      rt0_simps dec_simps)

lemma ex_required: "requiredPoints rt0 (products exampleDb) (Fin 2) [cartItem1] = Fin 150"
proof -
  have "c_quantity cartItem1 = 3" by (simp add: cartItem1_def)
  then show ?thesis
    by (simp add: requiredPoints_def ex_unitPrice usedPointsOf_def rt0_simps num_def ceiling_eq_iff)
qed

lemma ex_auth: "authenticated exampleDb (Some ''tok1'') ''e1'' employee1"
  by (simp add: authenticated_def exampleDb_def)

lemma ex_selection: "selectionOk exampleDb ''e1''"
  by (simp add: selectionOk_def maxSelections_def exampleDb_def branding1_def)

lemma ex_stock: "stockOk (products exampleDb) [cartItem1]"
  by (simp add: stockOk_def available_def exampleDb_def cartItem1_def penProduct_def stockOr0_def)

lemma poor_simps:
  "products poorDb = products exampleDb" "getCartItems poorDb ''e1'' = [cartItem1]"
  "inrPerPoint rt0 poorDb = Fin 2" "selectionOk poorDb ''e1''"
  "authenticated poorDb (Some ''tok1'') ''e1'' (employee1\<lparr>e_points := Some (Fin 100)\<rparr>)"
  using ex_cart ex_inr ex_selection
  by (simp_all add: poorDb_def getCartItems_def inrPerPoint_def selectionOk_def maxSelections_def
      getOrdersByEmployeeId_def authenticated_def exampleDb_def)

lemma ex_paid: "paymentVerified exampleCfg exampleVerifyReq (Some paidReply) paidReply"
  "paidAmount rt0 paidReply = Fin 100"
  by (simp_all add: paymentVerified_def exampleCfg_def exampleVerifyReq_def paidReply_def
      txnIdOf_def unset_def paidAmount_def rt0_simps)

lemma ex_storable: "storableInt (Fin 350)"
  by (simp add: storableInt_def js_le_def)

lemma ex_rest: "dbl_sub rt0 (Fin 500) (Fin 150) = Fin 350"
  by (simp add: rt0_simps js_sub_def)

lemma ex_copay: "copayAmount rt0 (Fin 150) (Fin 100) (Fin 2) = Fin 100"
  by (simp add: copayAmount_def rt0_simps js_sub_def)

lemma pointsMeta_stamped:
  "pointsMeta req =
     stamped (deliveryMethodOf (r_deliveryMethod req)) (r_deliveryAddress req) None None None"
  by (simp add: fun_eq_iff pointsMeta_def stamped_def)

lemma copayMeta_stamped:
  "copayMeta req result copay =
     stamped (deliveryMethodOf (v_deliveryMethod req)) (v_deliveryAddress req)
       (jsonNum copay) (gs_transactionId result) (txnIdOf req)"
  by (simp add: fun_eq_iff copayMeta_def stamped_def)

lemma ordersCommit_filter:
  "ordersCommit rt year req ctx d =
   ordersCommit rt year req (ctx\<lparr>x_cartItems := filter (present (products d)) (x_cartItems ctx)\<rparr>) d"
  using commitLoop_filter[of rt year "x_employeeId ctx" "x_inrPerPoint ctx" "pointsMeta req"
      "x_cartItems ctx" d]
  by (simp add: ordersCommit_def split: prod.split option.split)

lemma ex_usedPoints: "usedPointsOf rt0 (Fin 99) (Fin 2) 3 = Fin 150"
  by (simp add: usedPointsOf_def rt0_simps num_def ceiling_eq_iff)

lemma ex_ordersPost:
  "ordersPost rt0 2026 exampleDb exampleReq =
     (OkOrders (fst (commitLoop rt0 2026 ''e1'' (Fin 2) (pointsMeta exampleReq) [cartItem1] exampleDb))
        (Some (employee1\<lparr>e_points := Some (Fin 350)\<rparr>)),
      afterCheckout rt0 2026 exampleDb ''e1'' employee1 [cartItem1] (pointsMeta exampleReq) (Fin 350))"
proof -
  have a: "authenticated exampleDb (r_token exampleReq) ''e1'' employee1"
    using ex_auth by (simp add: exampleReq_def)
  have p: "pointsOr0 employee1 = Fin 500" by (simp add: pointsOr0_def employee1_def)
  show ?thesis
    using ordersPost_committed[of exampleDb exampleReq "''e1''" employee1 rt0 2026, OF a]
    by (simp add: ex_cart ex_selection ex_stock ex_inr ex_required p ex_rest ex_storable)
qed

lemma ex_verifyCopay:
  "verifyCopay rt0 exampleCfg 2026 (Some paidReply) poorDb exampleVerifyReq =
     (OkOrders (fst (commitLoop rt0 2026 ''e1'' (Fin 2) (copayMeta exampleVerifyReq paidReply (Fin 100))
                  [cartItem1] poorDb))
        (Some (employee1\<lparr>e_points := Some (Fin 0)\<rparr>)),
      afterCheckout rt0 2026 poorDb ''e1'' (employee1\<lparr>e_points := Some (Fin 100)\<rparr>) [cartItem1]
        (copayMeta exampleVerifyReq paidReply (Fin 100)) (Fin 0))"
proof -
  have a: "authenticated poorDb (v_token exampleVerifyReq) ''e1'' (employee1\<lparr>e_points := Some (Fin 100)\<rparr>)"
    using poor_simps(5) by (simp add: exampleVerifyReq_def)
  have p: "pointsOr0 (employee1\<lparr>e_points := Some (Fin 100)\<rparr>) = Fin 100" by (simp add: pointsOr0_def)
  show ?thesis
    using verifyCopay_committed[of exampleCfg exampleVerifyReq "Some paidReply" paidReply poorDb
        "''e1''" "employee1\<lparr>e_points := Some (Fin 100)\<rparr>" rt0 2026, OF ex_paid(1) a]
    by (simp add: poor_simps ex_stock ex_required p ex_copay ex_paid js_ge_def js_le_def js_eq_def)
qed

lemma not_selectionOk_iff:
  "(\<not> selectionOk d eid) =
     (maxSelections d \<noteq> - 1 \<and>
      int (length (getOrdersByEmployeeId d eid)) + int (length (getCartItems d eid)) > maxSelections d)"
  by (auto simp: selectionOk_def)

lemma bulkbuyRequest_not_selection:
  "fst (bulkbuyRequest rt year d req) \<noteq> Fail 400 ''Selection limit reached''"
proof (cases "requireBulkBuyAccess d (dq_token req)")
  case (Inl r)
  then show ?thesis using requireBulkBuyAccess_not_selection[of d "dq_token req"]
    by (auto simp: bulkbuyRequest_def)
next
  case (Inr x)
  obtain eid emp where x: "x = (eid, emp)" by (cases x)
  show ?thesis using Inr x
    by (simp add: bulkbuyRequest_def Let_def case_prod_beta split: option.splits)
qed

lemma lim_simps:
  "authenticated limitedDb (Some ''tok1'') ''e1'' employee1"
  "getCartItems limitedDb ''e1'' = [cartItem1]"
  "\<not> selectionOk limitedDb ''e1''"
  by (simp_all add: limitedDb_def exampleDb_def authenticated_def getCartItems_def cartItem1_def
      selectionOk_def maxSelections_def getOrdersByEmployeeId_def oldOrder_def)

lemma js_eq_exact: "js_eq a c \<Longrightarrow> a = c"
  by (simp add: js_eq_def)

lemma ex_overpaid:
  "paymentVerified exampleCfg exampleVerifyReq (Some overpaidReply) overpaidReply"
  "paidAmount rt0 overpaidReply = Fin 101"
  by (simp_all add: paymentVerified_def exampleCfg_def exampleVerifyReq_def paidReply_def
      overpaidReply_def txnIdOf_def unset_def paidAmount_def rt0_simps)

lemma ex_cfg: "\<not> unset (g_merchantId exampleCfg)" "\<not> unset (g_saltKey exampleCfg)"
  "\<not> unset (g_redirectBase exampleCfg)"
  by (simp_all add: exampleCfg_def unset_def)

lemma ex_validate:
  "ordersValidate rt0 exampleDb exampleReq =
     Inr \<lparr> x_employeeId = ''e1'', x_cartItems = [cartItem1], x_inrPerPoint = Fin 2,
           x_total = Fin 150, x_userPoints = Fin 500 \<rparr>"
proof -
  have au: "authEmployee exampleDb (r_token exampleReq) ''No token provided'' = Inr (''e1'', employee1)"
  proof -
    have "authenticated exampleDb (r_token exampleReq) ''e1'' employee1"
      using ex_auth by (simp add: exampleReq_def)
    then show ?thesis using authenticated_iff by blast
  qed
  have cc: "cartChecks rt0 exampleDb ''e1'' employee1 =
     Inr \<lparr> x_employeeId = ''e1'', x_cartItems = [cartItem1], x_inrPerPoint = Fin 2,
           x_total = Fin 150, x_userPoints = Fin 500 \<rparr>"
    using ex_selection
    by (simp add: cartChecks_Inr_iff ex_cart ex_stock ex_inr ex_required selectionOk_def
        pointsOr0_def employee1_def)
  show ?thesis by (simp add: ordersValidate_def au cc)
qed

lemma bulk_simps:
  "authenticated bulkDb (Some ''tok1'') ''e1'' employee1" "bulkBuyEligible bulkDb employee1"
  "getBulkBuyCartItems bulkDb ''e1'' = [bulkItem1]" "products bulkDb = products exampleDb"
  "bulkBuyRequests bulkDb = []"
  by (simp_all add: bulkDb_def exampleDb_def authenticated_def bulkBuyEligible_def employee1_def
      getBulkBuyCartItems_def bulkItem1_def)

lemma ex_mug_price: "getUnitPriceForQty rt0 exampleProduct (num 10) = Fin 80"
  by (simp add: getUnitPriceForQty_def exampleProduct_def exampleSlabs_def num_def
      slabMatches_def js_ge_def js_le_def toMax_def rt0_simps dec_simps Let_def)

lemma ex_toFixed: "decToFixed2 (Fin 800) = ''800.00''"
proof -
  have "\<lfloor>\<bar>800::rat\<bar> * 100 + 1 / 2\<rfloor> = 80000" by (simp add: floor_eq_iff)
  then have n: "nat \<lfloor>\<bar>800::rat\<bar> * 100 + 1 / 2\<rfloor> = 80000" by simp
  have d: "dec_of_nat 800 = ''800''" by (simp add: digit_char_def)
  show ?thesis unfolding decToFixed2_def jsnum.case Let_def n by (simp add: d digit_char_def)
qed

lemma ex_num800: "decNumber ''800.00'' = Fin 800"
  by (simp add: decNumber_def decLiteral_def is_digit_def digit_val_def Let_def)

lemma ex_lineTotal: "lineTotalOf rt0 (Fin 80) 10 = Fin 800"
  by (simp add: lineTotalOf_def rt0_simps num_def ex_toFixed ex_num800)

lemma ex_bulkSnapshot: "bulkSnapshot rt0 (products exampleDb) [bulkItem1] = [exampleSnap]"
proof -
  have p: "products exampleDb ''p1'' = Some exampleProduct" by (simp add: exampleDb_def)
  have b: "bc_productId bulkItem1 = ''p1''" "bc_quantity bulkItem1 = 10"
    "bc_selectedColor bulkItem1 = None"
    by (simp_all add: bulkItem1_def)
  have pb: "p_bulkBuy exampleProduct" "p_name exampleProduct = ''Mug''"
    "p_sku exampleProduct = Some ''MUG-1''"
    by (simp_all add: exampleProduct_def)
  show ?thesis
    by (simp add: bulkSnapshot_def bulkItemValid_def snapshotOf_def p b pb ex_mug_price ex_lineTotal
        exampleSnap_def)
qed

lemma ex_requestId: "''BBR-'' @ dec_of_nat 2026 @ ''-'' @ padStart 4 (dec_of_nat (0 + 1)) = ''BBR-2026-0001''"
proof -
  have y: "dec_of_nat 2026 = ''2026''" by (simp add: digit_char_def)
  have n: "dec_of_nat (0 + 1) = ''1''" by (simp add: digit_char_def)
  have p: "padStart 4 ''1'' = ''0001''" by (simp add: padStart_def numeral_3_eq_3)
  show ?thesis unfolding y n p by simp
qed

lemma ex_expectedRequest:
  "expectedRequest rt0 2026 0 ''e1'' ''office'' None None [exampleSnap] (Fin 800) = exampleRequest"
  unfolding expectedRequest_def ex_requestId
  by (simp add: exampleRequest_def rt0_simps ex_toFixed)

lemma ex_bulkReq:
  "q_token bulkReq = Some ''tok1''" "deliveryMethodOf (q_deliveryMethod bulkReq) = ''office''"
  "q_deliveryAddress bulkReq = None" "q_requesterNote bulkReq = None"
  by (simp_all add: bulkReq_def deliveryMethodOf_def)

lemma ex_bulkStock:
  "list_all (bulkItemInStock (products bulkDb))
     (filter (bulkItemValid (products bulkDb)) (getBulkBuyCartItems bulkDb ''e1''))"
  by (simp add: bulk_simps bulkItemInStock_def bulkItemValid_def bulkItem1_def exampleDb_def
      exampleProduct_def stockOr0_def)

lemma ex_bulkCheckout:
  "bulkbuyCheckout rt0 2026 bulkDb bulkReq =
     (OkBulkRequest exampleRequest,
      bulkDb\<lparr>bulkBuyRequests := [exampleRequest], bulkBuyCartItems := []\<rparr>)"
proof -
  have a: "authenticated bulkDb (q_token bulkReq) ''e1'' employee1"
    using bulk_simps(1) by (simp add: ex_bulkReq)
  have s: "bulkSnapshot rt0 (products bulkDb) (getBulkBuyCartItems bulkDb ''e1'') = [exampleSnap]"
    by (simp add: bulk_simps ex_bulkSnapshot)
  have ne: "getBulkBuyCartItems bulkDb ''e1'' \<noteq> []" by (simp add: bulk_simps)
  have sne: "bulkSnapshot rt0 (products bulkDb) (getBulkBuyCartItems bulkDb ''e1'') \<noteq> []"
    by (simp add: s)
  have t: "foldl (dbl_add rt0) (Fin 0) (map s_lineTotal [exampleSnap]) = Fin 800"
    by (simp add: exampleSnap_def rt0_simps)
  have c: "filter (\<lambda>c. bc_employeeId c \<noteq> ''e1'') (bulkBuyCartItems bulkDb) = []"
    by (simp add: bulkDb_def bulkItem1_def)
  have l: "length (bulkBuyRequests bulkDb) = 0" "bulkBuyRequests bulkDb @ [exampleRequest] = [exampleRequest]"
    by (simp_all add: bulk_simps)
  show ?thesis
    using bulkbuyCheckout_Ok[OF a bulk_simps(2) ne ex_bulkStock sne, of 2026]
    unfolding s t c ex_bulkReq l(1) ex_expectedRequest l(2) .
qed

lemma ex_directReq:
  "dq_token directReq = Some ''tok1''" "dq_productId directReq = Some ''p1''"
  "dq_quantity directReq = Some (Fin 10)" "deliveryMethodOf (dq_deliveryMethod directReq) = ''office''"
  "dq_requesterNote directReq = None" "dq_selectedColor directReq = None"
  "dq_selectedSize directReq = None"
  by (simp_all add: directReq_def deliveryMethodOf_def)

lemma ex_bulkRequest:
  "bulkbuyRequest rt0 2026 bulkDb directReq =
     (OkBulkRequest exampleRequest, bulkDb\<lparr>bulkBuyRequests := [exampleRequest]\<rparr>)"
proof -
  have a: "authenticated bulkDb (dq_token directReq) ''e1'' employee1"
    using bulk_simps(1) by (simp add: ex_directReq)
  have p: "products bulkDb ''p1'' = Some exampleProduct" by (simp add: bulk_simps exampleDb_def)
  have q: "js_isInteger (Fin 10)" "\<not> js_lt (Fin 10) (Fin 1)" "intOf (Fin 10) = 10"
    by (simp_all add: intOf_def)
  have e: "p_isActive exampleProduct" "p_bulkBuy exampleProduct" "p_colors exampleProduct = []"
    "p_sizes exampleProduct = []" "intOf (Fin 10) \<le> stockOr0 exampleProduct"
    "p_name exampleProduct = ''Mug''" "p_sku exampleProduct = Some ''MUG-1''"
    by (simp_all add: exampleProduct_def stockOr0_def q)
  have u: "getUnitPriceForQty rt0 exampleProduct (Fin 10) = Fin 80"
    using ex_mug_price by (simp add: num_def)
  have lt: "Number_str rt0 (toFixed2 rt0 (dbl_mul rt0 (Fin 80) (Fin 10))) = Fin 800"
    by (simp add: rt0_simps ex_toFixed ex_num800)
  have sn: "exampleSnap = \<lparr> s_productId = ''p1'', s_name = p_name exampleProduct,
                    s_sku = Some (case p_sku exampleProduct of None \<Rightarrow> [] | Some k \<Rightarrow> k),
                    s_selectedColor = dq_selectedColor directReq,
                    s_selectedSize = dq_selectedSize directReq,
                    s_quantity = intOf (Fin 10),
                    s_unitPrice = getUnitPriceForQty rt0 exampleProduct (Fin 10),
                    s_lineTotal = Number_str rt0 (toFixed2 rt0
                        (dbl_mul rt0 (getUnitPriceForQty rt0 exampleProduct (Fin 10)) (Fin 10))) \<rparr>"
    unfolding u lt by (simp add: exampleSnap_def e q ex_directReq)
  have nn: "''p1'' \<noteq> []" by simp
  have st: "s_lineTotal exampleSnap = Fin 800" by (simp add: exampleSnap_def)
  have l: "length (bulkBuyRequests bulkDb) = 0" "bulkBuyRequests bulkDb @ [exampleRequest] = [exampleRequest]"
    by (simp_all add: bulk_simps)
  show ?thesis
    using bulkbuyRequest_Ok[OF a bulk_simps(2) ex_directReq(2) nn ex_directReq(3) q(1) q(2)
        ex_directReq(4) p e(1) e(2) e(3) e(4) e(5) sn, of 2026]
    unfolding st ex_directReq l(1) ex_expectedRequest l(2) .
qed

lemma createOrder_orderId:
  "o_orderId (fst (createOrder year d orderData)) =
     ''ORD-'' @ dec_of_nat year @ ''-'' @ padStart 3 (dec_of_nat (yearCount year (orders d) + 1))"
  by (simp add: createOrder_def yearCount_def Let_def)

lemma createBulkBuyRequest_requestId:
  "bb_requestId (fst (createBulkBuyRequest rt year d input)) =
     ''BBR-'' @ dec_of_nat year @ ''-'' @ padStart 4 (dec_of_nat (length (bulkBuyRequests d) + 1))"
  by (simp add: createBulkBuyRequest_def Let_def)

lemma ex_digits:
  "dec_of_nat 2026 = ''2026''" "dec_of_nat (0 + 1) = ''1''" "dec_of_nat (1 + 1) = ''2''"
  by (simp_all add: digit_char_def)

lemma ex_pad: "padStart 3 ''1'' = ''001''" "padStart 4 ''2'' = ''0002''"
  by (simp_all add: padStart_def numeral_2_eq_2 numeral_3_eq_3)

lemma camp_simps:
  "campaigns campaignDb ''k1'' = Some campaign1"
  "getOrdersByEmployeeId campaignDb ''e1'' = [legacyOrder]"
  "getCartItems campaignDb ''e1'' = [campaignItem]"
  "getCartItem campaignDb ''c1'' = Some campaignItem"
  "products campaignDb ''p2'' = Some penProduct"
  "employees campaignDb ''e1'' = Some employee1"
  by (simp_all add: campaignDb_def exampleDb_def getOrdersByEmployeeId_def getCartItems_def
      getCartItem_def legacyOrder_def oldOrder_def campaignItem_def cartItem1_def)

lemma campItem_simps:
  "c_productId campaignItem = ''p2''" "c_employeeId campaignItem = ''e1''"
  "c_id campaignItem = ''c1''" "c_campaignId campaignItem = Some ''k1''"
  "c_quantity campaignItem = 1"
  by (simp_all add: campaignItem_def cartItem1_def)

lemma legacy_simps:
  "o_campaignId legacyOrder = None" "o_productId legacyOrder = ''p2''"
  "o_quantity legacyOrder = Some 2"
  by (simp_all add: legacyOrder_def oldOrder_def)

lemma ex_campaignUsage:
  "campaignUsage campaignDb ''e1'' ''k1'' (Some ''c1'') = 0"
  "campaignUsage campaignDb ''e1'' ''k1'' None = 1"
  by (simp_all add: campaignUsage_def camp_simps campItem_simps legacy_simps)

lemma ex_usagePost: "usagePost campaignDb ''e1'' ''k1'' = 1"
  by (simp add: usagePost_def camp_simps campItem_simps legacy_simps qtyOr1_def Let_def)

lemma ex_usagePut: "usagePut campaignDb campaignItem ''k1'' = 2"
proof -
  have cp: "getCampaignProducts campaignDb ''k1'' = [''p2'']"
    by (simp add: getCampaignProducts_def campaignDb_def exampleDb_def)
  show ?thesis
    by (simp add: usagePut_def campItem_simps camp_simps cp legacy_simps Let_def orderQtyOr1_def
        qtyOr1_def)
qed

lemma ex_campaignCheckPost: "campaignCheckPost campaignDb ''e1'' (Some ''k1'') 1 = None"
  by (simp add: campaignCheckPost_def idOrUndefined_def camp_simps campaign1_def ex_usagePost)

lemma ex_campaignProducts: "getCampaignProducts campaignDb ''k1'' = [''p2'']"
  by (simp add: getCampaignProducts_def campaignDb_def exampleDb_def)

lemma ex_campaignCheckPut:
  "campaignCheckPut campaignDb campaignItem 2 = Some (limitReached 2 ''Diwali'')"
proof -
  have pc: "getProductCampaigns campaignDb ''p2'' = [(''k1'', campaign1)]"
    by (simp add: getProductCampaigns_def campaignDb_def exampleDb_def)
  show ?thesis
    by (simp add: campaignCheckPut_def campItem_simps pc camp_simps ex_usagePut Let_def
        campaign1_def)
qed

text \<open>
  The handler itself: updating the quantity of cart row \<open>c1\<close> of \<open>campaignDb\<close> to 2 is
  rejected and the store is unchanged.
\<close>

lemma ex_cartPut_by_product:
  "cartPut campaignDb ''c1'' (Fin 2) = (limitReached 2 ''Diwali'', campaignDb)"
proof -
  have q: "js_isInteger (Fin 2)" "\<not> js_lt (Fin 2) (Fin 1)" "intOf (Fin 2) = 2"
    by (simp_all add: intOf_def)
  have s: "stockOr0 penProduct = 10" by (simp add: stockOr0_def penProduct_def)
  show ?thesis
    by (simp add: cartPut_def q camp_simps campItem_simps s ex_campaignCheckPut)
qed

section \<open>Claims about the slab normaliser and the price resolver\<close>

text \<open>
  Claim C5, as amended. Whenever \<open>normalizePriceSlabs\<close> returns a list, the list is sorted
  ascending by \<open>(minQty, maxQty-or-infinity)\<close>, has at most one open-ended slab, and no two
  of its slabs have overlapping closed intervals. Whenever two retained slabs of an input
  overlap (positions \<open>i < j\<close> of the cleaned list), the function does not return: it
  fails with the overlap error when the price, range and open-ended checks pass, and
  with the error of the first violated earlier rule otherwise.
\<close>

theorem normalizePriceSlabs_sorted_disjoint:
  "(normalizePriceSlabs rt (Some xs) = Inr out \<longrightarrow>
      sorted_wrt slab_le out \<and>
      length (filter openEnded out) \<le> 1 \<and>
      (\<forall>i j. i < length out \<and> j < length out \<and> i \<noteq> j \<longrightarrow> \<not> overlap (out ! i) (out ! j)))
   \<and>
   (i < j \<and> j < length (cleanSlabs rt ys) \<and>
    overlap (cleanSlabs rt ys ! i) (cleanSlabs rt ys ! j) \<longrightarrow>
      (\<exists>e. normalizePriceSlabs rt (Some ys) = Inl e) \<and>
      (validateSlabs rt (cleanSlabs rt ys) = None \<and>
       length (filter openEnded (cleanSlabs rt ys)) \<le> 1 \<longrightarrow>
         normalizePriceSlabs rt (Some ys) = Inl RangesOverlap))"
proof (intro conjI impI)
  assume r: "normalizePriceSlabs rt (Some xs) = Inr out"
  then have inv: "slabsInvariant out" by (rule normalize_output_invariant)
  then show "sorted_wrt slab_le out" by (simp add: slabsInvariant_def)
  have o: "out = sortSlabs (cleanSlabs rt xs)"
    and n: "length (filter (\<lambda>s. maxQty s = None) (cleanSlabs rt xs)) \<le> 1"
    and h: "\<not> hasOverlap (cleanSlabs rt xs)"
    using r by (simp_all add: normalize_Inr_iff)
  have oe: "openEnded = (\<lambda>s. maxQty s = None)" by (simp add: openEnded_def fun_eq_iff)
  show "length (filter openEnded out) \<le> 1"
    using n by (simp add: o oe filter_len_sortSlabs)
  have "\<not> hasOverlap out" using h by (simp add: o hasOverlap_sortSlabs)
  then have sw: "sorted_wrt (\<lambda>a b. \<not> overlap a b) out" by (simp add: hasOverlap_iff)
  show "\<forall>i j. i < length out \<and> j < length out \<and> i \<noteq> j \<longrightarrow> \<not> overlap (out ! i) (out ! j)"
  proof (intro allI impI)
    fix i j assume a: "i < length out \<and> j < length out \<and> i \<noteq> j"
    show "\<not> overlap (out ! i) (out ! j)"
    proof (cases "i < j")
      case True
      then show ?thesis using sw a by (simp add: sorted_wrt_iff_nth_less)
    next
      case False
      then have "j < i" using a by simp
      then have "\<not> overlap (out ! j) (out ! i)" using sw a by (simp add: sorted_wrt_iff_nth_less)
      then show ?thesis by (simp add: overlap_sym)
    qed
  qed
next
  assume a: "i < j \<and> j < length (cleanSlabs rt ys) \<and>
    overlap (cleanSlabs rt ys ! i) (cleanSlabs rt ys ! j)"
  then have "\<not> sorted_wrt (\<lambda>a b. \<not> overlap a b) (cleanSlabs rt ys)"
    by (auto simp: sorted_wrt_iff_nth_less)
  then have h: "hasOverlap (cleanSlabs rt ys)" by (simp add: hasOverlap_iff)
  then show "\<exists>e. normalizePriceSlabs rt (Some ys) = Inl e"
    by (cases "normalizePriceSlabs rt (Some ys)") (auto simp: normalize_Inr_iff)
  have oe: "openEnded = (\<lambda>s. maxQty s = None)" by (simp add: openEnded_def fun_eq_iff)
  assume "validateSlabs rt (cleanSlabs rt ys) = None \<and>
       length (filter openEnded (cleanSlabs rt ys)) \<le> 1"
  then show "normalizePriceSlabs rt (Some ys) = Inl RangesOverlap"
    using h by (simp add: normalizePriceSlabs_def oe hasOverlap_sortSlabs Let_def)
qed

lemma exampleRaw_clean:
  "cleanSlabs rt0 exampleRaw =
     [\<lparr> minQty = Fin 10, maxQty = None, price = ''80'' \<rparr>,
      \<lparr> minQty = Fin 1, maxQty = Some (Fin 9), price = ''100'' \<rparr>]"
  by (simp add: cleanSlabs_def exampleRaw_def rawSlab_def coerceSlab_def rt0_simps retained_def
      js_gt_def decNumber_def decLiteral_def is_digit_def digit_val_def asciiTrim_def
      is_space_def Let_def)

lemma exampleRaw_normalized: "normalizePriceSlabs rt0 (Some exampleRaw) = Inr exampleSlabs"
  by (simp add: normalizePriceSlabs_def exampleRaw_clean exampleSlabs_def rt0_simps
      decNumber_def decLiteral_def is_digit_def digit_val_def
      slabCmp_def js_sub_def js_truthy_def js_gt_def toMax_def overlap_def js_le_def Let_def)

lemma overlappingRaw_clean:
  "cleanSlabs rt0 overlappingRaw =
     [\<lparr> minQty = Fin 1, maxQty = Some (Fin 10), price = ''100'' \<rparr>,
      \<lparr> minQty = Fin 5, maxQty = Some (Fin 15), price = ''90'' \<rparr>]"
  by (simp add: cleanSlabs_def overlappingRaw_def rawSlab_def coerceSlab_def rt0_simps
      retained_def js_gt_def asciiTrim_def is_space_def Let_def)

lemma twoOpenRaw_clean:
  "cleanSlabs rt0 twoOpenRaw =
     [\<lparr> minQty = Fin 1, maxQty = None, price = ''100'' \<rparr>,
      \<lparr> minQty = Fin 5, maxQty = None, price = ''90'' \<rparr>]"
  by (simp add: cleanSlabs_def twoOpenRaw_def rawSlab_def coerceSlab_def rt0_simps
      retained_def js_gt_def asciiTrim_def is_space_def Let_def)

theorem normalizePriceSlabs_sorted_disjoint_witness:
  "normalizePriceSlabs rt0 (Some exampleRaw) = Inr exampleSlabs \<and>
   sorted_wrt slab_le exampleSlabs \<and> length (filter openEnded exampleSlabs) \<le> 1 \<and>
   \<not> overlap (exampleSlabs ! 0) (exampleSlabs ! 1) \<and>
   (0::nat) < 1 \<and> 1 < length (cleanSlabs rt0 overlappingRaw) \<and>
   overlap (cleanSlabs rt0 overlappingRaw ! 0) (cleanSlabs rt0 overlappingRaw ! 1) \<and>
   validateSlabs rt0 (cleanSlabs rt0 overlappingRaw) = None \<and>
   length (filter openEnded (cleanSlabs rt0 overlappingRaw)) \<le> 1 \<and>
   normalizePriceSlabs rt0 (Some overlappingRaw) = Inl RangesOverlap"
proof -
  have a: "normalizePriceSlabs rt0 (Some exampleRaw) = Inr exampleSlabs"
    by (rule exampleRaw_normalized)
  have b: "0 < (1::nat) \<and> 1 < length (cleanSlabs rt0 overlappingRaw) \<and>
    overlap (cleanSlabs rt0 overlappingRaw ! 0) (cleanSlabs rt0 overlappingRaw ! 1)"
    by (simp add: overlappingRaw_clean overlap_def js_le_def toMax_def)
  have c: "validateSlabs rt0 (cleanSlabs rt0 overlappingRaw) = None \<and>
    length (filter openEnded (cleanSlabs rt0 overlappingRaw)) \<le> 1"
    by (simp add: overlappingRaw_clean openEnded_def rt0_simps decNumber_def decLiteral_def
        is_digit_def digit_val_def Let_def)
  have len: "length exampleSlabs = 2" by (simp add: exampleSlabs_def)
  from normalizePriceSlabs_sorted_disjoint
         [of rt0 exampleRaw exampleSlabs 0 1 overlappingRaw]
  show ?thesis using a b c len by auto
qed

text \<open>
  Claim C5 as stated fails: two open-ended slabs \<open>[1,\<infinity>)\<close> and \<open>[5,\<infinity>)\<close> are retained and
  overlap, and normalisation fails with the open-ended error, not the overlap error.
\<close>

theorem normalizePriceSlabs_overlap_error_counterexample:
  "overlap (cleanSlabs rt0 twoOpenRaw ! 0) (cleanSlabs rt0 twoOpenRaw ! 1) \<and>
   normalizePriceSlabs rt0 (Some twoOpenRaw) = Inl MultipleOpenEnded \<and>
   normalizePriceSlabs rt0 (Some twoOpenRaw) \<noteq> Inl RangesOverlap"
  by (simp add: normalizePriceSlabs_def twoOpenRaw_clean overlap_def js_le_def toMax_def
      rt0_simps decNumber_def decLiteral_def is_digit_def digit_val_def Let_def)

text \<open>
  Claim C6. For a product whose stored slab table satisfies the data model's invariant
  (as every table returned by the normaliser does) and every integer quantity \<open>q\<close>, the
  resolver returns what the specification says: the base price when there are no slabs,
  otherwise the price of the first slab in ascending order whose interval contains
  \<open>q\<close> if that price is a finite number \<open>\<ge> 0\<close>, and the base price otherwise. On the
  worked example (slabs \<open>1..9\<close> at 100 and \<open>10..\<close> at 80, base price 120) quantities 5 and
  9 resolve to 100 and quantity 10 to 80.
\<close>

theorem getUnitPriceForQty_resolves:
  "(p_priceSlabs product = None \<or> p_priceSlabs product = Some [] \<longrightarrow>
      getUnitPriceForQty rt product (num q) = basePrice rt product)
   \<and>
   (p_priceSlabs product' = Some slabs \<and> slabsInvariant slabs \<longrightarrow>
      getUnitPriceForQty rt product' (num q) = resolve_spec rt product' (num q))
   \<and>
   (normalizePriceSlabs rt (Some raw) = Inr slabs' \<longrightarrow> slabsInvariant slabs')
   \<and>
   getUnitPriceForQty rt0 exampleProduct (num 5) = Fin 100 \<and>
   getUnitPriceForQty rt0 exampleProduct (num 9) = Fin 100 \<and>
   getUnitPriceForQty rt0 exampleProduct (num 10) = Fin 80"
proof (intro conjI impI)
  assume "p_priceSlabs product = None \<or> p_priceSlabs product = Some []"
  then show "getUnitPriceForQty rt product (num q) = basePrice rt product"
    by (auto simp: getUnitPriceForQty_def basePrice_def)
next
  assume a: "p_priceSlabs product' = Some slabs \<and> slabsInvariant slabs"
  then have s: "sortSlabs slabs = slabs"
    by (simp add: slabsInvariant_def sortSlabs_sorted_id)
  have "\<And>x. x \<in> set slabs \<Longrightarrow> slabMatches (num q) x = contains_qty (num q) x"
    using a by (simp add: slabsInvariant_def list_all_iff slabMatches_contains)
  then have f: "find (slabMatches (num q)) slabs = find (contains_qty (num q)) slabs"
    by (rule find_cong_set)
  have g: "\<And>sp. js_isFinite sp \<Longrightarrow> js_lt sp (Fin 0) = (\<not> js_le (Fin 0) sp)"
    by (auto simp: js_le_def js_isFinite_iff)
  show "getUnitPriceForQty rt product' (num q) = resolve_spec rt product' (num q)"
    using a by (auto simp: getUnitPriceForQty_def resolve_spec_def basePrice_def s f g Let_def
        split: option.splits)
next
  assume "normalizePriceSlabs rt (Some raw) = Inr slabs'"
  then show "slabsInvariant slabs'" by (rule normalize_output_invariant)
qed (simp_all add: getUnitPriceForQty_def exampleProduct_def exampleSlabs_def num_def
      slabMatches_def js_ge_def js_le_def toMax_def rt0_simps decNumber_def decLiteral_def
      is_digit_def digit_val_def Let_def)

theorem getUnitPriceForQty_resolves_witness:
  "p_priceSlabs (exampleProduct\<lparr>p_priceSlabs := None\<rparr>) = None \<and>
   getUnitPriceForQty rt0 (exampleProduct\<lparr>p_priceSlabs := None\<rparr>) (num 5) = Fin 120 \<and>
   p_priceSlabs exampleProduct = Some exampleSlabs \<and> slabsInvariant exampleSlabs \<and>
   normalizePriceSlabs rt0 (Some exampleRaw) = Inr exampleSlabs \<and>
   resolve_spec rt0 exampleProduct (num 5) = Fin 100"
proof -
  have a: "p_priceSlabs (exampleProduct\<lparr>p_priceSlabs := None\<rparr>) = None" by simp
  have b: "p_priceSlabs exampleProduct = Some exampleSlabs" by (simp add: exampleProduct_def)
  have c: "normalizePriceSlabs rt0 (Some exampleRaw) = Inr exampleSlabs"
    by (rule exampleRaw_normalized)
  have d: "basePrice rt0 (exampleProduct\<lparr>p_priceSlabs := None\<rparr>) = Fin 120"
    by (simp add: basePrice_def exampleProduct_def rt0_simps decNumber_def decLiteral_def
        is_digit_def digit_val_def Let_def)
  note t = getUnitPriceForQty_resolves
             [of "exampleProduct\<lparr>p_priceSlabs := None\<rparr>" rt0 5 exampleProduct exampleSlabs
                 exampleRaw exampleSlabs]
  have inv: "slabsInvariant exampleSlabs" using t c by blast
  show ?thesis using t a b c d inv by auto
qed

section \<open>Claims about the checkout\<close>

text \<open>
  Claim C1. When the preconditions of a points-only checkout pass (authenticated
  employee, non-empty cart, selection limit, per-item stock, balance at least
  \<open>totalPointsRequired\<close>) and the new balance \<open>points - totalPointsRequired\<close> is a value
  the integer column of the balance takes, \<open>ordersPost\<close> succeeds and leaves the store
  \<open>afterCheckout\<close>: every product named by the cart has its stock reduced by the
  quantity ordered of it, one order per cart item is appended, the balance is reduced
  by exactly \<open>totalPointsRequired\<close>, and the employee's cart is empty. The metadata of
  the order of an item is given field by field: \<open>usedPoints\<close>, which is
  \<open>ceil(unitPrice / inrPerPoint) * quantity\<close>, and \<open>unitPrice\<close>, both as the \<^verbatim>\<open>json\<close>
  column holds them, and the delivery fields of the request. On the co-pay path, after
  a verified payment of exactly the co-pay amount, \<open>verifyCopay\<close> does the same, sets
  the balance to \<open>0\<close> and also records the co-pay and the payment references. The
  arithmetic is that of the run time. No campaign-limit precondition is needed: the
  checkout handlers do not evaluate campaign limits.
\<close>

theorem checkout_commit_effects:
  "(authenticated d (r_token req) eid emp \<and> getCartItems d eid = cart \<and> cart \<noteq> [] \<and>
    selectionOk d eid \<and> stockOk (products d) cart \<and>
    requiredPoints rt (products d) (inrPerPoint rt d) cart = tot \<and>
    js_ge (pointsOr0 emp) tot \<and>
    dbl_sub rt (pointsOr0 emp) tot = rest \<and> storableInt rest \<and>
    stamped (deliveryMethodOf (r_deliveryMethod req)) (r_deliveryAddress req) None None None
      = mk1 \<longrightarrow>
      (\<exists>ords. ordersPost rt year d req =
                 (OkOrders ords (Some (emp\<lparr>e_points := Some rest\<rparr>)),
                  afterCheckout rt year d eid emp cart mk1 rest) \<and>
               map fst ords =
                 expectedOrders rt year eid (inrPerPoint rt d) mk1 (products d)
                   (yearCount year (orders d)) cart))
   \<and>
   (paymentVerified cfg vreq reply result \<and>
    authenticated d' (v_token vreq) eid' emp' \<and> getCartItems d' eid' = cart' \<and> cart' \<noteq> [] \<and>
    selectionOk d' eid' \<and> stockOk (products d') cart' \<and>
    requiredPoints rt (products d') (inrPerPoint rt d') cart' = tot' \<and>
    \<not> js_ge (pointsOr0 emp') tot' \<and>
    copayAmount rt tot' (pointsOr0 emp') (inrPerPoint rt d') = copay \<and>
    js_eq (paidAmount rt result) copay \<and>
    stamped (deliveryMethodOf (v_deliveryMethod vreq)) (v_deliveryAddress vreq) (jsonNum copay)
      (gs_transactionId result) (txnIdOf vreq) = mk2 \<longrightarrow>
      (\<exists>ords. verifyCopay rt cfg year reply d' vreq =
                 (OkOrders ords (Some (emp'\<lparr>e_points := Some (Fin 0)\<rparr>)),
                  afterCheckout rt year d' eid' emp' cart' mk2 (Fin 0)) \<and>
               map fst ords =
                 expectedOrders rt year eid' (inrPerPoint rt d') mk2
                   (products d') (yearCount year (orders d')) cart'))
   \<and>
   (products d0 pid = Some p \<and> pid \<in> c_productId ` set cart0 \<longrightarrow>
      products (afterCheckout rt year d0 eid0 emp0 cart0 mk v) pid =
        Some (p\<lparr>p_stock := Some (stockOr0 p - orderedQty cart0 pid)\<rparr>))
   \<and>
   (pid' \<notin> c_productId ` set cart0 \<longrightarrow>
      products (afterCheckout rt year d0 eid0 emp0 cart0 mk v) pid' = products d0 pid')
   \<and>
   (\<exists>news. orders (afterCheckout rt year d0 eid0 emp0 cart0 (stamped dm da cp pay txn) v)
             = orders d0 @ news \<and>
      length news = length cart0 \<and>
      (\<forall>i < length cart0.
         o_employeeId (news ! i) = eid0 \<and>
         o_productId (news ! i) = c_productId (cart0 ! i) \<and>
         o_quantity (news ! i) = Some (c_quantity (cart0 ! i)) \<and>
         o_metadata (news ! i) =
           Some \<lparr> m_usedPoints =
                    jsonNum (dbl_mul rt
                      (js_ceil (dbl_div rt (unitPriceIn rt (products d0) (cart0 ! i))
                                  (inrPerPoint rt d0)))
                      (num (c_quantity (cart0 ! i)))),
                  m_unitPrice = jsonNum (unitPriceIn rt (products d0) (cart0 ! i)),
                  m_deliveryMethod = dm, m_deliveryAddress = da, m_copayInr = cp,
                  m_paymentId = pay, m_phonepeOrderId = txn \<rparr>))
   \<and>
   employees (afterCheckout rt year d0 eid0 emp0 cart0 mk v) eid0 = Some (emp0\<lparr>e_points := Some v\<rparr>)
   \<and>
   getCartItems (afterCheckout rt year d0 eid0 emp0 cart0 mk v) eid0 = []"
proof (intro conjI impI)
  assume h: "authenticated d (r_token req) eid emp \<and> getCartItems d eid = cart \<and> cart \<noteq> [] \<and>
    selectionOk d eid \<and> stockOk (products d) cart \<and>
    requiredPoints rt (products d) (inrPerPoint rt d) cart = tot \<and>
    js_ge (pointsOr0 emp) tot \<and>
    dbl_sub rt (pointsOr0 emp) tot = rest \<and> storableInt rest \<and>
    stamped (deliveryMethodOf (r_deliveryMethod req)) (r_deliveryAddress req) None None None
      = mk1"
  then have a: "authenticated d (r_token req) eid emp" and c: "getCartItems d eid \<noteq> []"
    and sl: "selectionOk d eid" and st: "stockOk (products d) (getCartItems d eid)"
    and lt: "\<not> js_lt (pointsOr0 emp) (requiredPoints rt (products d) (inrPerPoint rt d) (getCartItems d eid))"
    and s: "storableInt (dbl_sub rt (pointsOr0 emp)
              (requiredPoints rt (products d) (inrPerPoint rt d) (getCartItems d eid)))"
    by (auto simp: js_ge_def js_le_def)
  have so: "list_all (present (products d)) (getCartItems d eid)"
    using st by (rule stockOk_present)
  have mk: "pointsMeta req = mk1" using h by (simp add: pointsMeta_stamped)
  have k: "ordersPost rt year d req =
     (OkOrders (fst (commitLoop rt year eid (inrPerPoint rt d) mk1 cart d))
        (Some (emp\<lparr>e_points := Some rest\<rparr>)),
      afterCheckout rt year d eid emp cart mk1 rest)"
    using ordersPost_committed[OF a c sl st lt s, of year] h unfolding mk by simp
  have m: "map fst (fst (commitLoop rt year eid (inrPerPoint rt d) mk1 cart d)) =
             expectedOrders rt year eid (inrPerPoint rt d) mk1 (products d)
               (yearCount year (orders d)) cart"
    using commitLoop_orders[OF so, of rt year eid "inrPerPoint rt d" mk1] h by simp
  show "\<exists>ords. ordersPost rt year d req =
                 (OkOrders ords (Some (emp\<lparr>e_points := Some rest\<rparr>)),
                  afterCheckout rt year d eid emp cart mk1 rest) \<and>
               map fst ords =
                 expectedOrders rt year eid (inrPerPoint rt d) mk1 (products d)
                   (yearCount year (orders d)) cart"
    using k m by blast
next
  assume h: "paymentVerified cfg vreq reply result \<and>
    authenticated d' (v_token vreq) eid' emp' \<and> getCartItems d' eid' = cart' \<and> cart' \<noteq> [] \<and>
    selectionOk d' eid' \<and> stockOk (products d') cart' \<and>
    requiredPoints rt (products d') (inrPerPoint rt d') cart' = tot' \<and>
    \<not> js_ge (pointsOr0 emp') tot' \<and>
    copayAmount rt tot' (pointsOr0 emp') (inrPerPoint rt d') = copay \<and>
    js_eq (paidAmount rt result) copay \<and>
    stamped (deliveryMethodOf (v_deliveryMethod vreq)) (v_deliveryAddress vreq) (jsonNum copay)
      (gs_transactionId result) (txnIdOf vreq) = mk2"
  then have g: "paymentVerified cfg vreq reply result"
    and a: "authenticated d' (v_token vreq) eid' emp'" and c: "getCartItems d' eid' \<noteq> []"
    and sl: "selectionOk d' eid'" and st: "stockOk (products d') (getCartItems d' eid')"
    and p: "\<not> js_ge (pointsOr0 emp')
               (requiredPoints rt (products d') (inrPerPoint rt d') (getCartItems d' eid'))"
    and e: "js_eq (paidAmount rt result)
              (copayAmount rt (requiredPoints rt (products d') (inrPerPoint rt d') (getCartItems d' eid'))
                 (pointsOr0 emp') (inrPerPoint rt d'))"
    by auto
  have so: "list_all (present (products d')) (getCartItems d' eid')"
    using st by (rule stockOk_present)
  have mk: "copayMeta vreq result copay = mk2" using h by (simp add: copayMeta_stamped)
  have cp: "copayAmount rt (requiredPoints rt (products d') (inrPerPoint rt d') (getCartItems d' eid'))
                 (pointsOr0 emp') (inrPerPoint rt d') = copay"
    using h by simp
  have k: "verifyCopay rt cfg year reply d' vreq =
     (OkOrders (fst (commitLoop rt year eid' (inrPerPoint rt d') mk2 cart' d'))
        (Some (emp'\<lparr>e_points := Some (Fin 0)\<rparr>)),
      afterCheckout rt year d' eid' emp' cart' mk2 (Fin 0))"
    using verifyCopay_committed[OF g a c sl st p e, of year] h unfolding cp mk by simp
  have m: "map fst (fst (commitLoop rt year eid' (inrPerPoint rt d') mk2 cart' d')) =
             expectedOrders rt year eid' (inrPerPoint rt d') mk2 (products d')
               (yearCount year (orders d')) cart'"
    using commitLoop_orders[OF so, of rt year eid' "inrPerPoint rt d'" mk2] h by simp
  show "\<exists>ords. verifyCopay rt cfg year reply d' vreq =
                 (OkOrders ords (Some (emp'\<lparr>e_points := Some (Fin 0)\<rparr>)),
                  afterCheckout rt year d' eid' emp' cart' mk2 (Fin 0)) \<and>
               map fst ords =
                 expectedOrders rt year eid' (inrPerPoint rt d') mk2
                   (products d') (yearCount year (orders d')) cart'"
    using k m by blast
next
  assume "products d0 pid = Some p \<and> pid \<in> c_productId ` set cart0"
  then show "products (afterCheckout rt year d0 eid0 emp0 cart0 mk v) pid =
        Some (p\<lparr>p_stock := Some (stockOr0 p - orderedQty cart0 pid)\<rparr>)"
    by (simp add: afterCheckout_def stockAfter_apply)
next
  assume "pid' \<notin> c_productId ` set cart0"
  then show "products (afterCheckout rt year d0 eid0 emp0 cart0 mk v) pid' = products d0 pid'"
    by (simp add: afterCheckout_def stockAfter_other)
next
  show "\<exists>news. orders (afterCheckout rt year d0 eid0 emp0 cart0 (stamped dm da cp pay txn) v)
             = orders d0 @ news \<and>
      length news = length cart0 \<and>
      (\<forall>i < length cart0.
         o_employeeId (news ! i) = eid0 \<and>
         o_productId (news ! i) = c_productId (cart0 ! i) \<and>
         o_quantity (news ! i) = Some (c_quantity (cart0 ! i)) \<and>
         o_metadata (news ! i) =
           Some \<lparr> m_usedPoints =
                    jsonNum (dbl_mul rt
                      (js_ceil (dbl_div rt (unitPriceIn rt (products d0) (cart0 ! i))
                                  (inrPerPoint rt d0)))
                      (num (c_quantity (cart0 ! i)))),
                  m_unitPrice = jsonNum (unitPriceIn rt (products d0) (cart0 ! i)),
                  m_deliveryMethod = dm, m_deliveryAddress = da, m_copayInr = cp,
                  m_paymentId = pay, m_phonepeOrderId = txn \<rparr>)"
    by (rule exI[of _ "expectedOrders rt year eid0 (inrPerPoint rt d0) (stamped dm da cp pay txn)
                   (products d0) (yearCount year (orders d0)) cart0"])
       (simp add: afterCheckout_def nth_expectedOrders expectedOrder_def stamped_def
          usedPointsOf_def)
next
  show "employees (afterCheckout rt year d0 eid0 emp0 cart0 mk v) eid0 = Some (emp0\<lparr>e_points := Some v\<rparr>)"
    by (simp add: afterCheckout_def)
next
  show "getCartItems (afterCheckout rt year d0 eid0 emp0 cart0 mk v) eid0 = []"
    by (rule getCartItems_afterCheckout)
qed

theorem checkout_commit_effects_witness:
  "authenticated exampleDb (r_token exampleReq) ''e1'' employee1 \<and>
   getCartItems exampleDb ''e1'' = [cartItem1] \<and> selectionOk exampleDb ''e1'' \<and>
   stockOk (products exampleDb) [cartItem1] \<and>
   requiredPoints rt0 (products exampleDb) (inrPerPoint rt0 exampleDb) [cartItem1] = Fin 150 \<and>
   js_ge (pointsOr0 employee1) (Fin 150) \<and>
   dbl_sub rt0 (pointsOr0 employee1) (Fin 150) = Fin 350 \<and> storableInt (Fin 350) \<and>
   (\<exists>ords. ordersPost rt0 2026 exampleDb exampleReq =
      (OkOrders ords (Some (employee1\<lparr>e_points := Some (Fin 350)\<rparr>)),
       afterCheckout rt0 2026 exampleDb ''e1'' employee1 [cartItem1]
         (stamped ''office'' None None None None) (Fin 350))) \<and>
   paymentVerified exampleCfg exampleVerifyReq (Some paidReply) paidReply \<and>
   authenticated poorDb (v_token exampleVerifyReq) ''e1'' (employee1\<lparr>e_points := Some (Fin 100)\<rparr>) \<and>
   \<not> js_ge (Fin 100) (Fin 150) \<and> copayAmount rt0 (Fin 150) (Fin 100) (Fin 2) = Fin 100 \<and>
   js_eq (paidAmount rt0 paidReply) (Fin 100) \<and>
   (\<exists>ords. verifyCopay rt0 exampleCfg 2026 (Some paidReply) poorDb exampleVerifyReq =
      (OkOrders ords (Some (employee1\<lparr>e_points := Some (Fin 0)\<rparr>)),
       afterCheckout rt0 2026 poorDb ''e1'' (employee1\<lparr>e_points := Some (Fin 100)\<rparr>) [cartItem1]
         (stamped ''office'' None (Some (Fin 100)) (Some ''T-77'') (Some ''TXN_1'')) (Fin 0))) \<and>
   products (afterCheckout rt0 2026 exampleDb ''e1'' employee1 [cartItem1]
       (stamped ''office'' None None None None) (Fin 350)) ''p2''
     = Some (penProduct\<lparr>p_stock := Some 7\<rparr>) \<and>
   map o_metadata (orders (afterCheckout rt0 2026 exampleDb ''e1'' employee1 [cartItem1]
       (stamped ''office'' None None None None) (Fin 350)))
     = [Some \<lparr> m_usedPoints = Some (Fin 150), m_unitPrice = Some (Fin 99),
               m_deliveryMethod = ''office'', m_deliveryAddress = None, m_copayInr = None,
               m_paymentId = None, m_phonepeOrderId = None \<rparr>]"
proof -
  let ?mk1 = "stamped ''office'' None None None None"
  let ?mk2 = "stamped ''office'' None (Some (Fin 100)) (Some ''T-77'') (Some ''TXN_1'')"
  have a: "authenticated exampleDb (r_token exampleReq) ''e1'' employee1"
    using ex_auth by (simp add: exampleReq_def)
  have r: "requiredPoints rt0 (products exampleDb) (inrPerPoint rt0 exampleDb) [cartItem1] = Fin 150"
    by (simp add: ex_inr ex_required)
  have p: "pointsOr0 employee1 = Fin 500"
    "pointsOr0 (employee1\<lparr>e_points := Some (Fin 100)\<rparr>) = Fin 100"
    by (simp_all add: pointsOr0_def employee1_def)
  have g: "js_ge (pointsOr0 employee1) (Fin 150)"
    "dbl_sub rt0 (pointsOr0 employee1) (Fin 150) = Fin 350"
    by (simp_all add: p js_ge_def js_le_def ex_rest)
  have m1: "stamped (deliveryMethodOf (r_deliveryMethod exampleReq)) (r_deliveryAddress exampleReq)
              None None None = ?mk1"
    by (simp add: exampleReq_def deliveryMethodOf_def)
  have a': "authenticated poorDb (v_token exampleVerifyReq) ''e1'' (employee1\<lparr>e_points := Some (Fin 100)\<rparr>)"
    using poor_simps(5) by (simp add: exampleVerifyReq_def)
  have r': "requiredPoints rt0 (products poorDb) (inrPerPoint rt0 poorDb) [cartItem1] = Fin 150"
    by (simp add: poor_simps ex_required)
  have g': "\<not> js_ge (pointsOr0 (employee1\<lparr>e_points := Some (Fin 100)\<rparr>)) (Fin 150)"
    "copayAmount rt0 (Fin 150) (pointsOr0 (employee1\<lparr>e_points := Some (Fin 100)\<rparr>)) (inrPerPoint rt0 poorDb) = Fin 100"
    "\<not> js_ge (Fin 100) (Fin 150)" "js_eq (paidAmount rt0 paidReply) (Fin 100)"
    by (simp_all add: p js_ge_def js_le_def poor_simps ex_copay ex_paid js_eq_def)
  have m2: "stamped (deliveryMethodOf (v_deliveryMethod exampleVerifyReq))
              (v_deliveryAddress exampleVerifyReq) (jsonNum (Fin 100))
              (gs_transactionId paidReply) (txnIdOf exampleVerifyReq) = ?mk2"
    by (simp add: exampleVerifyReq_def deliveryMethodOf_def jsonNum_def paidReply_def txnIdOf_def
        unset_def)
  have s: "products exampleDb ''p2'' = Some penProduct" "''p2'' \<in> c_productId ` set [cartItem1]"
    "stockOr0 penProduct - orderedQty [cartItem1] ''p2'' = 7"
    by (simp_all add: exampleDb_def cartItem1_def orderedQty_def stockOr0_def penProduct_def)
  note t = checkout_commit_effects
      [where d = exampleDb and req = exampleReq and eid = "''e1''" and emp = employee1
         and cart = "[cartItem1]" and rt = rt0 and tot = "Fin 150" and year = 2026
         and rest = "Fin 350" and ?mk1.0 = ?mk1
         and cfg = exampleCfg and vreq = exampleVerifyReq and reply = "Some paidReply"
         and result = paidReply and d' = poorDb and eid' = "''e1''"
         and emp' = "employee1\<lparr>e_points := Some (Fin 100)\<rparr>" and cart' = "[cartItem1]"
         and tot' = "Fin 150" and copay = "Fin 100" and ?mk2.0 = ?mk2
         and ?d0.0 = exampleDb and pid = "''p2''" and p = penProduct and ?cart0.0 = "[cartItem1]"
         and ?eid0.0 = "''e1''" and ?emp0.0 = employee1 and mk = ?mk1
         and v = "Fin 350" and pid' = "''p1''" and dm = "''office''" and da = None
         and cp = None and pay = None and txn = None]
  have c1: "\<exists>ords. ordersPost rt0 2026 exampleDb exampleReq =
      (OkOrders ords (Some (employee1\<lparr>e_points := Some (Fin 350)\<rparr>)),
       afterCheckout rt0 2026 exampleDb ''e1'' employee1 [cartItem1] ?mk1 (Fin 350))"
    using t a r g m1 ex_cart ex_selection ex_stock ex_storable by auto
  have c2: "\<exists>ords. verifyCopay rt0 exampleCfg 2026 (Some paidReply) poorDb exampleVerifyReq =
      (OkOrders ords (Some (employee1\<lparr>e_points := Some (Fin 0)\<rparr>)),
       afterCheckout rt0 2026 poorDb ''e1'' (employee1\<lparr>e_points := Some (Fin 100)\<rparr>) [cartItem1]
         ?mk2 (Fin 0))"
    using t a' r' g' m2 ex_stock poor_simps ex_paid by auto
  have c3: "products (afterCheckout rt0 2026 exampleDb ''e1'' employee1 [cartItem1] ?mk1
       (Fin 350)) ''p2'' = Some (penProduct\<lparr>p_stock := Some 7\<rparr>)"
    using t s by simp
  have c4: "map o_metadata (orders (afterCheckout rt0 2026 exampleDb ''e1'' employee1 [cartItem1]
       ?mk1 (Fin 350)))
     = [Some \<lparr> m_usedPoints = Some (Fin 150), m_unitPrice = Some (Fin 99),
               m_deliveryMethod = ''office'', m_deliveryAddress = None, m_copayInr = None,
               m_paymentId = None, m_phonepeOrderId = None \<rparr>]"
  proof -
    have o: "orders exampleDb = []" "c_quantity cartItem1 = 3"
      by (simp_all add: exampleDb_def cartItem1_def)
    show ?thesis
      by (simp add: afterCheckout_def o expectedOrder_def ex_inr ex_unitPrice ex_usedPoints
          stamped_def jsonNum_def)
  qed
  show ?thesis
    using c1 c2 c3 c4 a r g a' g' ex_cart ex_selection ex_stock ex_paid ex_storable ex_copay
    by simp
qed

text \<open>
  Claim C2. The points charged are computed per unit. Whenever a checkout succeeds, the
  balance is reduced by (points path) or the co-pay is computed from (co-pay path)
  \<open>requiredPoints\<close>, the sum over the cart items, in cart order and starting from \<open>0\<close>, of
  \<open>ceil(unitPrice(product, quantity) / inrPerPoint) * quantity\<close>, and the \<open>usedPoints\<close>
  stamped on the order of each item is \<open>ceil(unitPrice / inrPerPoint) * quantity\<close> as the
  \<^verbatim>\<open>json\<close> column holds it. The division, the product, the sum and the subtraction are
  those of the run time; the ceiling is taken of each unit's quotient and never of a
  line total. With rate 2, unit price 99 and quantity 3 the charge is \<open>50 * 3 = 150\<close>,
  whereas the ceiling of the line total would be 149.
\<close>

theorem points_charged_per_unit:
  "(ordersPost rt year d req = (OkOrders ords e, d1) \<longrightarrow>
      (\<exists>eid emp. authenticated d (r_token req) eid emp \<and>
         employees d1 eid =
           Some (emp\<lparr>e_points := Some (dbl_sub rt (pointsOr0 emp)
                   (requiredPoints rt (products d) (inrPerPoint rt d) (getCartItems d eid)))\<rparr>) \<and>
         map (\<lambda>ord. map_option m_usedPoints (o_metadata ord)) (map fst ords) =
           map (\<lambda>item. Some (jsonNum (dbl_mul rt
                   (js_ceil (dbl_div rt (unitPriceIn rt (products d) item) (inrPerPoint rt d)))
                   (num (c_quantity item))))) (getCartItems d eid)))
   \<and>
   (verifyCopay rt cfg year reply d' vreq = (OkOrders ords' e', d1') \<longrightarrow>
      (\<exists>result eid emp. authenticated d' (v_token vreq) eid emp \<and> reply = Some result \<and>
         js_eq (paidAmount rt result)
           (js_ceil (dbl_mul rt
              (dbl_sub rt
                 (requiredPoints rt (products d') (inrPerPoint rt d') (getCartItems d' eid))
                 (pointsOr0 emp))
              (inrPerPoint rt d'))) \<and>
         map (\<lambda>ord. map_option m_usedPoints (o_metadata ord)) (map fst ords') =
           map (\<lambda>item. Some (jsonNum (dbl_mul rt
                   (js_ceil (dbl_div rt (unitPriceIn rt (products d') item) (inrPerPoint rt d')))
                   (num (c_quantity item))))) (getCartItems d' eid)))
   \<and>
   requiredPoints rt ps inr cart =
     foldl (dbl_add rt) (Fin 0)
       (map (\<lambda>item. dbl_mul rt (js_ceil (dbl_div rt (unitPriceIn rt ps item) inr))
                       (num (c_quantity item))) cart)
   \<and>
   dbl_mul rt0 (js_ceil (dbl_div rt0 (Fin 99) (Fin 2))) (num 3) = Fin 150 \<and>
   js_ceil (dbl_div rt0 (dbl_mul rt0 (Fin 99) (num 3)) (Fin 2)) = Fin 149 \<and>
   requiredPoints rt0 (products exampleDb) (inrPerPoint rt0 exampleDb)
     (getCartItems exampleDb ''e1'') = Fin 150"
proof (intro conjI impI)
  assume a: "ordersPost rt year d req = (OkOrders ords e, d1)"
  from ordersPost_Ok[OF a] obtain eid emp where
    h: "authenticated d (r_token req) eid emp"
       "d1 = afterCheckout rt year d eid emp (getCartItems d eid) (pointsMeta req)
                   (dbl_sub rt (pointsOr0 emp)
                      (requiredPoints rt (products d) (inrPerPoint rt d) (getCartItems d eid)))"
       "map fst ords = expectedOrders rt year eid (inrPerPoint rt d) (pointsMeta req)
                   (products d) (yearCount year (orders d)) (getCartItems d eid)"
    by blast
  have "employees d1 eid =
           Some (emp\<lparr>e_points := Some (dbl_sub rt (pointsOr0 emp)
                   (requiredPoints rt (products d) (inrPerPoint rt d) (getCartItems d eid)))\<rparr>)"
    by (simp add: h(2) afterCheckout_def)
  moreover have "map (\<lambda>ord. map_option m_usedPoints (o_metadata ord)) (map fst ords) =
           map (\<lambda>item. Some (jsonNum (dbl_mul rt
                   (js_ceil (dbl_div rt (unitPriceIn rt (products d) item) (inrPerPoint rt d)))
                   (num (c_quantity item))))) (getCartItems d eid)"
    unfolding h(3) usedPoints_expectedOrders by (simp add: pointsMeta_def usedPointsOf_def)
  ultimately show "\<exists>eid emp. authenticated d (r_token req) eid emp \<and>
         employees d1 eid =
           Some (emp\<lparr>e_points := Some (dbl_sub rt (pointsOr0 emp)
                   (requiredPoints rt (products d) (inrPerPoint rt d) (getCartItems d eid)))\<rparr>) \<and>
         map (\<lambda>ord. map_option m_usedPoints (o_metadata ord)) (map fst ords) =
           map (\<lambda>item. Some (jsonNum (dbl_mul rt
                   (js_ceil (dbl_div rt (unitPriceIn rt (products d) item) (inrPerPoint rt d)))
                   (num (c_quantity item))))) (getCartItems d eid)"
    using h(1) by blast
next
  assume a: "verifyCopay rt cfg year reply d' vreq = (OkOrders ords' e', d1')"
  from verifyCopay_Ok[OF a] obtain result eid emp where
    h: "paymentVerified cfg vreq reply result" "authenticated d' (v_token vreq) eid emp"
       "js_eq (paidAmount rt result)
              (copayAmount rt (requiredPoints rt (products d') (inrPerPoint rt d') (getCartItems d' eid))
                 (pointsOr0 emp) (inrPerPoint rt d'))"
       "map fst ords' = expectedOrders rt year eid (inrPerPoint rt d')
                   (copayMeta vreq result
                      (copayAmount rt (requiredPoints rt (products d') (inrPerPoint rt d') (getCartItems d' eid))
                         (pointsOr0 emp) (inrPerPoint rt d')))
                   (products d') (yearCount year (orders d')) (getCartItems d' eid)"
    by blast
  have r: "reply = Some result" using h(1) by (simp add: paymentVerified_def)
  have p: "js_eq (paidAmount rt result)
           (js_ceil (dbl_mul rt
              (dbl_sub rt
                 (requiredPoints rt (products d') (inrPerPoint rt d') (getCartItems d' eid))
                 (pointsOr0 emp))
              (inrPerPoint rt d')))"
    using h(3) by (simp add: copayAmount_def)
  have "map (\<lambda>ord. map_option m_usedPoints (o_metadata ord)) (map fst ords') =
           map (\<lambda>item. Some (jsonNum (dbl_mul rt
                   (js_ceil (dbl_div rt (unitPriceIn rt (products d') item) (inrPerPoint rt d')))
                   (num (c_quantity item))))) (getCartItems d' eid)"
    unfolding h(4) usedPoints_expectedOrders by (simp add: copayMeta_def usedPointsOf_def)
  then show "\<exists>result eid emp. authenticated d' (v_token vreq) eid emp \<and> reply = Some result \<and>
         js_eq (paidAmount rt result)
           (js_ceil (dbl_mul rt
              (dbl_sub rt
                 (requiredPoints rt (products d') (inrPerPoint rt d') (getCartItems d' eid))
                 (pointsOr0 emp))
              (inrPerPoint rt d'))) \<and>
         map (\<lambda>ord. map_option m_usedPoints (o_metadata ord)) (map fst ords') =
           map (\<lambda>item. Some (jsonNum (dbl_mul rt
                   (js_ceil (dbl_div rt (unitPriceIn rt (products d') item) (inrPerPoint rt d')))
                   (num (c_quantity item))))) (getCartItems d' eid)"
    using h(2) r p by blast
next
  show "requiredPoints rt ps inr cart =
     foldl (dbl_add rt) (Fin 0)
       (map (\<lambda>item. dbl_mul rt (js_ceil (dbl_div rt (unitPriceIn rt ps item) inr))
                       (num (c_quantity item))) cart)"
    by (simp add: requiredPoints_def usedPointsOf_def)
next
  show "dbl_mul rt0 (js_ceil (dbl_div rt0 (Fin 99) (Fin 2))) (num 3) = Fin 150"
    by (simp add: rt0_simps num_def ceiling_eq_iff)
next
  show "js_ceil (dbl_div rt0 (dbl_mul rt0 (Fin 99) (num 3)) (Fin 2)) = Fin 149"
    by (simp add: rt0_simps num_def ceiling_eq_iff)
next
  show "requiredPoints rt0 (products exampleDb) (inrPerPoint rt0 exampleDb)
     (getCartItems exampleDb ''e1'') = Fin 150"
    by (simp add: ex_cart ex_inr ex_required)
qed

theorem points_charged_per_unit_witness:
  "ordersPost rt0 2026 exampleDb exampleReq =
     (OkOrders (fst (commitLoop rt0 2026 ''e1'' (Fin 2) (pointsMeta exampleReq) [cartItem1] exampleDb))
        (Some (employee1\<lparr>e_points := Some (Fin 350)\<rparr>)),
      afterCheckout rt0 2026 exampleDb ''e1'' employee1 [cartItem1] (pointsMeta exampleReq) (Fin 350)) \<and>
   verifyCopay rt0 exampleCfg 2026 (Some paidReply) poorDb exampleVerifyReq =
     (OkOrders (fst (commitLoop rt0 2026 ''e1'' (Fin 2) (copayMeta exampleVerifyReq paidReply (Fin 100))
                  [cartItem1] poorDb))
        (Some (employee1\<lparr>e_points := Some (Fin 0)\<rparr>)),
      afterCheckout rt0 2026 poorDb ''e1'' (employee1\<lparr>e_points := Some (Fin 100)\<rparr>) [cartItem1]
        (copayMeta exampleVerifyReq paidReply (Fin 100)) (Fin 0)) \<and>
   map (\<lambda>ord. map_option m_usedPoints (o_metadata ord))
     (map fst (fst (commitLoop rt0 2026 ''e1'' (Fin 2) (pointsMeta exampleReq) [cartItem1] exampleDb)))
     = [Some (Some (Fin 150))] \<and>
   map (\<lambda>ord. map_option m_usedPoints (o_metadata ord))
     (map fst (fst (commitLoop rt0 2026 ''e1'' (Fin 2) (copayMeta exampleVerifyReq paidReply (Fin 100))
                  [cartItem1] poorDb)))
     = [Some (Some (Fin 150))]"
proof -
  have q: "c_quantity cartItem1 = 3" by (simp add: cartItem1_def)
  have pf: "jsonNum (dbl_mul rt0 (js_ceil (dbl_div rt0 (Fin 99) (Fin 2))) (num 3)) = Some (Fin 150)"
    by (simp add: rt0_simps num_def ceiling_eq_iff jsonNum_def)
  note t = points_charged_per_unit
      [where rt = rt0 and year = 2026 and d = exampleDb and req = exampleReq
         and ords = "fst (commitLoop rt0 2026 ''e1'' (Fin 2) (pointsMeta exampleReq) [cartItem1] exampleDb)"
         and e = "Some (employee1\<lparr>e_points := Some (Fin 350)\<rparr>)"
         and ?d1.0 = "afterCheckout rt0 2026 exampleDb ''e1'' employee1 [cartItem1] (pointsMeta exampleReq) (Fin 350)"
         and cfg = exampleCfg and reply = "Some paidReply" and d' = poorDb and vreq = exampleVerifyReq
         and ords' = "fst (commitLoop rt0 2026 ''e1'' (Fin 2) (copayMeta exampleVerifyReq paidReply (Fin 100))
                  [cartItem1] poorDb)"
         and e' = "Some (employee1\<lparr>e_points := Some (Fin 0)\<rparr>)"
         and d1' = "afterCheckout rt0 2026 poorDb ''e1'' (employee1\<lparr>e_points := Some (Fin 100)\<rparr>) [cartItem1]
        (copayMeta exampleVerifyReq paidReply (Fin 100)) (Fin 0)"
         and inr = "Fin 2" and cart = "[cartItem1]" and ps = "products exampleDb"]
  have u1: "map (\<lambda>ord. map_option m_usedPoints (o_metadata ord))
     (map fst (fst (commitLoop rt0 2026 ''e1'' (Fin 2) (pointsMeta exampleReq) [cartItem1] exampleDb)))
     = [Some (Some (Fin 150))]"
  proof -
    from t ex_ordersPost obtain eid emp where
      "authenticated exampleDb (r_token exampleReq) eid emp"
      and m: "map (\<lambda>ord. map_option m_usedPoints (o_metadata ord))
         (map fst (fst (commitLoop rt0 2026 ''e1'' (Fin 2) (pointsMeta exampleReq) [cartItem1] exampleDb))) =
        map (\<lambda>item. Some (jsonNum (dbl_mul rt0
                   (js_ceil (dbl_div rt0 (unitPriceIn rt0 (products exampleDb) item)
                               (inrPerPoint rt0 exampleDb)))
                   (num (c_quantity item))))) (getCartItems exampleDb eid)"
      by blast
    then have "eid = ''e1''"
      by (auto simp: authenticated_def exampleReq_def exampleDb_def split: if_splits)
    then show ?thesis using m by (simp add: ex_cart ex_inr ex_unitPrice q pf)
  qed
  have u2: "map (\<lambda>ord. map_option m_usedPoints (o_metadata ord))
     (map fst (fst (commitLoop rt0 2026 ''e1'' (Fin 2) (copayMeta exampleVerifyReq paidReply (Fin 100))
                  [cartItem1] poorDb)))
     = [Some (Some (Fin 150))]"
  proof -
    from t ex_verifyCopay obtain result eid emp where
      "authenticated poorDb (v_token exampleVerifyReq) eid emp"
      and m: "map (\<lambda>ord. map_option m_usedPoints (o_metadata ord))
         (map fst (fst (commitLoop rt0 2026 ''e1'' (Fin 2) (copayMeta exampleVerifyReq paidReply (Fin 100))
                  [cartItem1] poorDb))) =
        map (\<lambda>item. Some (jsonNum (dbl_mul rt0
                   (js_ceil (dbl_div rt0 (unitPriceIn rt0 (products poorDb) item)
                               (inrPerPoint rt0 poorDb)))
                   (num (c_quantity item))))) (getCartItems poorDb eid)"
      by blast
    then have "eid = ''e1''"
      by (auto simp: authenticated_def exampleVerifyReq_def poorDb_def exampleDb_def split: if_splits)
    then show ?thesis using m by (simp add: poor_simps ex_unitPrice q pf)
  qed
  show ?thesis using ex_ordersPost ex_verifyCopay u1 u2 by simp
qed

text \<open>
  Claim C7. A points-only checkout, and each of the two co-pay handlers, answers with the
  selection-limit error exactly when the request is that of an authenticated employee
  with a non-empty cart (on \<open>verifyCopay\<close>: after a confirmed payment), the configured
  limit is not \<open>-1\<close>, and the employee's historical orders plus the cart items exceed the
  limit. These are the checks that precede the selection limit in the handlers. The
  bulk-buy submissions never answer with that error, and the bulk-buy checkout does not
  depend on the limit or on the orders at all.
\<close>

theorem selection_limit_enforced:
  "(fst (ordersPost rt year d req) = Fail 400 ''Selection limit reached'' \<longleftrightarrow>
      (\<exists>eid emp. authenticated d (r_token req) eid emp \<and> getCartItems d eid \<noteq> [] \<and>
         \<not> selectionOk d eid))
   \<and>
   (fst (createCopayOrder rt cfg nowMs preply d req) = Fail 400 ''Selection limit reached'' \<longleftrightarrow>
      (\<exists>eid emp. authenticated d (r_token req) eid emp \<and> getCartItems d eid \<noteq> [] \<and>
         \<not> selectionOk d eid))
   \<and>
   (fst (verifyCopay rt cfg year reply d vreq) = Fail 400 ''Selection limit reached'' \<longleftrightarrow>
      (\<exists>result eid emp. paymentVerified cfg vreq reply result \<and>
         authenticated d (v_token vreq) eid emp \<and> getCartItems d eid \<noteq> [] \<and>
         \<not> selectionOk d eid))
   \<and>
   ((\<not> selectionOk d eid0) =
      (maxSelections d \<noteq> - 1 \<and>
       int (length (getOrdersByEmployeeId d eid0)) + int (length (getCartItems d eid0))
         > maxSelections d))
   \<and>
   (fst (ordersPost rt year d req) = Fail 400 ''Selection limit reached'' \<longrightarrow>
      snd (ordersPost rt year d req) = d)
   \<and>
   (fst (verifyCopay rt cfg year reply d vreq) = Fail 400 ''Selection limit reached'' \<longrightarrow>
      snd (verifyCopay rt cfg year reply d vreq) = d)
   \<and>
   fst (bulkbuyCheckout rt year d breq) \<noteq> Fail 400 ''Selection limit reached'' \<and>
   fst (bulkbuyRequest rt year d dreq) \<noteq> Fail 400 ''Selection limit reached'' \<and>
   bulkbuyCheckout rt year (d\<lparr>branding := b, orders := os\<rparr>) breq =
     (fst (bulkbuyCheckout rt year d breq),
      (snd (bulkbuyCheckout rt year d breq))\<lparr>branding := b, orders := os\<rparr>)"
proof (intro conjI impI)
  assume a: "fst (ordersPost rt year d req) = Fail 400 ''Selection limit reached''"
  show "snd (ordersPost rt year d req) = d"
  proof (cases "ordersValidate rt d req")
    case (Inl r)
    then show ?thesis by (simp add: ordersPost_def)
  next
    case (Inr ctx)
    then have "fst (ordersPost rt year d req) = fst (ordersCommit rt year req ctx d)"
      by (simp add: ordersPost_def)
    then show ?thesis using a fst_ordersCommit[of rt year req ctx d] by auto
  qed
next
  assume a: "fst (verifyCopay rt cfg year reply d vreq) = Fail 400 ''Selection limit reached''"
  then have "verifyValidate rt cfg reply d vreq = Inl (Fail 400 ''Selection limit reached'')"
    by (simp add: verifyCopay_fst)
  then show "snd (verifyCopay rt cfg year reply d vreq) = d" by (simp add: verifyCopay_def)
qed (simp_all only: ordersPost_selection_iff createCopayOrder_selection_iff
       verifyCopay_selection_iff not_selectionOk_iff bulkbuyCheckout_not_selection
       bulkbuyRequest_not_selection bulkbuyCheckout_frame not_False_eq_True)

theorem selection_limit_enforced_witness:
  "authenticated limitedDb (r_token exampleReq) ''e1'' employee1 \<and>
   getCartItems limitedDb ''e1'' \<noteq> [] \<and> \<not> selectionOk limitedDb ''e1'' \<and>
   maxSelections limitedDb = 1 \<and>
   int (length (getOrdersByEmployeeId limitedDb ''e1'')) + int (length (getCartItems limitedDb ''e1'')) = 2 \<and>
   paymentVerified exampleCfg exampleVerifyReq (Some paidReply) paidReply \<and>
   fst (ordersPost rt0 2026 limitedDb exampleReq) = Fail 400 ''Selection limit reached'' \<and>
   snd (ordersPost rt0 2026 limitedDb exampleReq) = limitedDb \<and>
   fst (createCopayOrder rt0 exampleCfg 1 (Some payReply) limitedDb exampleReq)
     = Fail 400 ''Selection limit reached'' \<and>
   fst (verifyCopay rt0 exampleCfg 2026 (Some paidReply) limitedDb exampleVerifyReq)
     = Fail 400 ''Selection limit reached'' \<and>
   snd (verifyCopay rt0 exampleCfg 2026 (Some paidReply) limitedDb exampleVerifyReq) = limitedDb"
proof -
  have a: "authenticated limitedDb (r_token exampleReq) ''e1'' employee1"
    "authenticated limitedDb (v_token exampleVerifyReq) ''e1'' employee1"
    using lim_simps(1) by (simp_all add: exampleReq_def exampleVerifyReq_def)
  have c: "getCartItems limitedDb ''e1'' \<noteq> []" by (simp add: lim_simps)
  have m: "maxSelections limitedDb = 1"
    "int (length (getOrdersByEmployeeId limitedDb ''e1'')) + int (length (getCartItems limitedDb ''e1'')) = 2"
  proof -
    show "maxSelections limitedDb = 1"
      by (simp add: maxSelections_def limitedDb_def)
    have "getOrdersByEmployeeId limitedDb ''e1'' = [oldOrder]"
      by (simp add: limitedDb_def getOrdersByEmployeeId_def oldOrder_def)
    then show "int (length (getOrdersByEmployeeId limitedDb ''e1'')) +
        int (length (getCartItems limitedDb ''e1'')) = 2"
      by (simp add: lim_simps(2))
  qed
  note t = selection_limit_enforced
      [where rt = rt0 and year = 2026 and d = limitedDb and req = exampleReq and cfg = exampleCfg
         and nowMs = 1 and preply = "Some payReply" and reply = "Some paidReply"
         and vreq = exampleVerifyReq and ?eid0.0 = "''e1''"]
  have e1: "\<exists>eid emp. authenticated limitedDb (r_token exampleReq) eid emp \<and>
      getCartItems limitedDb eid \<noteq> [] \<and> \<not> selectionOk limitedDb eid"
    using a(1) c lim_simps(3) by blast
  have e2: "\<exists>result eid emp. paymentVerified exampleCfg exampleVerifyReq (Some paidReply) result \<and>
      authenticated limitedDb (v_token exampleVerifyReq) eid emp \<and>
      getCartItems limitedDb eid \<noteq> [] \<and> \<not> selectionOk limitedDb eid"
    using a(2) c lim_simps(3) ex_paid(1) by blast
  have r1: "fst (ordersPost rt0 2026 limitedDb exampleReq) = Fail 400 ''Selection limit reached''"
    using t e1 by simp
  have r2: "fst (createCopayOrder rt0 exampleCfg 1 (Some payReply) limitedDb exampleReq)
     = Fail 400 ''Selection limit reached''"
    using t e1 by simp
  have r3: "fst (verifyCopay rt0 exampleCfg 2026 (Some paidReply) limitedDb exampleVerifyReq)
     = Fail 400 ''Selection limit reached''"
    using t e2 by simp
  have s1: "snd (ordersPost rt0 2026 limitedDb exampleReq) = limitedDb"
    using t r1 by simp
  have s3: "snd (verifyCopay rt0 exampleCfg 2026 (Some paidReply) limitedDb exampleVerifyReq) = limitedDb"
    using t r3 by simp
  show ?thesis
    using a(1) c lim_simps(3) m ex_paid(1) r1 r2 r3 s1 s3 by simp
qed

text \<open>
  Claim C4. In a co-pay verification that reaches the comparison of points (payment
  confirmed by the gateway with code \<^verbatim>\<open>PAYMENT_SUCCESS\<close>, authenticated employee,
  non-empty cart, selection limit and stock passed): if the balance is at least
  \<open>totalPointsRequired\<close> the handler fails (\<^verbatim>\<open>create-copay-order\<close> with the message that
  directs to the normal checkout); otherwise
  \<open>copayAmount = ceil((totalPointsRequired - points) * inrPerPoint)\<close>, the pay request
  carries \<open>copayAmount * 100\<close> minor units as JSON writes them, and a paid amount, the
  gateway's amount divided by 100, that is not exactly \<open>copayAmount\<close> is rejected with
  the amount-mismatch error and the store unchanged. The subtraction, the products and
  the division are those of the run time. \<open>verifyCopay\<close> commits only after a confirmed
  payment of exactly \<open>copayAmount\<close>, and whenever it does not commit the store is
  unchanged. Equality of amounts is exact: one unit more or less is a mismatch.
\<close>

theorem copay_requires_exact_payment:
  "(paymentVerified cfg vreq reply result \<and> authenticated d (v_token vreq) eid emp \<and>
    getCartItems d eid = cart \<and> cart \<noteq> [] \<and> selectionOk d eid \<and> stockOk (products d) cart \<and>
    requiredPoints rt (products d) (inrPerPoint rt d) cart = tot \<and>
    js_ceil (dbl_mul rt (dbl_sub rt tot (pointsOr0 emp)) (inrPerPoint rt d)) = copay \<and>
    dbl_div rt (case gs_amount result of None \<Rightarrow> Fin 0 | Some a \<Rightarrow> a) (Fin 100) = paid \<longrightarrow>
      (js_ge (pointsOr0 emp) tot \<longrightarrow>
         verifyCopay rt cfg year reply d vreq = (Fail 400 ''Sufficient points'', d)) \<and>
      (\<not> js_ge (pointsOr0 emp) tot \<and> \<not> js_eq paid copay \<longrightarrow>
         verifyCopay rt cfg year reply d vreq = (AmountMismatch copay paid, d)))
   \<and>
   (authenticated d (r_token req) eid' emp' \<and>
    getCartItems d eid' = cart' \<and> cart' \<noteq> [] \<and> selectionOk d eid' \<and> stockOk (products d) cart' \<and>
    requiredPoints rt (products d) (inrPerPoint rt d) cart' = tot' \<longrightarrow>
      (js_ge (pointsOr0 emp') tot' \<longrightarrow>
         createCopayOrder rt cfg nowMs preply d req =
           (Fail 400 ''Sufficient points, use normal checkout'', None)) \<and>
      (\<not> js_ge (pointsOr0 emp') tot' \<and> \<not> unset (g_merchantId cfg) \<and> \<not> unset (g_saltKey cfg) \<and>
       \<not> unset (g_redirectBase cfg) \<longrightarrow>
         snd (createCopayOrder rt cfg nowMs preply d req) =
           Some (jsonNum (dbl_mul rt
                   (js_ceil (dbl_mul rt (dbl_sub rt tot' (pointsOr0 emp')) (inrPerPoint rt d)))
                   (Fin 100)))))
   \<and>
   (verifyCopay rt cfg year reply d vreq = (OkOrders ords e, d1) \<longrightarrow>
      (\<exists>result eid emp. reply = Some result \<and> gs_ok result \<and> gs_success result \<and>
         gs_code result = Some ''PAYMENT_SUCCESS'' \<and> authenticated d (v_token vreq) eid emp \<and>
         \<not> js_ge (pointsOr0 emp)
             (requiredPoints rt (products d) (inrPerPoint rt d) (getCartItems d eid)) \<and>
         dbl_div rt (case gs_amount result of None \<Rightarrow> Fin 0 | Some a \<Rightarrow> a) (Fin 100) =
           js_ceil (dbl_mul rt
             (dbl_sub rt (requiredPoints rt (products d) (inrPerPoint rt d) (getCartItems d eid))
                (pointsOr0 emp))
             (inrPerPoint rt d))))
   \<and>
   ((\<forall>ords e. fst (verifyCopay rt cfg year reply d vreq) \<noteq> OkOrders ords e) \<longrightarrow>
      snd (verifyCopay rt cfg year reply d vreq) = d)
   \<and>
   \<not> js_eq (Fin (x + 1)) (Fin x) \<and> \<not> js_eq (Fin (x - 1)) (Fin x)"
proof (intro conjI impI)
  assume h: "paymentVerified cfg vreq reply result \<and> authenticated d (v_token vreq) eid emp \<and>
    getCartItems d eid = cart \<and> cart \<noteq> [] \<and> selectionOk d eid \<and> stockOk (products d) cart \<and>
    requiredPoints rt (products d) (inrPerPoint rt d) cart = tot \<and>
    js_ceil (dbl_mul rt (dbl_sub rt tot (pointsOr0 emp)) (inrPerPoint rt d)) = copay \<and>
    dbl_div rt (case gs_amount result of None \<Rightarrow> Fin 0 | Some a \<Rightarrow> a) (Fin 100) = paid"
  then have v: "verifyValidate rt cfg reply d vreq = copayChecks rt d (v_token vreq) result"
    by (simp add: verifyValidate_verified)
  have c: "getCartItems d eid \<noteq> []" "stockOk (products d) (getCartItems d eid)"
    using h by auto
  have k: "copayAmount rt tot (pointsOr0 emp) (inrPerPoint rt d) = copay"
    "paidAmount rt result = paid"
    using h by (simp_all add: copayAmount_def paidAmount_def)
  note cr = copayChecks_reached[of d "v_token vreq" eid emp rt result, OF _ c(1) _ c(2)]
  {
    assume "js_ge (pointsOr0 emp) tot"
    then show "verifyCopay rt cfg year reply d vreq = (Fail 400 ''Sufficient points'', d)"
      using h cr by (simp add: verifyCopay_def v Let_def)
  }
  {
    assume "\<not> js_ge (pointsOr0 emp) tot \<and> \<not> js_eq paid copay"
    then show "verifyCopay rt cfg year reply d vreq = (AmountMismatch copay paid, d)"
      using h cr k by (simp add: verifyCopay_def v Let_def)
  }
next
  assume h: "authenticated d (r_token req) eid' emp' \<and>
    getCartItems d eid' = cart' \<and> cart' \<noteq> [] \<and> selectionOk d eid' \<and> stockOk (products d) cart' \<and>
    requiredPoints rt (products d) (inrPerPoint rt d) cart' = tot'"
  then have c: "authenticated d (r_token req) eid' emp'" "getCartItems d eid' \<noteq> []"
    "selectionOk d eid'" "stockOk (products d) (getCartItems d eid')"
    by auto
  {
    assume "js_ge (pointsOr0 emp') tot'"
    then show "createCopayOrder rt cfg nowMs preply d req =
           (Fail 400 ''Sufficient points, use normal checkout'', None)"
      using h createCopayOrder_reached(1)[OF c] by simp
  }
  {
    assume "\<not> js_ge (pointsOr0 emp') tot' \<and> \<not> unset (g_merchantId cfg) \<and> \<not> unset (g_saltKey cfg) \<and>
       \<not> unset (g_redirectBase cfg)"
    then show "snd (createCopayOrder rt cfg nowMs preply d req) =
           Some (jsonNum (dbl_mul rt
                   (js_ceil (dbl_mul rt (dbl_sub rt tot' (pointsOr0 emp')) (inrPerPoint rt d)))
                   (Fin 100)))"
      using h createCopayOrder_reached(2)[OF c, of rt cfg nowMs preply]
      by (simp add: copayAmount_def)
  }
next
  assume a: "verifyCopay rt cfg year reply d vreq = (OkOrders ords e, d1)"
  from verifyCopay_Ok[OF a] obtain result eid emp where
    h: "paymentVerified cfg vreq reply result" "authenticated d (v_token vreq) eid emp"
       "\<not> js_ge (pointsOr0 emp)
               (requiredPoints rt (products d) (inrPerPoint rt d) (getCartItems d eid))"
       "js_eq (paidAmount rt result)
              (copayAmount rt (requiredPoints rt (products d) (inrPerPoint rt d) (getCartItems d eid))
                 (pointsOr0 emp) (inrPerPoint rt d))"
    by blast
  have "reply = Some result \<and> gs_ok result \<and> gs_success result \<and>
         gs_code result = Some ''PAYMENT_SUCCESS''"
    using h(1) by (simp add: paymentVerified_def)
  moreover have "dbl_div rt (case gs_amount result of None \<Rightarrow> Fin 0 | Some a \<Rightarrow> a) (Fin 100) =
           js_ceil (dbl_mul rt
             (dbl_sub rt (requiredPoints rt (products d) (inrPerPoint rt d) (getCartItems d eid))
                (pointsOr0 emp))
             (inrPerPoint rt d))"
    using js_eq_exact[OF h(4)] by (simp add: copayAmount_def paidAmount_def)
  ultimately show "\<exists>result eid emp. reply = Some result \<and> gs_ok result \<and> gs_success result \<and>
         gs_code result = Some ''PAYMENT_SUCCESS'' \<and> authenticated d (v_token vreq) eid emp \<and>
         \<not> js_ge (pointsOr0 emp)
             (requiredPoints rt (products d) (inrPerPoint rt d) (getCartItems d eid)) \<and>
         dbl_div rt (case gs_amount result of None \<Rightarrow> Fin 0 | Some a \<Rightarrow> a) (Fin 100) =
           js_ceil (dbl_mul rt
             (dbl_sub rt (requiredPoints rt (products d) (inrPerPoint rt d) (getCartItems d eid))
                (pointsOr0 emp))
             (inrPerPoint rt d))"
    using h(2,3) by blast
next
  assume "\<forall>ords e. fst (verifyCopay rt cfg year reply d vreq) \<noteq> OkOrders ords e"
  then show "snd (verifyCopay rt cfg year reply d vreq) = d"
    by (rule verifyCopay_unchanged)
next
  show "\<not> js_eq (Fin (x + 1)) (Fin x)" by (simp add: js_eq_def)
next
  show "\<not> js_eq (Fin (x - 1)) (Fin x)" by (simp add: js_eq_def)
qed

theorem copay_requires_exact_payment_witness:
  "paymentVerified exampleCfg exampleVerifyReq (Some paidReply) paidReply \<and>
   authenticated exampleDb (v_token exampleVerifyReq) ''e1'' employee1 \<and>
   js_ge (pointsOr0 employee1) (Fin 150) \<and>
   verifyCopay rt0 exampleCfg 2026 (Some paidReply) exampleDb exampleVerifyReq =
     (Fail 400 ''Sufficient points'', exampleDb) \<and>
   createCopayOrder rt0 exampleCfg 1 (Some payReply) exampleDb exampleReq =
     (Fail 400 ''Sufficient points, use normal checkout'', None) \<and>
   paymentVerified exampleCfg exampleVerifyReq (Some overpaidReply) overpaidReply \<and>
   authenticated poorDb (v_token exampleVerifyReq) ''e1'' (employee1\<lparr>e_points := Some (Fin 100)\<rparr>) \<and>
   \<not> js_ge (Fin 100) (Fin 150) \<and>
   js_ceil (dbl_mul rt0 (dbl_sub rt0 (Fin 150) (Fin 100)) (Fin 2)) = Fin 100 \<and>
   gs_amount overpaidReply = Some (Fin 10100) \<and>
   dbl_div rt0 (Fin 10100) (Fin 100) = Fin 101 \<and>
   \<not> js_eq (Fin 101) (Fin 100) \<and>
   verifyCopay rt0 exampleCfg 2026 (Some overpaidReply) poorDb exampleVerifyReq =
     (AmountMismatch (Fin 100) (Fin 101), poorDb) \<and>
   snd (createCopayOrder rt0 exampleCfg 1 (Some payReply) poorDb exampleReq)
     = Some (Some (Fin 10000)) \<and>
   (\<forall>ords e. fst (verifyCopay rt0 exampleCfg 2026 (Some overpaidReply) poorDb exampleVerifyReq)
        \<noteq> OkOrders ords e) \<and>
   gs_code paidReply = Some ''PAYMENT_SUCCESS'' \<and> paidAmount rt0 paidReply = Fin 100"
proof -
  have a: "authenticated exampleDb (v_token exampleVerifyReq) ''e1'' employee1"
    "authenticated exampleDb (r_token exampleReq) ''e1'' employee1"
    using ex_auth by (simp_all add: exampleVerifyReq_def exampleReq_def)
  have a': "authenticated poorDb (v_token exampleVerifyReq) ''e1'' (employee1\<lparr>e_points := Some (Fin 100)\<rparr>)"
    "authenticated poorDb (r_token exampleReq) ''e1'' (employee1\<lparr>e_points := Some (Fin 100)\<rparr>)"
    using poor_simps(5) by (simp_all add: exampleVerifyReq_def exampleReq_def)
  have p: "pointsOr0 employee1 = Fin 500" "pointsOr0 (employee1\<lparr>e_points := Some (Fin 100)\<rparr>) = Fin 100"
    by (simp_all add: pointsOr0_def employee1_def)
  have g: "js_ge (Fin 500) (Fin 150)" "\<not> js_ge (Fin 100) (Fin 150)"
    "js_ceil (dbl_mul rt0 (dbl_sub rt0 (Fin 150) (Fin 100)) (Fin 2)) = Fin 100"
    "\<not> js_eq (Fin 101) (Fin 100)"
    "jsonNum (dbl_mul rt0 (Fin 100) (Fin 100)) = Some (Fin 10000)"
    "dbl_div rt0 (Fin 10100) (Fin 100) = Fin 101"
    "dbl_div rt0 (Fin 10000) (Fin 100) = Fin 100"
    by (simp_all add: js_ge_def js_le_def rt0_simps js_sub_def js_eq_def jsonNum_def)
  have am: "gs_amount overpaidReply = Some (Fin 10100)" "gs_amount paidReply = Some (Fin 10000)"
    by (simp_all add: overpaidReply_def paidReply_def)
  have k: "js_ceil (dbl_mul rt0 (dbl_sub rt0 (Fin 150) (Fin 500)) (Fin 2)) = Fin (- 700)"
    by (simp add: rt0_simps js_sub_def)
  note t1 = copay_requires_exact_payment
      [where cfg = exampleCfg and vreq = exampleVerifyReq and reply = "Some paidReply"
         and result = paidReply and d = exampleDb and eid = "''e1''" and emp = employee1
         and cart = "[cartItem1]" and rt = rt0 and tot = "Fin 150" and copay = "Fin (- 700)"
         and paid = "Fin 100"
         and year = 2026 and req = exampleReq and eid' = "''e1''" and emp' = employee1
         and cart' = "[cartItem1]" and tot' = "Fin 150" and nowMs = 1 and preply = "Some payReply"]
  note t2 = copay_requires_exact_payment
      [where cfg = exampleCfg and vreq = exampleVerifyReq and reply = "Some overpaidReply"
         and result = overpaidReply and d = poorDb and eid = "''e1''"
         and emp = "employee1\<lparr>e_points := Some (Fin 100)\<rparr>"
         and cart = "[cartItem1]" and rt = rt0 and tot = "Fin 150" and copay = "Fin 100"
         and paid = "Fin 101"
         and year = 2026 and req = exampleReq and eid' = "''e1''"
         and emp' = "employee1\<lparr>e_points := Some (Fin 100)\<rparr>"
         and cart' = "[cartItem1]" and tot' = "Fin 150" and nowMs = 1 and preply = "Some payReply"]
  have r: "requiredPoints rt0 (products exampleDb) (inrPerPoint rt0 exampleDb) [cartItem1] = Fin 150"
    "requiredPoints rt0 (products poorDb) (inrPerPoint rt0 poorDb) [cartItem1] = Fin 150"
    by (simp_all add: ex_inr ex_required poor_simps)
  have v1: "verifyCopay rt0 exampleCfg 2026 (Some paidReply) exampleDb exampleVerifyReq =
     (Fail 400 ''Sufficient points'', exampleDb)"
    using t1 ex_paid(1) a(1) ex_cart ex_selection ex_stock r(1) k p g(1,7) am(2) ex_inr
    by simp
  have v2: "createCopayOrder rt0 exampleCfg 1 (Some payReply) exampleDb exampleReq =
     (Fail 400 ''Sufficient points, use normal checkout'', None)"
    using t1 a(2) ex_cart ex_selection ex_stock r(1) p g(1) by simp
  have v3: "verifyCopay rt0 exampleCfg 2026 (Some overpaidReply) poorDb exampleVerifyReq =
     (AmountMismatch (Fin 100) (Fin 101), poorDb)"
    using t2 ex_overpaid(1) a'(1) poor_simps ex_stock r(2) p g am(1) by simp
  have v4: "snd (createCopayOrder rt0 exampleCfg 1 (Some payReply) poorDb exampleReq)
     = Some (Some (Fin 10000))"
    using t2 a'(2) poor_simps ex_stock r(2) p g ex_cfg by simp
  have v5: "\<forall>ords e. fst (verifyCopay rt0 exampleCfg 2026 (Some overpaidReply) poorDb exampleVerifyReq)
        \<noteq> OkOrders ords e"
    by (simp add: v3)
  show ?thesis
    using v1 v2 v3 v4 v5 ex_paid ex_overpaid(1) a(1) a'(1) p g am
    by (simp add: paidReply_def)
qed

text \<open>
  Claim C10. The commit of a points-only checkout that runs on a store from which a
  product \<open>pid\<close> of the cart has disappeared since the validation: the cart items of
  that product are skipped (no order, no stock write) and the other items are
  committed. When the new balance, the balance less the total computed over all cart
  items, is a value the integer column of the balance takes, the balance is reduced by
  that full total, the cart is cleared, and the response is the success response. When
  it is not (a total that is not a number, say), the update of the balance throws after
  the loop: the answer is the error 500, the orders and stock writes of the loop stay,
  and the balance and the cart are as before.
\<close>

theorem commit_skips_missing_product:
  "ordersValidate rt d req = Inr ctx \<and> authenticated d (r_token req) eid emp \<and>
   d' = d\<lparr>products := (products d)(pid := None)\<rparr> \<and>
   kept = filter (\<lambda>item. c_productId item \<noteq> pid) (getCartItems d eid) \<and>
   tot = requiredPoints rt (products d) (inrPerPoint rt d) (getCartItems d eid) \<and>
   rest = dbl_sub rt (pointsOr0 emp) tot \<and>
   mk = stamped (deliveryMethodOf (r_deliveryMethod req)) (r_deliveryAddress req) None None None
   \<longrightarrow>
     (storableInt rest \<longrightarrow>
        (\<exists>ords. ordersCommit rt year req ctx d' =
           (OkOrders ords (Some (emp\<lparr>e_points := Some rest\<rparr>)),
            afterCheckout rt year d' eid emp kept mk rest) \<and>
           map fst ords =
             expectedOrders rt year eid (inrPerPoint rt d) mk (products d')
               (yearCount year (orders d')) kept)) \<and>
     (\<not> storableInt rest \<longrightarrow>
        ordersCommit rt year req ctx d' =
          (Fail 500 ''Error creating orders'',
           d'\<lparr>products := stockAfter (products d') kept,
               orders := orders d' @
                 expectedOrders rt year eid (inrPerPoint rt d) mk (products d')
                   (yearCount year (orders d')) kept\<rparr>)) \<and>
     list_all (\<lambda>item. c_productId item \<noteq> pid) kept \<and>
     products (afterCheckout rt year d' eid emp kept mk rest) pid = None \<and>
     employees (afterCheckout rt year d' eid emp kept mk rest) eid
       = Some (emp\<lparr>e_points := Some rest\<rparr>) \<and>
     getCartItems (afterCheckout rt year d' eid emp kept mk rest) eid = []"
proof (intro impI)
  assume h: "ordersValidate rt d req = Inr ctx \<and> authenticated d (r_token req) eid emp \<and>
   d' = d\<lparr>products := (products d)(pid := None)\<rparr> \<and>
   kept = filter (\<lambda>item. c_productId item \<noteq> pid) (getCartItems d eid) \<and>
   tot = requiredPoints rt (products d) (inrPerPoint rt d) (getCartItems d eid) \<and>
   rest = dbl_sub rt (pointsOr0 emp) tot \<and>
   mk = stamped (deliveryMethodOf (r_deliveryMethod req)) (r_deliveryAddress req) None None None"
  then obtain eid1 emp1 where au: "authEmployee d (r_token req) ''No token provided'' = Inr (eid1, emp1)"
    and cc: "cartChecks rt d eid1 emp1 = Inr ctx"
    by (auto simp: ordersValidate_Inr_iff)
  have "authenticated d (r_token req) eid1 emp1" using au authenticated_iff by blast
  then have e: "eid1 = eid" "emp1 = emp" using h authenticated_unique by blast+
  have ctx: "ctx = \<lparr> x_employeeId = eid, x_cartItems = getCartItems d eid,
             x_inrPerPoint = inrPerPoint rt d, x_total = tot, x_userPoints = pointsOr0 emp \<rparr>"
    and so: "stockOk (products d) (getCartItems d eid)"
    using cc h unfolding e by (simp_all add: cartChecks_Inr_iff)
  have d': "d' = d\<lparr>products := (products d)(pid := None)\<rparr>" using h by simp
  have mk: "pointsMeta req = mk" using h by (simp add: pointsMeta_stamped)
  have rest: "dbl_sub rt (pointsOr0 emp) tot = rest" using h by simp
  have kept: "filter (present (products d')) (getCartItems d eid) = kept"
    using h filter_present_deleted[OF stockOk_present[OF so], of pid] by (simp add: d')
  define ctx' where "ctx' = \<lparr> x_employeeId = eid, x_cartItems = kept,
             x_inrPerPoint = inrPerPoint rt d, x_total = tot, x_userPoints = pointsOr0 emp \<rparr>"
  have sel: "x_employeeId ctx' = eid" "x_cartItems ctx' = kept"
    "x_inrPerPoint ctx' = inrPerPoint rt d" "x_total ctx' = tot" "x_userPoints ctx' = pointsOr0 emp"
    by (simp_all add: ctx'_def)
  have oc: "ordersCommit rt year req ctx d' = ordersCommit rt year req ctx' d'"
    using ordersCommit_filter[of rt year req ctx d'] by (simp add: ctx kept ctx'_def)
  have pk: "list_all (present (products d')) (x_cartItems ctx')"
    unfolding sel kept[symmetric] by (rule present_filter)
  have em: "employees d' (x_employeeId ctx') = Some emp"
    using h by (auto simp: sel d' authenticated_def split: option.splits)
  have inr: "inrPerPoint rt d' = inrPerPoint rt d" by (simp add: d' inrPerPoint_def)
  have mo: "map fst (fst (commitLoop rt year eid (inrPerPoint rt d) mk kept d')) =
          expectedOrders rt year eid (inrPerPoint rt d) mk (products d')
            (yearCount year (orders d')) kept"
    using commitLoop_orders[OF pk, of rt year eid "inrPerPoint rt d" mk] by (simp add: sel)
  have c1: "storableInt rest \<longrightarrow>
        (\<exists>ords. ordersCommit rt year req ctx d' =
           (OkOrders ords (Some (emp\<lparr>e_points := Some rest\<rparr>)),
            afterCheckout rt year d' eid emp kept mk rest) \<and>
           map fst ords =
             expectedOrders rt year eid (inrPerPoint rt d) mk (products d')
               (yearCount year (orders d')) kept)"
  proof
    assume s: "storableInt rest"
    then have s': "storableInt (dbl_sub rt (x_userPoints ctx') (x_total ctx'))"
      by (simp add: sel rest)
    have "ordersCommit rt year req ctx d' =
           (OkOrders (fst (commitLoop rt year eid (inrPerPoint rt d) mk kept d'))
              (Some (emp\<lparr>e_points := Some rest\<rparr>)),
            afterCheckout rt year d' eid emp kept mk rest)"
      unfolding oc ordersCommit_done[OF pk em s', of year req]
      by (simp add: sel rest mk afterCheckout_def inr)
    then show "\<exists>ords. ordersCommit rt year req ctx d' =
           (OkOrders ords (Some (emp\<lparr>e_points := Some rest\<rparr>)),
            afterCheckout rt year d' eid emp kept mk rest) \<and>
           map fst ords =
             expectedOrders rt year eid (inrPerPoint rt d) mk (products d')
               (yearCount year (orders d')) kept"
      using mo by blast
  qed
  have c2: "\<not> storableInt rest \<longrightarrow>
        ordersCommit rt year req ctx d' =
          (Fail 500 ''Error creating orders'',
           d'\<lparr>products := stockAfter (products d') kept,
               orders := orders d' @
                 expectedOrders rt year eid (inrPerPoint rt d) mk (products d')
                   (yearCount year (orders d')) kept\<rparr>)"
  proof
    assume s: "\<not> storableInt rest"
    then have s': "\<not> storableInt (dbl_sub rt (x_userPoints ctx') (x_total ctx'))"
      by (simp add: sel rest)
    show "ordersCommit rt year req ctx d' =
          (Fail 500 ''Error creating orders'',
           d'\<lparr>products := stockAfter (products d') kept,
               orders := orders d' @
                 expectedOrders rt year eid (inrPerPoint rt d) mk (products d')
                   (yearCount year (orders d')) kept\<rparr>)"
      unfolding oc ordersCommit_refused[OF pk s', of year req]
      by (simp add: sel mk)
  qed
  have l: "list_all (\<lambda>item. c_productId item \<noteq> pid) kept"
    using h by (simp add: list_all_iff)
  have pn: "products (afterCheckout rt year d' eid emp kept mk rest) pid = None"
    by (simp add: afterCheckout_def stockAfter_def d')
  have en: "employees (afterCheckout rt year d' eid emp kept mk rest) eid
       = Some (emp\<lparr>e_points := Some rest\<rparr>)"
    by (simp add: afterCheckout_def)
  show "(storableInt rest \<longrightarrow>
        (\<exists>ords. ordersCommit rt year req ctx d' =
           (OkOrders ords (Some (emp\<lparr>e_points := Some rest\<rparr>)),
            afterCheckout rt year d' eid emp kept mk rest) \<and>
           map fst ords =
             expectedOrders rt year eid (inrPerPoint rt d) mk (products d')
               (yearCount year (orders d')) kept)) \<and>
     (\<not> storableInt rest \<longrightarrow>
        ordersCommit rt year req ctx d' =
          (Fail 500 ''Error creating orders'',
           d'\<lparr>products := stockAfter (products d') kept,
               orders := orders d' @
                 expectedOrders rt year eid (inrPerPoint rt d) mk (products d')
                   (yearCount year (orders d')) kept\<rparr>)) \<and>
     list_all (\<lambda>item. c_productId item \<noteq> pid) kept \<and>
     products (afterCheckout rt year d' eid emp kept mk rest) pid = None \<and>
     employees (afterCheckout rt year d' eid emp kept mk rest) eid
       = Some (emp\<lparr>e_points := Some rest\<rparr>) \<and>
     getCartItems (afterCheckout rt year d' eid emp kept mk rest) eid = []"
    by (intro conjI) (rule c1 c2 l pn en getCartItems_afterCheckout)+
qed

theorem commit_skips_missing_product_witness:
  "ordersValidate rt0 exampleDb exampleReq =
     Inr \<lparr> x_employeeId = ''e1'', x_cartItems = [cartItem1], x_inrPerPoint = Fin 2,
           x_total = Fin 150, x_userPoints = Fin 500 \<rparr> \<and>
   authenticated exampleDb (r_token exampleReq) ''e1'' employee1 \<and>
   filter (\<lambda>item. c_productId item \<noteq> ''p2'') (getCartItems exampleDb ''e1'') = [] \<and>
   requiredPoints rt0 (products exampleDb) (inrPerPoint rt0 exampleDb) (getCartItems exampleDb ''e1'')
     = Fin 150 \<and>
   dbl_sub rt0 (pointsOr0 employee1) (Fin 150) = Fin 350 \<and> storableInt (Fin 350) \<and>
   ordersCommit rt0 2026 exampleReq
       \<lparr> x_employeeId = ''e1'', x_cartItems = [cartItem1], x_inrPerPoint = Fin 2,
         x_total = Fin 150, x_userPoints = Fin 500 \<rparr>
       (exampleDb\<lparr>products := (products exampleDb)(''p2'' := None)\<rparr>) =
     (OkOrders [] (Some (employee1\<lparr>e_points := Some (Fin 350)\<rparr>)),
      afterCheckout rt0 2026 (exampleDb\<lparr>products := (products exampleDb)(''p2'' := None)\<rparr>)
        ''e1'' employee1 [] (stamped ''office'' None None None None) (Fin 350)) \<and>
   orders (afterCheckout rt0 2026 (exampleDb\<lparr>products := (products exampleDb)(''p2'' := None)\<rparr>)
        ''e1'' employee1 [] (stamped ''office'' None None None None) (Fin 350)) = [] \<and>
   employees (afterCheckout rt0 2026 (exampleDb\<lparr>products := (products exampleDb)(''p2'' := None)\<rparr>)
        ''e1'' employee1 [] (stamped ''office'' None None None None) (Fin 350)) ''e1''
     = Some (employee1\<lparr>e_points := Some (Fin 350)\<rparr>)"
proof -
  let ?mk = "stamped ''office'' None None None None"
  have a: "authenticated exampleDb (r_token exampleReq) ''e1'' employee1"
    using ex_auth by (simp add: exampleReq_def)
  have k: "filter (\<lambda>item. c_productId item \<noteq> ''p2'') (getCartItems exampleDb ''e1'') = []"
    by (simp add: ex_cart cartItem1_def)
  have r: "requiredPoints rt0 (products exampleDb) (inrPerPoint rt0 exampleDb) (getCartItems exampleDb ''e1'')
     = Fin 150"
    by (simp add: ex_cart ex_inr ex_required)
  have p: "dbl_sub rt0 (pointsOr0 employee1) (Fin 150) = Fin 350"
    by (simp add: pointsOr0_def employee1_def ex_rest)
  have m: "stamped (deliveryMethodOf (r_deliveryMethod exampleReq)) (r_deliveryAddress exampleReq)
              None None None = ?mk"
    by (simp add: exampleReq_def deliveryMethodOf_def)
  note t = commit_skips_missing_product
      [where rt = rt0 and d = exampleDb and req = exampleReq
         and ctx = "\<lparr> x_employeeId = ''e1'', x_cartItems = [cartItem1], x_inrPerPoint = Fin 2,
                       x_total = Fin 150, x_userPoints = Fin 500 \<rparr>"
         and eid = "''e1''" and emp = employee1
         and d' = "exampleDb\<lparr>products := (products exampleDb)(''p2'' := None)\<rparr>"
         and pid = "''p2''" and kept = "[]" and tot = "Fin 150" and year = 2026
         and rest = "Fin 350" and mk = ?mk]
  have c: "ordersCommit rt0 2026 exampleReq
       \<lparr> x_employeeId = ''e1'', x_cartItems = [cartItem1], x_inrPerPoint = Fin 2,
         x_total = Fin 150, x_userPoints = Fin 500 \<rparr>
       (exampleDb\<lparr>products := (products exampleDb)(''p2'' := None)\<rparr>) =
     (OkOrders [] (Some (employee1\<lparr>e_points := Some (Fin 350)\<rparr>)),
      afterCheckout rt0 2026 (exampleDb\<lparr>products := (products exampleDb)(''p2'' := None)\<rparr>)
        ''e1'' employee1 [] ?mk (Fin 350))"
    using t ex_validate a k r p m ex_storable by auto
  have o: "orders (afterCheckout rt0 2026 (exampleDb\<lparr>products := (products exampleDb)(''p2'' := None)\<rparr>)
        ''e1'' employee1 [] ?mk (Fin 350)) = []"
    by (simp add: afterCheckout_def exampleDb_def)
  have e: "employees (afterCheckout rt0 2026 (exampleDb\<lparr>products := (products exampleDb)(''p2'' := None)\<rparr>)
        ''e1'' employee1 [] ?mk (Fin 350)) ''e1''
     = Some (employee1\<lparr>e_points := Some (Fin 350)\<rparr>)"
    by (simp add: afterCheckout_def)
  show ?thesis using ex_validate a k r p c o e ex_storable by simp
qed

section \<open>Claims about bulk buy, identifiers and campaign limits\<close>

text \<open>
  Claim C8. A bulk-buy submission, by cart checkout (\<open>bulkbuyCheckout\<close>) or by direct
  request (\<open>bulkbuyRequest\<close>), leaves every employee (so every points balance), every
  product (so every stock), the orders and the ordinary cart as they were. Either it
  fails and the store is unchanged, or it appends exactly one request to the bulk-buy
  requests: the request has status \<open>pending_approval\<close>, carries the snapshot of the
  items with their resolved unit prices and line totals, and the total with two
  decimals; products and sums are those of the run time. The cart variant also removes
  the employee's bulk-buy cart rows; the direct request leaves the bulk-buy cart alone.
\<close>

theorem bulk_buy_leaves_points_and_stock:
  "employees (snd (bulkbuyCheckout rt year d req)) = employees d \<and>
   products (snd (bulkbuyCheckout rt year d req)) = products d \<and>
   orders (snd (bulkbuyCheckout rt year d req)) = orders d \<and>
   cartItems (snd (bulkbuyCheckout rt year d req)) = cartItems d \<and>
   ((\<exists>n m. bulkbuyCheckout rt year d req = (Fail n m, d)) \<or>
    (\<exists>eid emp request.
       authenticated d (q_token req) eid emp \<and>
       request = expectedRequest rt year (length (bulkBuyRequests d)) eid
                   (deliveryMethodOf (q_deliveryMethod req)) (q_deliveryAddress req)
                   (q_requesterNote req)
                   (bulkSnapshot rt (products d) (getBulkBuyCartItems d eid))
                   (foldl (dbl_add rt) (Fin 0)
                      (map s_lineTotal (bulkSnapshot rt (products d) (getBulkBuyCartItems d eid)))) \<and>
       bulkbuyCheckout rt year d req =
         (OkBulkRequest request,
          d\<lparr>bulkBuyRequests := bulkBuyRequests d @ [request],
            bulkBuyCartItems := filter (\<lambda>c. bc_employeeId c \<noteq> eid) (bulkBuyCartItems d)\<rparr>) \<and>
       bb_status request = ''pending_approval'' \<and>
       bb_items request = bulkSnapshot rt (products d) (getBulkBuyCartItems d eid) \<and>
       getBulkBuyCartItems (snd (bulkbuyCheckout rt year d req)) eid = []))
   \<and>
   employees (snd (bulkbuyRequest rt year d dreq)) = employees d \<and>
   products (snd (bulkbuyRequest rt year d dreq)) = products d \<and>
   orders (snd (bulkbuyRequest rt year d dreq)) = orders d \<and>
   cartItems (snd (bulkbuyRequest rt year d dreq)) = cartItems d \<and>
   bulkBuyCartItems (snd (bulkbuyRequest rt year d dreq)) = bulkBuyCartItems d \<and>
   ((\<exists>n m. bulkbuyRequest rt year d dreq = (Fail n m, d)) \<or>
    (\<exists>eid emp pid p quantity snap request.
       authenticated d (dq_token dreq) eid emp \<and>
       dq_productId dreq = Some pid \<and> products d pid = Some p \<and>
       quantity = (case dq_quantity dreq of None \<Rightarrow> Fin 1 | Some q \<Rightarrow> q) \<and>
       s_productId snap = pid \<and> s_quantity snap = intOf quantity \<and>
       s_unitPrice snap = getUnitPriceForQty rt p quantity \<and>
       s_lineTotal snap = Number_str rt (toFixed2 rt (dbl_mul rt (s_unitPrice snap) quantity)) \<and>
       request = expectedRequest rt year (length (bulkBuyRequests d)) eid
                   (deliveryMethodOf (dq_deliveryMethod dreq))
                   (if deliveryMethodOf (dq_deliveryMethod dreq) = ''delivery''
                    then dq_deliveryAddress dreq else None)
                   (dq_requesterNote dreq) [snap] (s_lineTotal snap) \<and>
       bulkbuyRequest rt year d dreq =
         (OkBulkRequest request, d\<lparr>bulkBuyRequests := bulkBuyRequests d @ [request]\<rparr>) \<and>
       bb_status request = ''pending_approval'' \<and> bb_items request = [snap]))"
proof -
  obtain resp d1 where c: "bulkbuyCheckout rt year d req = (resp, d1)"
    by (cases "bulkbuyCheckout rt year d req")
  obtain resp2 d2 where r: "bulkbuyRequest rt year d dreq = (resp2, d2)"
    by (cases "bulkbuyRequest rt year d dreq")
  let ?C = "(\<exists>n m. bulkbuyCheckout rt year d req = (Fail n m, d)) \<or>
    (\<exists>eid emp request.
       authenticated d (q_token req) eid emp \<and>
       request = expectedRequest rt year (length (bulkBuyRequests d)) eid
                   (deliveryMethodOf (q_deliveryMethod req)) (q_deliveryAddress req)
                   (q_requesterNote req)
                   (bulkSnapshot rt (products d) (getBulkBuyCartItems d eid))
                   (foldl (dbl_add rt) (Fin 0)
                      (map s_lineTotal (bulkSnapshot rt (products d) (getBulkBuyCartItems d eid)))) \<and>
       bulkbuyCheckout rt year d req =
         (OkBulkRequest request,
          d\<lparr>bulkBuyRequests := bulkBuyRequests d @ [request],
            bulkBuyCartItems := filter (\<lambda>c. bc_employeeId c \<noteq> eid) (bulkBuyCartItems d)\<rparr>) \<and>
       bb_status request = ''pending_approval'' \<and>
       bb_items request = bulkSnapshot rt (products d) (getBulkBuyCartItems d eid) \<and>
       getBulkBuyCartItems (snd (bulkbuyCheckout rt year d req)) eid = [])"
  let ?R = "(\<exists>n m. bulkbuyRequest rt year d dreq = (Fail n m, d)) \<or>
    (\<exists>eid emp pid p quantity snap request.
       authenticated d (dq_token dreq) eid emp \<and>
       dq_productId dreq = Some pid \<and> products d pid = Some p \<and>
       quantity = (case dq_quantity dreq of None \<Rightarrow> Fin 1 | Some q \<Rightarrow> q) \<and>
       s_productId snap = pid \<and> s_quantity snap = intOf quantity \<and>
       s_unitPrice snap = getUnitPriceForQty rt p quantity \<and>
       s_lineTotal snap = Number_str rt (toFixed2 rt (dbl_mul rt (s_unitPrice snap) quantity)) \<and>
       request = expectedRequest rt year (length (bulkBuyRequests d)) eid
                   (deliveryMethodOf (dq_deliveryMethod dreq))
                   (if deliveryMethodOf (dq_deliveryMethod dreq) = ''delivery''
                    then dq_deliveryAddress dreq else None)
                   (dq_requesterNote dreq) [snap] (s_lineTotal snap) \<and>
       bulkbuyRequest rt year d dreq =
         (OkBulkRequest request, d\<lparr>bulkBuyRequests := bulkBuyRequests d @ [request]\<rparr>) \<and>
       bb_status request = ''pending_approval'' \<and> bb_items request = [snap])"
  have C: ?C
  proof (rule disjE[OF bulkbuyCheckout_cases[OF c]])
    assume "\<exists>n m. resp = Fail n m \<and> d1 = d"
    then show ?thesis using c by blast
  next
    assume "\<exists>eid emp. authenticated d (q_token req) eid emp \<and> bulkBuyEligible d emp \<and>
            getBulkBuyCartItems d eid \<noteq> [] \<and>
            list_all (bulkItemInStock (products d))
              (filter (bulkItemValid (products d)) (getBulkBuyCartItems d eid)) \<and>
            bulkSnapshot rt (products d) (getBulkBuyCartItems d eid) \<noteq> [] \<and>
            resp = OkBulkRequest
                     (expectedRequest rt year (length (bulkBuyRequests d)) eid
                        (deliveryMethodOf (q_deliveryMethod req)) (q_deliveryAddress req)
                        (q_requesterNote req)
                        (bulkSnapshot rt (products d) (getBulkBuyCartItems d eid))
                        (foldl (dbl_add rt) (Fin 0)
                           (map s_lineTotal (bulkSnapshot rt (products d) (getBulkBuyCartItems d eid))))) \<and>
            d1 = d\<lparr>bulkBuyRequests := bulkBuyRequests d @
                      [expectedRequest rt year (length (bulkBuyRequests d)) eid
                        (deliveryMethodOf (q_deliveryMethod req)) (q_deliveryAddress req)
                        (q_requesterNote req)
                        (bulkSnapshot rt (products d) (getBulkBuyCartItems d eid))
                        (foldl (dbl_add rt) (Fin 0)
                           (map s_lineTotal (bulkSnapshot rt (products d) (getBulkBuyCartItems d eid))))],
                   bulkBuyCartItems := filter (\<lambda>c. bc_employeeId c \<noteq> eid) (bulkBuyCartItems d)\<rparr>"
    then obtain eid emp where a: "authenticated d (q_token req) eid emp"
      and e: "resp = OkBulkRequest
                     (expectedRequest rt year (length (bulkBuyRequests d)) eid
                        (deliveryMethodOf (q_deliveryMethod req)) (q_deliveryAddress req)
                        (q_requesterNote req)
                        (bulkSnapshot rt (products d) (getBulkBuyCartItems d eid))
                        (foldl (dbl_add rt) (Fin 0)
                           (map s_lineTotal (bulkSnapshot rt (products d) (getBulkBuyCartItems d eid)))))"
      and f: "d1 = d\<lparr>bulkBuyRequests := bulkBuyRequests d @
                      [expectedRequest rt year (length (bulkBuyRequests d)) eid
                        (deliveryMethodOf (q_deliveryMethod req)) (q_deliveryAddress req)
                        (q_requesterNote req)
                        (bulkSnapshot rt (products d) (getBulkBuyCartItems d eid))
                        (foldl (dbl_add rt) (Fin 0)
                           (map s_lineTotal (bulkSnapshot rt (products d) (getBulkBuyCartItems d eid))))],
                   bulkBuyCartItems := filter (\<lambda>c. bc_employeeId c \<noteq> eid) (bulkBuyCartItems d)\<rparr>"
      by blast
    define rq where "rq = expectedRequest rt year (length (bulkBuyRequests d)) eid
                   (deliveryMethodOf (q_deliveryMethod req)) (q_deliveryAddress req)
                   (q_requesterNote req)
                   (bulkSnapshot rt (products d) (getBulkBuyCartItems d eid))
                   (foldl (dbl_add rt) (Fin 0)
                      (map s_lineTotal (bulkSnapshot rt (products d) (getBulkBuyCartItems d eid))))"
    have k: "bulkbuyCheckout rt year d req =
         (OkBulkRequest rq,
          d\<lparr>bulkBuyRequests := bulkBuyRequests d @ [rq],
            bulkBuyCartItems := filter (\<lambda>c. bc_employeeId c \<noteq> eid) (bulkBuyCartItems d)\<rparr>)"
      unfolding c e f rq_def ..
    have g: "getBulkBuyCartItems (snd (bulkbuyCheckout rt year d req)) eid = []"
      unfolding k snd_conv by (simp add: getBulkBuyCartItems_def)
    have s1: "bb_status rq = ''pending_approval''"
      and s2: "bb_items rq = bulkSnapshot rt (products d) (getBulkBuyCartItems d eid)"
      unfolding rq_def by (simp_all add: expectedRequest_def)
    show ?thesis
      apply (rule disjI2)
      apply (rule exI[of _ eid], rule exI[of _ emp], rule exI[of _ rq])
      apply (intro conjI)
           apply (rule a)
          apply (rule rq_def)
         apply (rule k)
        apply (rule s1)
       apply (rule s2)
      apply (rule g)
      done
  qed
  have R: ?R
  proof (rule disjE[OF bulkbuyRequest_cases[OF r]])
    assume "\<exists>n m. resp2 = Fail n m \<and> d2 = d"
    then show ?thesis using r by blast
  next
    assume "\<exists>eid emp pid p quantity snap.
            authenticated d (dq_token dreq) eid emp \<and> bulkBuyEligible d emp \<and>
            dq_productId dreq = Some pid \<and> products d pid = Some p \<and> p_bulkBuy p \<and>
            quantity = (case dq_quantity dreq of None \<Rightarrow> Fin 1 | Some q \<Rightarrow> q) \<and>
            js_isInteger quantity \<and> intOf quantity \<le> stockOr0 p \<and>
            s_productId snap = pid \<and> s_quantity snap = intOf quantity \<and>
            s_unitPrice snap = getUnitPriceForQty rt p quantity \<and>
            s_lineTotal snap = Number_str rt (toFixed2 rt (dbl_mul rt (s_unitPrice snap) quantity)) \<and>
            resp2 = OkBulkRequest
                     (expectedRequest rt year (length (bulkBuyRequests d)) eid
                        (deliveryMethodOf (dq_deliveryMethod dreq))
                        (if deliveryMethodOf (dq_deliveryMethod dreq) = ''delivery''
                         then dq_deliveryAddress dreq else None)
                        (dq_requesterNote dreq) [snap] (s_lineTotal snap)) \<and>
            d2 = d\<lparr>bulkBuyRequests := bulkBuyRequests d @
                      [expectedRequest rt year (length (bulkBuyRequests d)) eid
                        (deliveryMethodOf (dq_deliveryMethod dreq))
                        (if deliveryMethodOf (dq_deliveryMethod dreq) = ''delivery''
                         then dq_deliveryAddress dreq else None)
                        (dq_requesterNote dreq) [snap] (s_lineTotal snap)]\<rparr>"
    then obtain eid emp pid p quantity snap where a: "authenticated d (dq_token dreq) eid emp"
      and h1: "dq_productId dreq = Some pid" and h2: "products d pid = Some p"
      and h3: "quantity = (case dq_quantity dreq of None \<Rightarrow> Fin 1 | Some q \<Rightarrow> q)"
      and h4: "s_productId snap = pid" and h5: "s_quantity snap = intOf quantity"
      and h6: "s_unitPrice snap = getUnitPriceForQty rt p quantity"
      and h7: "s_lineTotal snap = Number_str rt (toFixed2 rt (dbl_mul rt (s_unitPrice snap) quantity))"
      and e: "resp2 = OkBulkRequest
                     (expectedRequest rt year (length (bulkBuyRequests d)) eid
                        (deliveryMethodOf (dq_deliveryMethod dreq))
                        (if deliveryMethodOf (dq_deliveryMethod dreq) = ''delivery''
                         then dq_deliveryAddress dreq else None)
                        (dq_requesterNote dreq) [snap] (s_lineTotal snap))"
      and f: "d2 = d\<lparr>bulkBuyRequests := bulkBuyRequests d @
                      [expectedRequest rt year (length (bulkBuyRequests d)) eid
                        (deliveryMethodOf (dq_deliveryMethod dreq))
                        (if deliveryMethodOf (dq_deliveryMethod dreq) = ''delivery''
                         then dq_deliveryAddress dreq else None)
                        (dq_requesterNote dreq) [snap] (s_lineTotal snap)]\<rparr>"
      by blast
    define rq where "rq = expectedRequest rt year (length (bulkBuyRequests d)) eid
                   (deliveryMethodOf (dq_deliveryMethod dreq))
                   (if deliveryMethodOf (dq_deliveryMethod dreq) = ''delivery''
                    then dq_deliveryAddress dreq else None)
                   (dq_requesterNote dreq) [snap] (s_lineTotal snap)"
    have k: "bulkbuyRequest rt year d dreq =
         (OkBulkRequest rq, d\<lparr>bulkBuyRequests := bulkBuyRequests d @ [rq]\<rparr>)"
      unfolding r e f rq_def ..
    have s1: "bb_status rq = ''pending_approval''" and s2: "bb_items rq = [snap]"
      unfolding rq_def by (simp_all add: expectedRequest_def)
    show ?thesis
      apply (rule disjI2)
      apply (rule exI[of _ eid], rule exI[of _ emp], rule exI[of _ pid], rule exI[of _ p],
             rule exI[of _ quantity], rule exI[of _ snap], rule exI[of _ rq])
      apply (intro conjI)
                 apply (rule a)
                apply (rule h1)
               apply (rule h2)
              apply (rule h3)
             apply (rule h4)
            apply (rule h5)
           apply (rule h6)
          apply (rule h7)
         apply (rule rq_def)
        apply (rule k)
       apply (rule s1)
      apply (rule s2)
      done
  qed
  have dc: "d1 = d \<or> (\<exists>rs bs. d1 = d\<lparr>bulkBuyRequests := rs, bulkBuyCartItems := bs\<rparr>)"
    using bulkbuyCheckout_cases[OF c] by blast
  have dr: "d2 = d \<or> (\<exists>rs. d2 = d\<lparr>bulkBuyRequests := rs\<rparr>)"
    using bulkbuyRequest_cases[OF r] by blast
  have c1: "employees (snd (bulkbuyCheckout rt year d req)) = employees d"
    and c2: "products (snd (bulkbuyCheckout rt year d req)) = products d"
    and c3: "orders (snd (bulkbuyCheckout rt year d req)) = orders d"
    and c4: "cartItems (snd (bulkbuyCheckout rt year d req)) = cartItems d"
    unfolding c snd_conv using dc by auto
  have r1: "employees (snd (bulkbuyRequest rt year d dreq)) = employees d"
    and r2: "products (snd (bulkbuyRequest rt year d dreq)) = products d"
    and r3: "orders (snd (bulkbuyRequest rt year d dreq)) = orders d"
    and r4: "cartItems (snd (bulkbuyRequest rt year d dreq)) = cartItems d"
    and r5: "bulkBuyCartItems (snd (bulkbuyRequest rt year d dreq)) = bulkBuyCartItems d"
    unfolding r snd_conv using dr by auto
  show ?thesis
    apply (intro conjI)
              apply (rule c1)
             apply (rule c2)
            apply (rule c3)
           apply (rule c4)
          apply (rule C)
         apply (rule r1)
        apply (rule r2)
       apply (rule r3)
      apply (rule r4)
     apply (rule r5)
    apply (rule R)
    done
qed

theorem bulk_buy_leaves_points_and_stock_witness:
  "bulkbuyCheckout rt0 2026 bulkDb bulkReq =
     (OkBulkRequest exampleRequest,
      bulkDb\<lparr>bulkBuyRequests := [exampleRequest], bulkBuyCartItems := []\<rparr>) \<and>
   employees (snd (bulkbuyCheckout rt0 2026 bulkDb bulkReq)) ''e1'' = Some employee1 \<and>
   e_points employee1 = Some (Fin 500) \<and>
   products (snd (bulkbuyCheckout rt0 2026 bulkDb bulkReq)) ''p1'' = Some exampleProduct \<and>
   bulkbuyRequest rt0 2026 bulkDb directReq =
     (OkBulkRequest exampleRequest, bulkDb\<lparr>bulkBuyRequests := [exampleRequest]\<rparr>) \<and>
   employees (snd (bulkbuyRequest rt0 2026 bulkDb directReq)) ''e1'' = Some employee1 \<and>
   products (snd (bulkbuyRequest rt0 2026 bulkDb directReq)) ''p1'' = Some exampleProduct \<and>
   bulkBuyCartItems (snd (bulkbuyRequest rt0 2026 bulkDb directReq)) = [bulkItem1] \<and>
   bb_status exampleRequest = ''pending_approval'' \<and> bb_totalAmount exampleRequest = ''800.00''"
proof -
  note t = bulk_buy_leaves_points_and_stock
      [where rt = rt0 and year = 2026 and d = bulkDb and req = bulkReq and dreq = directReq]
  have e: "employees bulkDb ''e1'' = Some employee1" "products bulkDb ''p1'' = Some exampleProduct"
    "bulkBuyCartItems bulkDb = [bulkItem1]" "e_points employee1 = Some (Fin 500)"
    by (simp_all add: bulkDb_def exampleDb_def employee1_def)
  have x: "bb_status exampleRequest = ''pending_approval''" "bb_totalAmount exampleRequest = ''800.00''"
    by (simp_all add: exampleRequest_def)
  have t1: "employees (snd (bulkbuyCheckout rt0 2026 bulkDb bulkReq)) = employees bulkDb"
    and t2: "products (snd (bulkbuyCheckout rt0 2026 bulkDb bulkReq)) = products bulkDb"
    and t3: "employees (snd (bulkbuyRequest rt0 2026 bulkDb directReq)) = employees bulkDb"
    and t4: "products (snd (bulkbuyRequest rt0 2026 bulkDb directReq)) = products bulkDb"
    and t5: "bulkBuyCartItems (snd (bulkbuyRequest rt0 2026 bulkDb directReq)) = bulkBuyCartItems bulkDb"
    using t by blast+
  show ?thesis
    unfolding t1 t2 t3 t4 t5 e x using ex_bulkCheckout ex_bulkRequest by simp
qed

text \<open>
  Claim C9. \<open>createOrder\<close> builds \<open>ORD-YYYY-NNN\<close> from the number of orders of the current
  year plus one. \<open>createBulkBuyRequest\<close> builds \<open>BBR-YYYY-NNNN\<close> from the number of all
  stored requests plus one, whatever their year: with one request of 2025 in the store
  and none of 2026, the first request of 2026 is \<open>BBR-2026-0002\<close>, where the count
  scoped to 2026 gives \<open>BBR-2026-0001\<close>. With one order of 2025 in the store the first
  order of 2026 is \<open>ORD-2026-001\<close>.
\<close>

theorem bulk_request_id_counts_all_years:
  "o_orderId (fst (createOrder year d orderData)) =
     ''ORD-'' @ dec_of_nat year @ ''-'' @ padStart 3 (dec_of_nat (yearCount year (orders d) + 1)) \<and>
   bb_requestId (fst (createBulkBuyRequest rt year d input)) =
     ''BBR-'' @ dec_of_nat year @ ''-'' @ padStart 4 (dec_of_nat (length (bulkBuyRequests d) + 1)) \<and>
   bulkBuyRequests oldBulkDb = [oldRequest] \<and> bb_createdYear oldRequest = 2025 \<and>
   length (filter (\<lambda>r. bb_createdYear r = 2026) (bulkBuyRequests oldBulkDb)) = 0 \<and>
   bb_requestId (fst (createBulkBuyRequest rt0 2026 oldBulkDb exampleInsert)) = ''BBR-2026-0002'' \<and>
   orders limitedDb = [oldOrder] \<and> o_orderYear oldOrder = 2025 \<and>
   o_orderId (fst (createOrder 2026 limitedDb exampleInsertOrder)) = ''ORD-2026-001''"
proof -
  have b: "bulkBuyRequests oldBulkDb = [oldRequest]" "bb_createdYear oldRequest = 2025"
    by (simp_all add: oldBulkDb_def oldRequest_def)
  have o: "orders limitedDb = [oldOrder]" "o_orderYear oldOrder = 2025"
    by (simp_all add: limitedDb_def oldOrder_def)
  have n: "length (filter (\<lambda>r. bb_createdYear r = 2026) (bulkBuyRequests oldBulkDb)) = 0"
    unfolding b(1) by (simp add: b(2))
  have l: "length (bulkBuyRequests oldBulkDb) + 1 = 1 + 1" unfolding b(1) by simp
  have y: "yearCount 2026 (orders limitedDb) + 1 = 0 + 1"
    unfolding o(1) yearCount_def by (simp add: o(2))
  have e1: "bb_requestId (fst (createBulkBuyRequest rt0 2026 oldBulkDb exampleInsert)) = ''BBR-2026-0002''"
    unfolding createBulkBuyRequest_requestId l ex_digits ex_pad
    by simp
  have e2: "o_orderId (fst (createOrder 2026 limitedDb exampleInsertOrder)) = ''ORD-2026-001''"
    unfolding createOrder_orderId y ex_digits ex_pad
    by simp
  show ?thesis
    apply (intro conjI)
            apply (rule createOrder_orderId)
           apply (rule createBulkBuyRequest_requestId)
          apply (rule b(1))
         apply (rule b(2))
        apply (rule n)
       apply (rule e1)
      apply (rule o(1))
     apply (rule o(2))
    apply (rule e2)
    done
qed

text \<open>
  Claim C3. Against the claim, the quantity update of a cart row
  (\<^verbatim>\<open>PUT /api/cart/:id\<close>, \<open>campaignCheckPut\<close>) infers campaign membership from the
  product-to-campaign association. In \<open>campaignDb\<close> campaign \<open>k1\<close> (\<open>Diwali\<close>) is active,
  has the cap 2 and contains product \<open>p2\<close>; employee \<open>e1\<close> has one order of two units of
  \<open>p2\<close> that carries no campaign id, and the cart row \<open>c1\<close>, one unit of \<open>p2\<close> for
  campaign \<open>k1\<close>. Updating \<open>c1\<close> to quantity 2: the usage of the claim, by explicit
  campaign id and without the row being updated, is 0, so the claim allows the request
  (\<open>0 + 2 \<le> 2\<close>); the handler counts the order by its product (usage 2) and rejects,
  naming the campaign and the cap. The add-to-cart check (\<open>campaignCheckPost\<close>) counts by
  explicit campaign id only, as the claim says: its usage is 1, that of the claim, and
  one more unit for \<open>k1\<close> passes.
\<close>

theorem campaign_update_counts_by_product:
  "campaigns campaignDb ''k1'' = Some campaign1 \<and> cmp_isActive campaign1 \<and>
   cmp_maxProductsPerUser campaign1 = Some 2 \<and> cmp_name campaign1 = ''Diwali'' \<and>
   getCampaignProducts campaignDb ''k1'' = [''p2''] \<and>
   getOrdersByEmployeeId campaignDb ''e1'' = [legacyOrder] \<and>
   o_campaignId legacyOrder = None \<and> o_productId legacyOrder = ''p2'' \<and>
   o_quantity legacyOrder = Some 2 \<and>
   getCartItems campaignDb ''e1'' = [campaignItem] \<and>
   getCartItem campaignDb ''c1'' = Some campaignItem \<and>
   c_employeeId campaignItem = ''e1'' \<and> c_productId campaignItem = ''p2'' \<and>
   c_campaignId campaignItem = Some ''k1'' \<and> c_quantity campaignItem = 1 \<and>
   products campaignDb ''p2'' = Some penProduct \<and> stockOr0 penProduct = 10 \<and>
   campaignUsage campaignDb ''e1'' ''k1'' (Some ''c1'') = 0 \<and>
   campaignAllows campaignDb ''e1'' ''k1'' campaign1 (Some ''c1'') 2 \<and>
   usagePut campaignDb campaignItem ''k1'' = 2 \<and>
   campaignCheckPut campaignDb campaignItem 2 = Some (limitReached 2 ''Diwali'') \<and>
   campaignUsage campaignDb ''e1'' ''k1'' None = 1 \<and>
   usagePost campaignDb ''e1'' ''k1'' = 1 \<and>
   campaignCheckPost campaignDb ''e1'' (Some ''k1'') 1 = None"
proof -
  have c: "cmp_isActive campaign1" "cmp_maxProductsPerUser campaign1 = Some 2"
    "cmp_name campaign1 = ''Diwali''"
    by (simp_all add: campaign1_def)
  have s: "stockOr0 penProduct = 10" by (simp add: stockOr0_def penProduct_def)
  have a: "campaignAllows campaignDb ''e1'' ''k1'' campaign1 (Some ''c1'') 2"
    by (simp add: campaignAllows_def c ex_campaignUsage)
  show ?thesis
    apply (intro conjI)
    apply (rule camp_simps(1))
    apply (rule c(1))
    apply (rule c(2))
    apply (rule c(3))
    apply (rule ex_campaignProducts)
    apply (rule camp_simps(2))
    apply (rule legacy_simps(1))
    apply (rule legacy_simps(2))
    apply (rule legacy_simps(3))
    apply (rule camp_simps(3))
    apply (rule camp_simps(4))
    apply (rule campItem_simps(2))
    apply (rule campItem_simps(1))
    apply (rule campItem_simps(4))
    apply (rule campItem_simps(5))
    apply (rule camp_simps(5))
    apply (rule s)
    apply (rule ex_campaignUsage(1))
    apply (rule a)
    apply (rule ex_usagePut)
    apply (rule ex_campaignCheckPut)
    apply (rule ex_campaignUsage(2))
    apply (rule ex_usagePost)
    apply (rule ex_campaignCheckPost)
    done
qed

end
